theory Spec2Isabelle
  imports Main "HOL-Library.Word"
begin

unbundle bit_operations_syntax

section \<open>Machine types\<close>

type_synonym u8 = "8 word"
type_synonym u16 = "16 word"
type_synonym u32 = "32 word"
type_synonym u64 = "64 word"

text \<open>
  A C++ \<open>float\<close> is kept as its IEEE-754 binary32 bit pattern. The loader only compares
  floats with \<open><\<close>: a comparison with a NaN operand is false, and otherwise the order is
  the order of the sign-magnitude integers (both zeros compare equal).
\<close>

type_synonym f32 = "32 word"

definition f32_is_nan :: "f32 \<Rightarrow> bool" where
  "f32_is_nan w = (w AND 0x7F800000 = 0x7F800000 \<and> w AND 0x007FFFFF \<noteq> 0)"

definition f32_key :: "f32 \<Rightarrow> int" where
  "f32_key w = (if bit w 31 then - uint (w AND 0x7FFFFFFF) else uint (w AND 0x7FFFFFFF))"

definition f32_less :: "f32 \<Rightarrow> f32 \<Rightarrow> bool" where
  "f32_less a b = (\<not> f32_is_nan a \<and> \<not> f32_is_nan b \<and> f32_key a < f32_key b)"

section \<open>The cooked container: header and records\<close>

text \<open>
  The packed structs of the container format. The header used by the loader carries the
  version 1 fields of \<open>SModelHeader\<close> and the node and animation table fields the loader
  reads (\<open>nodeCount\<close>, \<open>animClipsCount\<close>, ...); counts are 32-bit, offsets and sizes 64-bit.
\<close>

record SModelHeaderV1 =
  magic :: u32
  versionMajor :: u16
  versionMinor :: u16
  fileSizeBytes :: u32
  flags :: u32
  meshCount :: u32
  primitiveCount :: u32
  materialCount :: u32
  textureCount :: u32
  meshesOffset :: u64
  primitivesOffset :: u64
  materialsOffset :: u64
  texturesOffset :: u64
  stringTableOffset :: u64
  blobOffset :: u64
  stringTableSize :: u64
  blobSize :: u64

record SModelHeaderV2 = SModelHeaderV1 +
  nodeCount :: u32
  nodesOffset :: u64
  nodePrimitiveIndexCount :: u32
  nodePrimitiveIndicesOffset :: u64
  nodeChildIndicesCount :: u32
  nodeChildIndicesOffset :: u64

record SModelHeader = SModelHeaderV2 +
  animClipsCount :: u32
  animClipsOffset :: u64
  animChannelsCount :: u32
  animChannelsOffset :: u64
  animSamplersCount :: u32
  animSamplersOffset :: u64
  animTimesCount :: u32
  animTimesOffset :: u64
  animValuesCount :: u32
  animValuesOffset :: u64

record SModelMeshRecord =
  mesh_nameStrOffset :: u32
  mesh_vertexStride :: u32
  mesh_vertexCount :: u32
  mesh_indexCount :: u32
  mesh_layoutFlags :: u32
  mesh_indexType :: u32
  mesh_vertexDataOffset :: u64
  mesh_vertexDataSize :: u64
  mesh_indexDataOffset :: u64
  mesh_indexDataSize :: u64
  mesh_aabbMin :: "f32 list"
  mesh_aabbMax :: "f32 list"

record SModelTextureRecord =
  tex_nameStrOffset :: u32
  tex_uriStrOffset :: u32
  tex_colorSpace :: u32
  tex_encoding :: u32
  tex_wrapU :: u32
  tex_wrapV :: u32
  tex_minFilter :: u32
  tex_magFilter :: u32
  tex_mipFilter :: u32
  tex_maxAnisotropy :: f32
  tex_imageDataOffset :: u64
  tex_imageDataSize :: u64

record SModelMaterialRecord =
  mat_nameStrOffset :: u32
  mat_baseColorFactor :: "f32 list"
  mat_emissiveFactor :: "f32 list"
  mat_metallicFactor :: f32
  mat_roughnessFactor :: f32
  mat_normalScale :: f32
  mat_occlusionStrength :: f32
  mat_alphaCutoff :: f32
  mat_alphaMode :: u32
  mat_doubleSided :: u32
  mat_baseColorTexture :: u32
  mat_normalTexture :: u32
  mat_metallicRoughnessTexture :: u32
  mat_occlusionTexture :: u32
  mat_emissiveTexture :: u32
  mat_baseColorTexCoord :: u32
  mat_normalTexCoord :: u32
  mat_metallicRoughnessTexCoord :: u32
  mat_occlusionTexCoord :: u32
  mat_emissiveTexCoord :: u32

record SModelPrimitiveRecord =
  prim_meshIndex :: u32
  prim_materialIndex :: u32
  prim_firstIndex :: u32
  prim_indexCount :: u32
  prim_vertexOffset :: u32

record SModelNodeRecord =
  node_parentIndex :: u32
  node_firstChildIndex :: u32
  node_childCount :: u32
  node_firstPrimitiveIndex :: u32
  node_primitiveCount :: u32

record SModelAnimationClipRecord =
  clip_nameOffset :: u32
  clip_durationSec :: f32
  clip_firstChannel :: u32
  clip_channelCount :: u32

record SModelAnimationChannelRecord =
  chan_targetNode :: u32
  chan_path :: u16
  chan_samplerIndex :: u16

record SModelAnimationSamplerRecord =
  samp_firstTime :: u32
  samp_timeCount :: u32
  samp_firstValue :: u32
  samp_valueCount :: u32
  samp_interpolation :: u8
  samp_valueType :: u8

text \<open>
  The loader reads the file through \<open>reinterpret_cast\<close> on these structs. The model takes
  the decoded image of the byte buffer: its length, the header found at offset 0 and, for
  every table, the record found at index \<open>i\<close> counted from the table's declared offset
  (\<open>blob\<close> and \<open>stringTable\<close> give the byte at a relative offset). A signed 32-bit field
  (\<open>int32_t\<close>) is a \<open>u32\<close> read with \<open>sint\<close>. Tables are total: an index that the
  validation should have excluded reads whatever lies there.
\<close>

record SModelFile =
  uFileSize :: u64
  header :: SModelHeader
  meshes :: "nat \<Rightarrow> SModelMeshRecord"
  primitives :: "nat \<Rightarrow> SModelPrimitiveRecord"
  materials :: "nat \<Rightarrow> SModelMaterialRecord"
  textures :: "nat \<Rightarrow> SModelTextureRecord"
  nodes :: "nat \<Rightarrow> SModelNodeRecord"
  nodePrimitiveIndices :: "nat \<Rightarrow> u32"
  nodeChildIndices :: "nat \<Rightarrow> u32"
  animClips :: "nat \<Rightarrow> SModelAnimationClipRecord"
  animChannels :: "nat \<Rightarrow> SModelAnimationChannelRecord"
  animSamplers :: "nat \<Rightarrow> SModelAnimationSamplerRecord"
  animTimes :: "nat \<Rightarrow> f32"
  animValues :: "nat \<Rightarrow> f32"
  stringTable :: "nat \<Rightarrow> u8"
  blob :: "nat \<Rightarrow> u8"

text \<open>What opening and reading the path gives (\<open>std::ifstream\<close>).\<close>

datatype read_result = OpenFailed | SizeNotPositive | ReadFailed | FileBytes SModelFile

text \<open>
  Declarations of the format header that the loader uses: the sizes of the header, the
  primitive record and the node record, and \<open>isHeaderCompatible\<close>. They are parameters
  of the loader model. The other record sizes are fixed by the \<open>static_assert\<close>s.
\<close>

record format_decls =
  sizeof_SModelHeader :: nat
  sizeof_SModelPrimitiveRecord :: nat
  sizeof_SModelNodeRecord :: nat
  isHeaderCompatible :: "SModelHeader \<Rightarrow> bool"

definition sizeof_SModelMeshRecord :: nat where "sizeof_SModelMeshRecord = 80"
definition sizeof_SModelMaterialRecord :: nat where "sizeof_SModelMaterialRecord = 104"
definition sizeof_SModelTextureRecord :: nat where "sizeof_SModelTextureRecord = 64"
definition sizeof_SModelAnimationClipRecord :: nat where "sizeof_SModelAnimationClipRecord = 16"
definition sizeof_SModelAnimationChannelRecord :: nat where "sizeof_SModelAnimationChannelRecord = 8"
definition sizeof_SModelAnimationSamplerRecord :: nat where "sizeof_SModelAnimationSamplerRecord = 20"
definition sizeof_float :: nat where "sizeof_float = 4"
definition sizeof_uint32_t :: nat where "sizeof_uint32_t = 4"

section \<open>LoadSModelFile\<close>

text \<open>
  The reason string the loader leaves in \<open>outError\<close>. \<open>ErrAt msg i\<close> is the message
  \<open>msg\<close> completed with the record index \<open>i\<close> (\<open>std::to_string(i)\<close>), \<open>ErrField\<close>
  carries the material index and the field name, \<open>ErrTable\<close> the offset, byte count and
  file size of a table that lies outside the file.
\<close>

datatype load_error =
    Err string
  | ErrAt string nat
  | ErrField string nat string
  | ErrTable u64 u64 u64

text \<open>
  A check yields \<open>None\<close> when it passes and the error it reports otherwise. The checks of
  a block run in source order and the first failure is returned.
\<close>

fun first_failure :: "load_error option list \<Rightarrow> load_error option" where
  "first_failure [] = None"
| "first_failure (c # cs) = (case c of Some e \<Rightarrow> Some e | None \<Rightarrow> first_failure cs)"

text \<open>A \<open>for\<close> loop over indices that returns from the function at the first failure.\<close>

fun for_each :: "nat list \<Rightarrow> (nat \<Rightarrow> load_error option) \<Rightarrow> load_error option" where
  "for_each [] body = None"
| "for_each (i # is) body = (case body i of Some e \<Rightarrow> Some e | None \<Rightarrow> for_each is body)"

definition failing :: "bool \<Rightarrow> load_error \<Rightarrow> load_error option" where
  "failing c e = (if c then Some e else None)"

definition isRangeInsideFile :: "u64 \<Rightarrow> u64 \<Rightarrow> u64 \<Rightarrow> bool" where
  "isRangeInsideFile begin sz fileSize =
     (if begin > fileSize then False
      else if sz > fileSize then False
      else if begin + sz > fileSize then False
      else True)"

definition tableRangeValid :: "nat \<Rightarrow> u64 \<Rightarrow> u64 \<Rightarrow> u64 \<Rightarrow> load_error option" where
  "tableRangeValid sizeof_T tableOffset count fileSize =
     (let bytes = count * of_nat sizeof_T
      in failing (\<not> isRangeInsideFile tableOffset bytes fileSize)
           (ErrTable tableOffset bytes fileSize))"

text \<open>\<open>ptrAt\<close>: the pointer (\<open>None\<close> is \<open>nullptr\<close>) and the error it may set.\<close>

definition ptrAt :: "nat \<Rightarrow> (nat \<Rightarrow> 'a) \<Rightarrow> u64 \<Rightarrow> u64 \<Rightarrow> u64 \<Rightarrow> (nat \<Rightarrow> 'a) option \<times> load_error option" where
  "ptrAt sizeof_T tbl fileSize offset count =
     (if count = 0 then (None, None)
      else (case tableRangeValid sizeof_T offset count fileSize of
              Some e \<Rightarrow> (None, Some e)
            | None \<Rightarrow> (Some tbl, None)))"

text \<open>
  The view handed out on success: the owner of the bytes and the table pointers that may
  be \<open>nullptr\<close> (\<open>None\<close>). The tables that are always set are read from \<open>fileBytes\<close>.
\<close>

record SModelFileView =
  fileBytes :: SModelFile
  view_nodes :: "(nat \<Rightarrow> SModelNodeRecord) option"
  view_nodePrimitiveIndices :: "(nat \<Rightarrow> u32) option"
  view_nodeChildIndices :: "(nat \<Rightarrow> u32) option"
  view_animClips :: "(nat \<Rightarrow> SModelAnimationClipRecord) option"
  view_animChannels :: "(nat \<Rightarrow> SModelAnimationChannelRecord) option"
  view_animSamplers :: "(nat \<Rightarrow> SModelAnimationSamplerRecord) option"
  view_animTimes :: "(nat \<Rightarrow> f32) option"
  view_animValues :: "(nat \<Rightarrow> f32) option"

definition is_nullptr :: "'a option \<Rightarrow> bool" where
  "is_nullptr p = (case p of None \<Rightarrow> True | Some _ \<Rightarrow> False)"

definition U32_MAX :: u32 where "U32_MAX = 0xFFFFFFFF"

subsection \<open>Section and table bounds\<close>

definition check_sections :: "SModelFile \<Rightarrow> load_error option" where
  "check_sections f =
     (let h = header f; n = uFileSize f in
      first_failure
       [failing (\<not> isRangeInsideFile (stringTableOffset h) (stringTableSize h) n)
          (Err ''String table out of bounds.''),
        failing (\<not> isRangeInsideFile (blobOffset h) (blobSize h) n)
          (Err ''Blob section out of bounds.'')])"

definition check_record_tables :: "format_decls \<Rightarrow> SModelFile \<Rightarrow> load_error option" where
  "check_record_tables d f =
     (let h = header f; n = uFileSize f in
      first_failure
       [tableRangeValid sizeof_SModelMeshRecord (meshesOffset h) (ucast (meshCount h)) n,
        tableRangeValid (sizeof_SModelPrimitiveRecord d) (primitivesOffset h) (ucast (primitiveCount h)) n,
        tableRangeValid sizeof_SModelMaterialRecord (materialsOffset h) (ucast (materialCount h)) n,
        tableRangeValid sizeof_SModelTextureRecord (texturesOffset h) (ucast (textureCount h)) n])"

definition check_node_tables :: "format_decls \<Rightarrow> SModelFile \<Rightarrow> load_error option" where
  "check_node_tables d f =
     (let h = header f; n = uFileSize f in
      first_failure
       [if nodeCount h > 0
        then tableRangeValid (sizeof_SModelNodeRecord d) (nodesOffset h) (ucast (nodeCount h)) n
        else None,
        if nodePrimitiveIndexCount h > 0
        then (let bytes = ucast (nodePrimitiveIndexCount h) * of_nat sizeof_uint32_t in
              failing (\<not> isRangeInsideFile (nodePrimitiveIndicesOffset h) bytes n)
                (Err ''NodePrimitiveIndices table out of file bounds.''))
        else None,
        if nodeChildIndicesCount h > 0
        then (let bytes = ucast (nodeChildIndicesCount h) * of_nat sizeof_uint32_t in
              failing (\<not> isRangeInsideFile (nodeChildIndicesOffset h) bytes n)
                (Err ''NodeChildIndices table out of file bounds.''))
        else None])"

definition check_anim_tables :: "SModelFile \<Rightarrow> load_error option" where
  "check_anim_tables f =
     (let h = header f; n = uFileSize f in
      first_failure
       [if animClipsCount h > 0
        then tableRangeValid sizeof_SModelAnimationClipRecord (animClipsOffset h) (ucast (animClipsCount h)) n
        else None,
        if animChannelsCount h > 0
        then tableRangeValid sizeof_SModelAnimationChannelRecord (animChannelsOffset h) (ucast (animChannelsCount h)) n
        else None,
        if animSamplersCount h > 0
        then tableRangeValid sizeof_SModelAnimationSamplerRecord (animSamplersOffset h) (ucast (animSamplersCount h)) n
        else None,
        if animTimesCount h > 0
        then tableRangeValid sizeof_float (animTimesOffset h) (ucast (animTimesCount h)) n
        else None,
        if animValuesCount h > 0
        then tableRangeValid sizeof_float (animValuesOffset h) (ucast (animValuesCount h)) n
        else None])"

subsection \<open>Building the view\<close>

definition build_view :: "SModelFile \<Rightarrow> SModelFileView" where
  "build_view f =
     (let h = header f; n = uFileSize f in
      \<lparr> fileBytes = f,
        view_nodes = (if nodeCount h > 0 then Some (nodes f) else None),
        view_nodePrimitiveIndices =
          (if nodePrimitiveIndexCount h > 0 then Some (nodePrimitiveIndices f) else None),
        view_nodeChildIndices =
          (if nodeChildIndicesCount h > 0 then Some (nodeChildIndices f) else None),
        view_animClips =
          fst (ptrAt sizeof_SModelAnimationClipRecord (animClips f) n (animClipsOffset h) (ucast (animClipsCount h))),
        view_animChannels =
          fst (ptrAt sizeof_SModelAnimationChannelRecord (animChannels f) n (animChannelsOffset h) (ucast (animChannelsCount h))),
        view_animSamplers =
          fst (ptrAt sizeof_SModelAnimationSamplerRecord (animSamplers f) n (animSamplersOffset h) (ucast (animSamplersCount h))),
        view_animTimes =
          fst (ptrAt sizeof_float (animTimes f) n (animTimesOffset h) (ucast (animTimesCount h))),
        view_animValues =
          fst (ptrAt sizeof_float (animValues f) n (animValuesOffset h) (ucast (animValuesCount h))) \<rparr>)"

text \<open>The \<open>if (!outError.empty()) return false\<close> after each \<open>ptrAt\<close>.\<close>

definition check_anim_pointers :: "SModelFile \<Rightarrow> load_error option" where
  "check_anim_pointers f =
     (let h = header f; n = uFileSize f in
      first_failure
       [snd (ptrAt sizeof_SModelAnimationClipRecord (animClips f) n (animClipsOffset h) (ucast (animClipsCount h))),
        snd (ptrAt sizeof_SModelAnimationChannelRecord (animChannels f) n (animChannelsOffset h) (ucast (animChannelsCount h))),
        snd (ptrAt sizeof_SModelAnimationSamplerRecord (animSamplers f) n (animSamplersOffset h) (ucast (animSamplersCount h))),
        snd (ptrAt sizeof_float (animTimes f) n (animTimesOffset h) (ucast (animTimesCount h))),
        snd (ptrAt sizeof_float (animValues f) n (animValuesOffset h) (ucast (animValuesCount h)))])"

subsection \<open>Record validation\<close>

definition check_mesh :: "SModelFile \<Rightarrow> nat \<Rightarrow> load_error option" where
  "check_mesh f i =
     (let m = meshes f i; blobSz = blobSize (header f) in
      first_failure
       [failing (mesh_vertexDataOffset m + mesh_vertexDataSize m > blobSz)
          (ErrAt ''Mesh vertex data slice out of blob bounds (meshIndex='' i),
        failing (mesh_indexDataOffset m + mesh_indexDataSize m > blobSz)
          (ErrAt ''Mesh index data slice out of blob bounds (meshIndex='' i),
        failing (mesh_vertexCount m = 0 \<or> mesh_vertexStride m = 0)
          (ErrAt ''Mesh has invalid vertexCount/vertexStride (meshIndex='' i),
        (let expectedVBSize = (ucast (mesh_vertexCount m) :: u64) * ucast (mesh_vertexStride m) in
         failing (mesh_vertexDataSize m \<noteq> expectedVBSize)
           (ErrAt ''Mesh vertexDataSize mismatch (meshIndex='' i))])"

definition check_texture :: "SModelFile \<Rightarrow> nat \<Rightarrow> load_error option" where
  "check_texture f i =
     (let t = textures f i; blobSz = blobSize (header f) in
      failing (tex_imageDataOffset t + tex_imageDataSize t > blobSz)
        (ErrAt ''Texture image data slice out of blob bounds (textureIndex='' i))"

definition check_primitive :: "SModelFile \<Rightarrow> nat \<Rightarrow> load_error option" where
  "check_primitive f i =
     (let p = primitives f i; h = header f in
      first_failure
       [failing (prim_meshIndex p \<ge> meshCount h)
          (ErrAt ''Primitive references invalid meshIndex (primitiveIndex='' i),
        failing (prim_materialIndex p \<ge> materialCount h)
          (ErrAt ''Primitive references invalid materialIndex (primitiveIndex='' i)])"

definition checkTex :: "SModelFile \<Rightarrow> nat \<Rightarrow> u32 \<Rightarrow> string \<Rightarrow> load_error option" where
  "checkTex f i texIndex fieldName =
     (if sint texIndex < 0 then None
      else failing (texIndex \<ge> textureCount (header f))
             (ErrField ''Material references invalid texture index (materialIndex='' i fieldName))"

definition check_material :: "SModelFile \<Rightarrow> nat \<Rightarrow> load_error option" where
  "check_material f i =
     (let mat = materials f i in
      first_failure
       [checkTex f i (mat_baseColorTexture mat) ''baseColorTexture'',
        checkTex f i (mat_normalTexture mat) ''normalTexture'',
        checkTex f i (mat_metallicRoughnessTexture mat) ''metallicRoughnessTexture'',
        checkTex f i (mat_occlusionTexture mat) ''occlusionTexture'',
        checkTex f i (mat_emissiveTexture mat) ''emissiveTexture''])"

definition check_records :: "SModelFile \<Rightarrow> load_error option" where
  "check_records f =
     (let h = header f in
      first_failure
       [for_each [0..<unat (meshCount h)] (check_mesh f),
        for_each [0..<unat (textureCount h)] (check_texture f),
        for_each [0..<unat (primitiveCount h)] (check_primitive f),
        for_each [0..<unat (materialCount h)] (check_material f)])"

subsection \<open>Node graph validation\<close>

definition check_node_child :: "SModelFile \<Rightarrow> nat \<Rightarrow> SModelNodeRecord \<Rightarrow> nat \<Rightarrow> load_error option" where
  "check_node_child f ni nr k =
     (let c = nodeChildIndices f (unat (node_firstChildIndex nr + of_nat k)) in
      first_failure
       [failing (c \<ge> nodeCount (header f)) (Err ''Node references invalid child node index''),
        failing (node_parentIndex (nodes f (unat c)) \<noteq> of_nat ni)
          (Err ''Node child parentIndex mismatch'')])"

definition check_node_children :: "SModelFileView \<Rightarrow> nat \<Rightarrow> SModelNodeRecord \<Rightarrow> load_error option" where
  "check_node_children v ni nr =
     (let f = fileBytes v; childIdxCount = nodeChildIndicesCount (header f) in
      if node_childCount nr > 0
      then first_failure
        [failing (is_nullptr (view_nodeChildIndices v))
           (Err ''Node has children but nodeChildIndices table is missing''),
         failing (node_firstChildIndex nr = U32_MAX)
           (Err ''Node has children but firstChildIndex == UINT32_MAX''),
         failing (node_firstChildIndex nr + node_childCount nr > childIdxCount)
           (Err ''Node child index range out of bounds''),
         for_each [0..<unat (node_childCount nr)] (check_node_child f ni nr)]
      else None)"

definition check_node_primitives :: "SModelFile \<Rightarrow> SModelNodeRecord \<Rightarrow> load_error option" where
  "check_node_primitives f nr =
     (let idxCount = nodePrimitiveIndexCount (header f); primCount = primitiveCount (header f) in
      if node_primitiveCount nr > 0
      then first_failure
        [failing (node_firstPrimitiveIndex nr + node_primitiveCount nr > idxCount)
           (Err ''Node primitive index range out of bounds''),
         for_each [0..<unat (node_primitiveCount nr)]
           (\<lambda>k. let pidx = nodePrimitiveIndices f (unat (node_firstPrimitiveIndex nr + of_nat k)) in
                failing (pidx \<ge> primCount) (Err ''Node references invalid primitive index''))]
      else None)"

definition check_node :: "SModelFileView \<Rightarrow> nat \<Rightarrow> load_error option" where
  "check_node v ni =
     (let f = fileBytes v; nr = nodes f ni in
      first_failure
       [failing (node_parentIndex nr \<noteq> U32_MAX \<and> node_parentIndex nr \<ge> nodeCount (header f))
          (Err ''Node parentIndex out of bounds''),
        check_node_children v ni nr,
        check_node_primitives f nr])"

definition check_nodes :: "SModelFileView \<Rightarrow> load_error option" where
  "check_nodes v =
     (let h = header (fileBytes v) in
      if nodeCount h > 0 then for_each [0..<unat (nodeCount h)] (check_node v) else None)"

subsection \<open>Animation validation\<close>

definition check_anim_null :: "SModelFileView \<Rightarrow> load_error option" where
  "check_anim_null v =
     (let h = header (fileBytes v) in
      first_failure
       [failing (animClipsCount h > 0 \<and> is_nullptr (view_animClips v))
          (Err ''animClipsCount > 0 but animClips pointer is null''),
        failing (animChannelsCount h > 0 \<and> is_nullptr (view_animChannels v))
          (Err ''animChannelsCount > 0 but animChannels pointer is null''),
        failing (animSamplersCount h > 0 \<and> is_nullptr (view_animSamplers v))
          (Err ''animSamplersCount > 0 but animSamplers pointer is null''),
        failing (animTimesCount h > 0 \<and> is_nullptr (view_animTimes v))
          (Err ''animTimesCount > 0 but animTimes pointer is null''),
        failing (animValuesCount h > 0 \<and> is_nullptr (view_animValues v))
          (Err ''animValuesCount > 0 but animValues pointer is null'')])"

definition isValidPath :: "u16 \<Rightarrow> bool" where
  "isValidPath path = (path = 0 \<or> path = 1 \<or> path = 2)"

definition isValidInterpolation :: "u8 \<Rightarrow> bool" where
  "isValidInterpolation interp = (interp = 0 \<or> interp = 1 \<or> interp = 2)"

definition isValidValueType :: "u8 \<Rightarrow> bool" where
  "isValidValueType vt = (vt = 0 \<or> vt = 1)"

definition check_clip :: "SModelFile \<Rightarrow> nat \<Rightarrow> load_error option" where
  "check_clip f ci =
     (let clip = animClips f ci in
      first_failure
       [failing (f32_less (clip_durationSec clip) 0) (Err ''Animation clip durationSec < 0''),
        failing (clip_firstChannel clip + clip_channelCount clip > animChannelsCount (header f))
          (Err ''Animation clip channel range out of bounds'')])"

definition check_channel :: "SModelFile \<Rightarrow> nat \<Rightarrow> load_error option" where
  "check_channel f ch =
     (let chan = animChannels f ch in
      first_failure
       [failing (chan_targetNode chan \<ge> nodeCount (header f))
          (Err ''Animation channel targetNode out of bounds''),
        failing (ucast (chan_samplerIndex chan) \<ge> animSamplersCount (header f))
          (Err ''Animation channel samplerIndex out of bounds''),
        failing (\<not> isValidPath (chan_path chan)) (Err ''Animation channel path is invalid'')])"

text \<open>The checks of one sampler before its times are read.\<close>

definition check_sampler_record :: "SModelFile \<Rightarrow> SModelAnimationSamplerRecord \<Rightarrow> load_error option" where
  "check_sampler_record f s =
     (let timesCount = animTimesCount (header f); valuesCount = animValuesCount (header f) in
      first_failure
       [failing (samp_timeCount s < 1) (Err ''Animation sampler timeCount < 1''),
        failing (samp_firstTime s + samp_timeCount s > timesCount)
          (Err ''Animation sampler time range out of bounds''),
        failing (samp_firstValue s + samp_valueCount s > valuesCount)
          (Err ''Animation sampler value range out of bounds''),
        failing (\<not> isValidInterpolation (samp_interpolation s))
          (Err ''Animation sampler interpolation is invalid''),
        failing (\<not> isValidValueType (samp_valueType s))
          (Err ''Animation sampler valueType is invalid''),
        (let expected = (if samp_valueType s = 0
                         then (ucast (samp_timeCount s) :: u64) * 3
                         else (ucast (samp_timeCount s) :: u64) * 4) in
         failing ((ucast (samp_valueCount s) :: u64) \<noteq> expected)
           (Err ''Animation sampler valueCount does not match timeCount * valueWidth''))])"

text \<open>
  The loop \<open>for (ti = 1; ti < s.timeCount; ++ti)\<close> over \<open>times = animTimes + s.firstTime\<close>.
\<close>

definition check_sampler_times :: "SModelFile \<Rightarrow> SModelAnimationSamplerRecord \<Rightarrow> load_error option" where
  "check_sampler_times f s =
     (let times = (\<lambda>ti. animTimes f (unat (samp_firstTime s) + ti)) in
      for_each [1..<unat (samp_timeCount s)]
        (\<lambda>ti. failing (f32_less (times ti) (times (ti - 1)))
                 (Err ''Animation sampler times are not non-decreasing'')))"

definition check_sampler :: "SModelFile \<Rightarrow> nat \<Rightarrow> load_error option" where
  "check_sampler f si =
     (let s = animSamplers f si in
      first_failure [check_sampler_record f s, check_sampler_times f s])"

definition check_animation :: "SModelFileView \<Rightarrow> load_error option" where
  "check_animation v =
     (let f = fileBytes v; h = header f in
      first_failure
       [check_anim_null v,
        for_each [0..<unat (animClipsCount h)] (check_clip f),
        for_each [0..<unat (animChannelsCount h)] (check_channel f)])"

subsection \<open>The loader\<close>

text \<open>Everything the loader checks before it walks the sampler table.\<close>

definition checks_before_samplers :: "format_decls \<Rightarrow> SModelFile \<Rightarrow> load_error option" where
  "checks_before_samplers d f =
     first_failure
      [failing (uFileSize f < of_nat (sizeof_SModelHeader d))
         (Err ''File too small to contain SModelHeader.''),
       failing (\<not> isHeaderCompatible d (header f))
         (Err ''SModel header incompatible (bad magic or unsupported version).''),
       failing (fileSizeBytes (header f) \<noteq> 0 \<and> ucast (fileSizeBytes (header f)) \<noteq> uFileSize f)
         (Err ''SModel header fileSizeBytes does not match actual file size.''),
       check_sections f,
       check_record_tables d f,
       check_node_tables d f,
       check_anim_tables f,
       check_anim_pointers f,
       check_records f,
       check_nodes (build_view f),
       check_animation (build_view f)]"

definition validate :: "format_decls \<Rightarrow> SModelFile \<Rightarrow> load_error option" where
  "validate d f =
     first_failure
      [checks_before_samplers d f,
       for_each [0..<unat (animSamplersCount (header f))] (check_sampler f)]"

definition LoadSModelFile ::
  "format_decls \<Rightarrow> (string \<Rightarrow> read_result) \<Rightarrow> string \<Rightarrow> load_error + SModelFileView" where
  "LoadSModelFile d fs path =
     (case fs path of
        OpenFailed \<Rightarrow> Inl (Err (''Failed to open file: '' @ path))
      | SizeNotPositive \<Rightarrow> Inl (Err (''File is empty: '' @ path))
      | ReadFailed \<Rightarrow> Inl (Err (''Failed to read file bytes: '' @ path))
      | FileBytes f \<Rightarrow>
          (case validate d f of
             Some e \<Rightarrow> Inl e
           | None \<Rightarrow> Inr (build_view f)))"

section \<open>Runtime entities\<close>

text \<open>
  Modelled from the spec: the handle types (\<open>MeshHandle\<close>, \<open>TextureHandle\<close>,
  \<open>MaterialHandle\<close>, \<open>ModelHandle\<close>) are declared in \<open>Handles.h\<close>, which is not among the
  sources. A handle is the pair {identifier, generation}; the value-initialised handle
  (\<open>MeshHandle{}\<close>) is the invalid handle that the failure paths return, and \<open>isValid\<close>
  tells it from the handles a registry issues. The four handle types have the same
  shape and share one record.

  Identifiers are \<open>uint64_t\<close> counters that advance by one per created resource; no
  execution performs \<open>2^64\<close> creations, so they are natural numbers here. Reference
  counts are assigned from \<open>uint32_t initialRef\<close> and changed by \<open>++\<close> and \<open>--\<close>: they are
  32-bit words and wrap.
\<close>

record Handle =
  handle_id :: nat
  handle_generation :: u32

definition invalid_handle :: Handle where
  "invalid_handle = \<lparr> handle_id = 0, handle_generation = 0 \<rparr>"

definition isValid :: "Handle \<Rightarrow> bool" where
  "isValid h = (handle_id h \<noteq> 0)"

datatype VkSamplerAddressMode =
    VK_SAMPLER_ADDRESS_MODE_REPEAT
  | VK_SAMPLER_ADDRESS_MODE_CLAMP_TO_EDGE
  | VK_SAMPLER_ADDRESS_MODE_MIRRORED_REPEAT

datatype VkFilter = VK_FILTER_NEAREST | VK_FILTER_LINEAR

datatype VkSamplerMipmapMode = VK_SAMPLER_MIPMAP_MODE_NEAREST | VK_SAMPLER_MIPMAP_MODE_LINEAR

datatype VkFormat = VK_FORMAT_R8G8B8A8_SRGB | VK_FORMAT_R8G8B8A8_UNORM

datatype VkImageLayout =
    VK_IMAGE_LAYOUT_UNDEFINED
  | VK_IMAGE_LAYOUT_TRANSFER_DST_OPTIMAL
  | VK_IMAGE_LAYOUT_SHADER_READ_ONLY_OPTIMAL

definition toVkWrap :: "u32 \<Rightarrow> VkSamplerAddressMode" where
  "toVkWrap wrap =
     (if wrap = 1 then VK_SAMPLER_ADDRESS_MODE_CLAMP_TO_EDGE
      else if wrap = 2 then VK_SAMPLER_ADDRESS_MODE_MIRRORED_REPEAT
      else VK_SAMPLER_ADDRESS_MODE_REPEAT)"

definition toVkFilter :: "u32 \<Rightarrow> VkFilter" where
  "toVkFilter f = (if f = 1 then VK_FILTER_LINEAR else VK_FILTER_NEAREST)"

definition toVkMip :: "u32 \<Rightarrow> VkSamplerMipmapMode" where
  "toVkMip m = (if m = 2 then VK_SAMPLER_MIPMAP_MODE_LINEAR else VK_SAMPLER_MIPMAP_MODE_NEAREST)"

text \<open>The sampler arguments that \<open>loadModel\<close> derives from a texture record.\<close>

record SamplerSettings =
  wrapU :: VkSamplerAddressMode
  wrapV :: VkSamplerAddressMode
  minFilter :: VkFilter
  magFilter :: VkFilter
  mipMode :: VkSamplerMipmapMode
  maxAnisotropy :: f32

text \<open>
  A texture asset: whether the image and the view exist, the sampler it was created
  with (settings and maximal level of detail), and the declared extent, mip count and
  format.
\<close>

record TextureAsset =
  m_image :: bool
  m_view :: bool
  m_sampler :: "(SamplerSettings \<times> u32) option"
  m_width :: u32
  m_height :: u32
  m_mipLevels :: u32
  m_format :: VkFormat

definition new_TextureAsset :: TextureAsset where
  "new_TextureAsset =
     \<lparr> m_image = False, m_view = False, m_sampler = None, m_width = 0, m_height = 0,
       m_mipLevels = 1, m_format = VK_FORMAT_R8G8B8A8_UNORM \<rparr>"

record MeshData =
  md_vertexCount :: u32
  md_indexCount :: u32
  md_vertexStride :: u32
  md_indexFormat :: u32
  md_aabbMin :: "f32 list"
  md_aabbMax :: "f32 list"
  md_vertexBytes :: "u8 list"
  md_indices16 :: "u16 list"
  md_indices32 :: "u32 list"

text \<open>A mesh asset holds the buffers made from the data it uploaded.\<close>

record MeshAsset =
  uploaded :: MeshData

record MaterialAsset =
  baseColorFactor :: "f32 list"
  emissiveFactor :: "f32 list"
  metallicFactor :: f32
  roughnessFactor :: f32
  normalScale :: f32
  occlusionStrength :: f32
  alphaCutoff :: f32
  alphaMode :: u32
  doubleSided :: u32
  baseColorTexture :: Handle
  normalTexture :: Handle
  metallicRoughnessTexture :: Handle
  occlusionTexture :: Handle
  emissiveTexture :: Handle
  baseColorTexCoord :: u32
  normalTexCoord :: u32
  metallicRoughnessTexCoord :: u32
  occlusionTexCoord :: u32
  emissiveTexCoord :: u32
  debugName :: string

record ModelPrimitive =
  mp_mesh :: Handle
  mp_material :: Handle
  mp_firstIndex :: u32
  mp_indexCount :: u32
  mp_vertexOffset :: u32

record ModelAsset =
  model_primitives :: "ModelPrimitive list"
  model_debugName :: string

text \<open>
  Registry entries. \<open>asset\<close> is the \<open>std::unique_ptr\<close> (\<open>None\<close> when null). The mesh and
  model entries add the source path, the material and model entries their dependency
  lists.
\<close>

record 'a Entry =
  asset :: "'a option"
  generation :: u32
  refCount :: u32

record 'a PathEntry = "'a Entry" +
  path :: string

record MaterialEntry = "MaterialAsset Entry" +
  textureDeps :: "Handle list"

record ModelEntry = "ModelAsset PathEntry" +
  meshDeps :: "Handle list"
  materialDeps :: "Handle list"

type_synonym MeshEntry = "MeshAsset PathEntry"
type_synonym TextureEntry = "TextureAsset Entry"

section \<open>The device and the collaborators\<close>

text \<open>
  The calls made on the device, in order. The manager's \<open>m_device\<close> is modelled by this
  log: every Vulkan helper the code calls appends its call.
\<close>

datatype gpu_call =
    PoolCreate
  | PoolDestroy
  | UploadBegin
  | SubmitAndWait
  | StagingCreate u64
  | ImageCreate u32 u32 VkFormat u32
  | TransitionImageLayout VkImageLayout VkImageLayout
  | CopyBufferToImage u32 u32
  | GenerateMipmaps VkFormat u32 u32 u32
  | ImageViewCreate VkFormat u32
  | SamplerCreate SamplerSettings u32
  | MeshUpload MeshData
  | MeshDestroy
  | TextureDestroy

text \<open>
  What the code consumes from outside: the file system, the declarations of the format
  header, the standalone mesh reader, the image decoder (width and height, or \<open>None\<close> for
  a null result) and the device. \<open>gpu_ok log\<close> tells whether the last call of \<open>log\<close>
  succeeds, so that the outcome of a call may depend on its arguments and on everything
  that was called before.
\<close>

record collaborators =
  read_file :: "string \<Rightarrow> read_result"
  decls :: format_decls
  LoadSMeshV0FromFile :: "string \<Rightarrow> MeshData option"
  stbi_load_from_memory :: "(nat \<Rightarrow> u8) \<Rightarrow> nat \<Rightarrow> int \<Rightarrow> (int \<times> int) option"
  gpu_ok :: "gpu_call list \<Rightarrow> bool"

definition call :: "collaborators \<Rightarrow> gpu_call \<Rightarrow> gpu_call list \<Rightarrow> bool \<times> gpu_call list" where
  "call env c log = (gpu_ok env (log @ [c]), log @ [c])"

text \<open>
  Modelled from the spec: \<open>UploadContext\<close>, \<open>BeginUploadContext\<close> and \<open>EndSubmitAndWait\<close>
  are declared in \<open>utils/ImageUtils.h\<close>, which is not among the sources. Beginning opens
  the recording scope and fails if the command resource cannot be created; ending
  submits the recorded work, waits, and releases the staging buffers collected in the
  scope.
\<close>

record UploadContext =
  begun :: bool
  cmd :: bool
  pendingStaging :: "u64 list"

definition BeginUploadContext ::
  "collaborators \<Rightarrow> gpu_call list \<Rightarrow> bool \<times> UploadContext \<times> gpu_call list" where
  "BeginUploadContext env log =
     (let (ok, log') = call env UploadBegin log in
      (ok, \<lparr> begun = ok, cmd = ok, pendingStaging = [] \<rparr>, log'))"

definition EndSubmitAndWait ::
  "collaborators \<Rightarrow> UploadContext \<Rightarrow> gpu_call list \<Rightarrow> bool \<times> UploadContext \<times> gpu_call list" where
  "EndSubmitAndWait env ctx log =
     (let (ok, log') = call env SubmitAndWait log in
      (ok, ctx \<lparr> begun := False, pendingStaging := [] \<rparr>, log'))"

section \<open>Texture upload\<close>

fun floor_log2 :: "nat \<Rightarrow> nat" where
  "floor_log2 n = (if n < 2 then 0 else Suc (floor_log2 (n div 2)))"

declare floor_log2.simps [simp del]

definition calcMipLevels :: "u32 \<Rightarrow> u32 \<Rightarrow> u32" where
  "calcMipLevels width height =
     (let maxDim = max width height in
      if maxDim = 0 then 1 else of_nat (floor_log2 (unat maxDim)) + 1)"

definition TextureAsset_destroy :: "TextureAsset \<Rightarrow> TextureAsset" where
  "TextureAsset_destroy t =
     t \<lparr> m_sampler := None, m_view := False, m_image := False, m_width := 0, m_height := 0,
         m_mipLevels := 1, m_format := VK_FORMAT_R8G8B8A8_UNORM \<rparr>"

text \<open>
  \<open>uploadRGBA8_Deferred\<close>: the result flag, the asset, the context and the device log.
  \<open>pixels\<close> tells whether \<open>rgbaPixels\<close> is non-null.
\<close>

definition uploadRGBA8_Deferred ::
  "collaborators \<Rightarrow> UploadContext \<Rightarrow> gpu_call list \<Rightarrow> TextureAsset \<Rightarrow> bool \<Rightarrow> u32 \<Rightarrow> u32 \<Rightarrow> bool
     \<Rightarrow> SamplerSettings \<Rightarrow> bool \<times> TextureAsset \<times> UploadContext \<times> gpu_call list" where
  "uploadRGBA8_Deferred env ctx log tex pixels width height srgbFormat smp =
     (if \<not> begun ctx \<or> \<not> cmd ctx then (False, tex, ctx, log)
      else if \<not> pixels \<or> width = 0 \<or> height = 0 then (False, tex, ctx, log)
      else
        let (tex0, log0) = (if m_image tex then (TextureAsset_destroy tex, log @ [TextureDestroy])
                            else (tex, log));
            mips = calcMipLevels width height;
            fmt = (if srgbFormat then VK_FORMAT_R8G8B8A8_SRGB else VK_FORMAT_R8G8B8A8_UNORM);
            tex1 = tex0 \<lparr> m_width := width, m_height := height, m_mipLevels := mips, m_format := fmt \<rparr>;
            pixelBytes = (ucast width :: u64) * ucast height * 4;
            (r1, log1) = call env (StagingCreate pixelBytes) log0
        in if \<not> r1 then (False, tex1, ctx, log1)
        else
          let ctx1 = ctx \<lparr> pendingStaging := pendingStaging ctx @ [pixelBytes] \<rparr>;
              (r2, log2) = call env (ImageCreate width height fmt mips) log1
          in if \<not> r2 then (False, tex1, ctx1, log2)
          else
            let tex2 = tex1 \<lparr> m_image := True \<rparr>;
                log3 = log2 @ [TransitionImageLayout VK_IMAGE_LAYOUT_UNDEFINED
                                 VK_IMAGE_LAYOUT_TRANSFER_DST_OPTIMAL,
                               CopyBufferToImage width height];
                to_read = TransitionImageLayout VK_IMAGE_LAYOUT_TRANSFER_DST_OPTIMAL
                            VK_IMAGE_LAYOUT_SHADER_READ_ONLY_OPTIMAL;
                (tex3, log4) =
                  (if mips > 1
                   then (let (okMips, l) = call env (GenerateMipmaps fmt width height mips) log3
                         in if \<not> okMips then (tex2 \<lparr> m_mipLevels := 1 \<rparr>, l @ [to_read])
                            else (tex2, l))
                   else (tex2, log3 @ [to_read]));
                (r4, log5) = call env (ImageViewCreate fmt (m_mipLevels tex3)) log4
            in if \<not> r4 then (False, tex3, ctx1, log5)
            else
              let tex4 = tex3 \<lparr> m_view := True \<rparr>;
                  maxLod = (if m_mipLevels tex4 > 0 then m_mipLevels tex4 - 1 else 0);
                  (r5, log6) = call env (SamplerCreate smp maxLod) log5
              in if \<not> r5 then (False, tex4, ctx1, log6)
                 else (True, tex4 \<lparr> m_sampler := Some (smp, maxLod) \<rparr>, ctx1, log6))"

text \<open>
  \<open>uploadEncodedImage_Deferred\<close> on the blob slice that starts at \<open>offset\<close>. The byte count
  reaches the decoder through \<open>static_cast<int>\<close>.
\<close>

definition uploadEncodedImage_Deferred ::
  "collaborators \<Rightarrow> UploadContext \<Rightarrow> gpu_call list \<Rightarrow> TextureAsset \<Rightarrow> (nat \<Rightarrow> u8) \<Rightarrow> u64 \<Rightarrow> u64 \<Rightarrow> bool
     \<Rightarrow> SamplerSettings \<Rightarrow> bool \<times> TextureAsset \<times> UploadContext \<times> gpu_call list" where
  "uploadEncodedImage_Deferred env ctx log tex blob_mem offset encodedSize srgbFormat smp =
     (if encodedSize = 0 then (False, tex, ctx, log)
      else
        (case stbi_load_from_memory env blob_mem (unat offset) (sint (ucast encodedSize :: u32)) of
           None \<Rightarrow> (False, tex, ctx, log)
         | Some (w, h) \<Rightarrow>
             if w \<le> 0 \<or> h \<le> 0 then (False, tex, ctx, log)
             else uploadRGBA8_Deferred env ctx log tex True (word_of_int w) (word_of_int h)
                    srgbFormat smp))"

section \<open>The registries\<close>

text \<open>
  A registry (\<open>std::unordered_map<uint64_t, Entry>\<close>) is the list of its (identifier, entry)
  pairs in iteration order. \<open>find\<close> is \<open>map_of\<close>; \<open>emplace\<close> inserts only when the key is
  absent; an entry reached through an iterator is changed in place; \<open>erase\<close> removes the
  key.
\<close>

type_synonym 'e registry = "(nat \<times> 'e) list"

definition emplace :: "nat \<Rightarrow> 'e \<Rightarrow> 'e registry \<Rightarrow> 'e registry" where
  "emplace k e r = (case map_of r k of None \<Rightarrow> r @ [(k, e)] | Some _ \<Rightarrow> r)"

fun modify_entry :: "nat \<Rightarrow> ('e \<Rightarrow> 'e) \<Rightarrow> 'e registry \<Rightarrow> 'e registry" where
  "modify_entry k g [] = []"
| "modify_entry k g ((k', e) # r) =
     (if k' = k then (k', g e) # r else (k', e) # modify_entry k g r)"

definition erase :: "nat \<Rightarrow> 'e registry \<Rightarrow> 'e registry" where
  "erase k r = filter (\<lambda>(k', e). k' \<noteq> k) r"

text \<open>\<open>get\<close>, \<open>addRef\<close> and \<open>release\<close>, written once for the four entry types.\<close>

definition get_asset :: "Handle \<Rightarrow> ('a, 'z) Entry_scheme registry \<Rightarrow> 'a option" where
  "get_asset h r =
     (case map_of r (handle_id h) of
        None \<Rightarrow> None
      | Some e \<Rightarrow> if generation e \<noteq> handle_generation h then None else asset e)"

definition addRef_entry :: "Handle \<Rightarrow> ('a, 'z) Entry_scheme registry \<Rightarrow> ('a, 'z) Entry_scheme registry" where
  "addRef_entry h r =
     (case map_of r (handle_id h) of
        None \<Rightarrow> r
      | Some e \<Rightarrow>
          if generation e = handle_generation h
          then modify_entry (handle_id h) (\<lambda>e. e \<lparr> refCount := refCount e + 1 \<rparr>) r
          else r)"

definition release_entry :: "Handle \<Rightarrow> ('a, 'z) Entry_scheme registry \<Rightarrow> ('a, 'z) Entry_scheme registry" where
  "release_entry h r =
     (case map_of r (handle_id h) of
        None \<Rightarrow> r
      | Some e \<Rightarrow>
          if generation e = handle_generation h
          then (if refCount e > 0
                then modify_entry (handle_id h) (\<lambda>e. e \<lparr> refCount := refCount e - 1 \<rparr>) r
                else r)
          else r)"

section \<open>AssetManager\<close>

record AssetManager =
  m_meshes :: "MeshEntry registry"
  m_textures :: "TextureEntry registry"
  m_materials :: "MaterialEntry registry"
  m_models :: "ModelEntry registry"
  m_meshPathCache :: "string \<rightharpoonup> Handle"
  m_modelPathCache :: "string \<rightharpoonup> Handle"
  m_nextMeshID :: nat
  m_nextTextureID :: nat
  m_nextMaterialID :: nat
  m_nextModelID :: nat
  m_device :: "gpu_call list"

text \<open>
  Modelled from the spec: the members of \<open>AssetManager\<close> and their initialisers are
  declared in \<open>assets/AssetManager.h\<close>, which is not among the sources. A fresh manager has
  empty registries and caches, and its identifier counters start at 1, the first
  identifier that \<open>isValid\<close> accepts.
\<close>

definition new_AssetManager :: AssetManager where
  "new_AssetManager =
     \<lparr> m_meshes = [], m_textures = [], m_materials = [], m_models = [],
       m_meshPathCache = Map.empty, m_modelPathCache = Map.empty,
       m_nextMeshID = 1, m_nextTextureID = 1, m_nextMaterialID = 1, m_nextModelID = 1,
       m_device = [] \<rparr>"



definition getMaterial :: "Handle \<Rightarrow> AssetManager \<Rightarrow> MaterialAsset option" where
  "getMaterial h s = get_asset h (m_materials s)"

definition getModel :: "Handle \<Rightarrow> AssetManager \<Rightarrow> ModelAsset option" where
  "getModel h s = get_asset h (m_models s)"

definition addRef_Mesh :: "Handle \<Rightarrow> AssetManager \<Rightarrow> AssetManager" where
  "addRef_Mesh h s = s \<lparr> m_meshes := addRef_entry h (m_meshes s) \<rparr>"

definition addRef_Texture :: "Handle \<Rightarrow> AssetManager \<Rightarrow> AssetManager" where
  "addRef_Texture h s = s \<lparr> m_textures := addRef_entry h (m_textures s) \<rparr>"

definition addRef_Material :: "Handle \<Rightarrow> AssetManager \<Rightarrow> AssetManager" where
  "addRef_Material h s = s \<lparr> m_materials := addRef_entry h (m_materials s) \<rparr>"

definition addRef_Model :: "Handle \<Rightarrow> AssetManager \<Rightarrow> AssetManager" where
  "addRef_Model h s = s \<lparr> m_models := addRef_entry h (m_models s) \<rparr>"

definition release_Mesh :: "Handle \<Rightarrow> AssetManager \<Rightarrow> AssetManager" where
  "release_Mesh h s = s \<lparr> m_meshes := release_entry h (m_meshes s) \<rparr>"

definition release_Texture :: "Handle \<Rightarrow> AssetManager \<Rightarrow> AssetManager" where
  "release_Texture h s = s \<lparr> m_textures := release_entry h (m_textures s) \<rparr>"

definition release_Material :: "Handle \<Rightarrow> AssetManager \<Rightarrow> AssetManager" where
  "release_Material h s = s \<lparr> m_materials := release_entry h (m_materials s) \<rparr>"

definition release_Model :: "Handle \<Rightarrow> AssetManager \<Rightarrow> AssetManager" where
  "release_Model h s = s \<lparr> m_models := release_entry h (m_models s) \<rparr>"

subsection \<open>Creating entries\<close>

definition createMeshFromData_Internal ::
  "collaborators \<Rightarrow> MeshData \<Rightarrow> string \<Rightarrow> u32 \<Rightarrow> AssetManager \<Rightarrow> Handle \<times> AssetManager" where
  "createMeshFromData_Internal env data pth initialRef s =
     (let (pr, log1) = call env PoolCreate (m_device s) in
      if \<not> pr then (invalid_handle, s \<lparr> m_device := log1 \<rparr>)
      else
        let (ok, log2) = call env (MeshUpload data) log1;
            log3 = log2 @ [PoolDestroy]
        in if \<not> ok then (invalid_handle, s \<lparr> m_device := log3 \<rparr>)
           else
             let ident = m_nextMeshID s;
                 entry = \<lparr> asset = Some \<lparr> uploaded = data \<rparr>, generation = 1,
                           refCount = initialRef, path = pth \<rparr>
             in (\<lparr> handle_id = ident, handle_generation = 1 \<rparr>,
                 s \<lparr> m_nextMeshID := ident + 1,
                     m_meshes := emplace ident entry (m_meshes s),
                     m_device := log3 \<rparr>))"

definition createTexture_Internal ::
  "TextureAsset option \<Rightarrow> u32 \<Rightarrow> AssetManager \<Rightarrow> Handle \<times> AssetManager" where
  "createTexture_Internal tex initialRef s =
     (let ident = m_nextTextureID s;
          e = \<lparr> asset = tex, generation = 1, refCount = initialRef \<rparr>
      in (\<lparr> handle_id = ident, handle_generation = 1 \<rparr>,
          s \<lparr> m_nextTextureID := ident + 1, m_textures := emplace ident e (m_textures s) \<rparr>))"

text \<open>The texture handles of a material that \<open>isValid\<close> accepts, in the order of the code.\<close>

definition valid_textures :: "MaterialAsset \<Rightarrow> Handle list" where
  "valid_textures a =
     filter isValid
       [baseColorTexture a, normalTexture a, metallicRoughnessTexture a,
        occlusionTexture a, emissiveTexture a]"

definition createMaterial_Internal ::
  "MaterialAsset option \<Rightarrow> u32 \<Rightarrow> AssetManager \<Rightarrow> Handle \<times> AssetManager" where
  "createMaterial_Internal mat initialRef s =
     (let ident = m_nextMaterialID s;
          e = \<lparr> asset = mat, generation = 1, refCount = initialRef,
                textureDeps = (case mat of None \<Rightarrow> [] | Some a \<Rightarrow> valid_textures a) \<rparr>
      in (\<lparr> handle_id = ident, handle_generation = 1 \<rparr>,
          s \<lparr> m_nextMaterialID := ident + 1, m_materials := emplace ident e (m_materials s) \<rparr>))"

definition createModel_Internal ::
  "ModelAsset option \<Rightarrow> string \<Rightarrow> u32 \<Rightarrow> AssetManager \<Rightarrow> Handle \<times> AssetManager" where
  "createModel_Internal model pth initialRef s =
     (let ident = m_nextModelID s;
          e = \<lparr> asset = model, generation = 1, refCount = initialRef, path = pth,
                meshDeps = [], materialDeps = [] \<rparr>
      in (\<lparr> handle_id = ident, handle_generation = 1 \<rparr>,
          s \<lparr> m_nextModelID := ident + 1, m_models := emplace ident e (m_models s) \<rparr>))"

subsection \<open>loadMesh\<close>

definition loadMesh :: "collaborators \<Rightarrow> string \<Rightarrow> AssetManager \<Rightarrow> Handle \<times> AssetManager" where
  "loadMesh env cookedMeshPath s =
     (case m_meshPathCache s cookedMeshPath of
        Some h \<Rightarrow> (h, addRef_Mesh h s)
      | None \<Rightarrow>
          (case LoadSMeshV0FromFile env cookedMeshPath of
             None \<Rightarrow> (invalid_handle, s)
           | Some data \<Rightarrow>
               let (h, s') = createMeshFromData_Internal env data cookedMeshPath 1 s
               in if isValid h
                  then (h, s' \<lparr> m_meshPathCache := (m_meshPathCache s')(cookedMeshPath \<mapsto> h) \<rparr>)
                  else (h, s')))"

subsection \<open>loadModel\<close>

text \<open>The texture loop. It stops at the first upload that fails.\<close>

definition sampler_of :: "SModelTextureRecord \<Rightarrow> SamplerSettings" where
  "sampler_of t =
     \<lparr> wrapU = toVkWrap (tex_wrapU t), wrapV = toVkWrap (tex_wrapV t),
       minFilter = toVkFilter (tex_minFilter t), magFilter = toVkFilter (tex_magFilter t),
       mipMode = toVkMip (tex_mipFilter t), maxAnisotropy = tex_maxAnisotropy t \<rparr>"

fun load_textures ::
  "collaborators \<Rightarrow> SModelFile \<Rightarrow> nat list \<Rightarrow> UploadContext \<Rightarrow> Handle list \<Rightarrow> AssetManager
     \<Rightarrow> bool \<times> UploadContext \<times> Handle list \<times> AssetManager" where
  "load_textures env f [] upload textureHandles s = (True, upload, textureHandles, s)"
| "load_textures env f (i # is) upload textureHandles s =
     (let t = textures f i;
          isSRGB = (tex_colorSpace t = 1);
          (ok, tex, upload', log') =
            uploadEncodedImage_Deferred env upload (m_device s) new_TextureAsset (blob f)
              (tex_imageDataOffset t) (tex_imageDataSize t) isSRGB (sampler_of t)
      in if \<not> ok then (False, upload', textureHandles, s \<lparr> m_device := log' \<rparr>)
         else
           let (h, s') = createTexture_Internal (Some tex) 0 (s \<lparr> m_device := log' \<rparr>)
           in load_textures env f is upload' (textureHandles [i := h]) s')"

text \<open>\<open>SModelFileView::getStringOrEmpty\<close>, on the string table of the file.\<close>

definition getStringOrEmpty :: "SModelFile \<Rightarrow> u32 \<Rightarrow> string" where
  "getStringOrEmpty f strOffset =
     (if strOffset = 0 then []
      else if ucast strOffset \<ge> stringTableSize (header f) then []
      else
        let bytes = map (stringTable f) [unat strOffset ..< unat (stringTableSize (header f))]
        in if 0 \<notin> set bytes then []
           else map (\<lambda>b. char_of (unat b)) (takeWhile (\<lambda>b. b \<noteq> 0) bytes))"

definition grabTex :: "Handle list \<Rightarrow> u32 \<Rightarrow> Handle" where
  "grabTex textureHandles idx =
     (if sint idx < 0 then invalid_handle else textureHandles ! unat idx)"

definition make_material :: "SModelFile \<Rightarrow> Handle list \<Rightarrow> nat \<Rightarrow> MaterialAsset" where
  "make_material f textureHandles i =
     (let m = materials f i in
      \<lparr> baseColorFactor = mat_baseColorFactor m,
        emissiveFactor = mat_emissiveFactor m,
        metallicFactor = mat_metallicFactor m,
        roughnessFactor = mat_roughnessFactor m,
        normalScale = mat_normalScale m,
        occlusionStrength = mat_occlusionStrength m,
        alphaCutoff = mat_alphaCutoff m,
        alphaMode = mat_alphaMode m,
        doubleSided = mat_doubleSided m,
        baseColorTexture = grabTex textureHandles (mat_baseColorTexture m),
        normalTexture = grabTex textureHandles (mat_normalTexture m),
        metallicRoughnessTexture = grabTex textureHandles (mat_metallicRoughnessTexture m),
        occlusionTexture = grabTex textureHandles (mat_occlusionTexture m),
        emissiveTexture = grabTex textureHandles (mat_emissiveTexture m),
        baseColorTexCoord = mat_baseColorTexCoord m,
        normalTexCoord = mat_normalTexCoord m,
        metallicRoughnessTexCoord = mat_metallicRoughnessTexCoord m,
        occlusionTexCoord = mat_occlusionTexCoord m,
        emissiveTexCoord = mat_emissiveTexCoord m,
        debugName = getStringOrEmpty f (mat_nameStrOffset m) \<rparr>)"

text \<open>
  The material loop: the material is registered with count 0, then every texture handle
  of the registered material that is valid gets a reference.
\<close>

fun load_materials ::
  "SModelFile \<Rightarrow> Handle list \<Rightarrow> nat list \<Rightarrow> Handle list \<Rightarrow> AssetManager
     \<Rightarrow> Handle list \<times> AssetManager" where
  "load_materials f textureHandles [] materialHandles s = (materialHandles, s)"
| "load_materials f textureHandles (i # is) materialHandles s =
     (let mat = make_material f textureHandles i;
          (mh, s1) = createMaterial_Internal (Some mat) 0 s;
          s2 = (case getMaterial mh s1 of
                  None \<Rightarrow> s1
                | Some createdMat \<Rightarrow> fold addRef_Texture (valid_textures createdMat) s1)
      in load_materials f textureHandles is (materialHandles [i := mh]) s2)"

definition le16 :: "(nat \<Rightarrow> u8) \<Rightarrow> nat \<Rightarrow> u16" where
  "le16 mem a = ucast (mem a) OR push_bit 8 (ucast (mem (a + 1)))"

definition le32 :: "(nat \<Rightarrow> u8) \<Rightarrow> nat \<Rightarrow> u32" where
  "le32 mem a =
     ucast (mem a) OR push_bit 8 (ucast (mem (a + 1))) OR push_bit 16 (ucast (mem (a + 2)))
       OR push_bit 24 (ucast (mem (a + 3)))"

definition make_mesh_data :: "SModelFile \<Rightarrow> nat \<Rightarrow> MeshData" where
  "make_mesh_data f i =
     (let mr = meshes f i;
          fmt = (if mesh_indexType mr = 0 then 0 else 1);
          vb = unat (mesh_vertexDataOffset mr);
          ib = unat (mesh_indexDataOffset mr);
          n = unat (mesh_indexCount mr)
      in \<lparr> md_vertexCount = mesh_vertexCount mr,
           md_indexCount = mesh_indexCount mr,
           md_vertexStride = mesh_vertexStride mr,
           md_indexFormat = fmt,
           md_aabbMin = mesh_aabbMin mr,
           md_aabbMax = mesh_aabbMax mr,
           md_vertexBytes = map (blob f) [vb ..< vb + unat (mesh_vertexDataSize mr)],
           md_indices16 = (if fmt = 0 then map (\<lambda>j. le16 (blob f) (ib + 2 * j)) [0 ..< n] else []),
           md_indices32 = (if fmt = 0 then [] else map (\<lambda>j. le32 (blob f) (ib + 4 * j)) [0 ..< n]) \<rparr>)"

fun to_string :: "nat \<Rightarrow> string" where
  "to_string n =
     (if n < 10 then [char_of (48 + n)] else to_string (n div 10) @ [char_of (48 + n mod 10)])"

declare to_string.simps [simp del]

text \<open>The mesh loop: the handle that \<open>createMeshFromData_Internal\<close> returns is stored as it is.\<close>

fun load_meshes ::
  "collaborators \<Rightarrow> SModelFile \<Rightarrow> string \<Rightarrow> nat list \<Rightarrow> Handle list \<Rightarrow> AssetManager
     \<Rightarrow> Handle list \<times> AssetManager" where
  "load_meshes env f cookedModelPath [] meshHandles s = (meshHandles, s)"
| "load_meshes env f cookedModelPath (i # is) meshHandles s =
     (let md = make_mesh_data f i;
          (h, s') = createMeshFromData_Internal env md
                      (cookedModelPath @ ''#mesh'' @ to_string i) 0 s
      in load_meshes env f cookedModelPath is (meshHandles [i := h]) s')"

definition new_ModelPrimitive :: ModelPrimitive where
  "new_ModelPrimitive =
     \<lparr> mp_mesh = invalid_handle, mp_material = invalid_handle, mp_firstIndex = 0,
       mp_indexCount = 0, mp_vertexOffset = 0 \<rparr>"

text \<open>
  The primitive loop, on the primitive list of the model, the two dependency lists and
  the manager.
\<close>

fun load_primitives ::
  "SModelFile \<Rightarrow> Handle list \<Rightarrow> Handle list \<Rightarrow> nat list
     \<Rightarrow> ModelPrimitive list \<times> Handle list \<times> Handle list \<times> AssetManager
     \<Rightarrow> ModelPrimitive list \<times> Handle list \<times> Handle list \<times> AssetManager" where
  "load_primitives f meshHandles materialHandles [] acc = acc"
| "load_primitives f meshHandles materialHandles (i # is) (prims, meshDeps0, matDeps0, s) =
     (let p = primitives f i;
          prim = \<lparr> mp_mesh = meshHandles ! unat (prim_meshIndex p),
                   mp_material = materialHandles ! unat (prim_materialIndex p),
                   mp_firstIndex = prim_firstIndex p,
                   mp_indexCount = prim_indexCount p,
                   mp_vertexOffset = prim_vertexOffset p \<rparr>;
          (meshDeps1, s1) = (if isValid (mp_mesh prim)
                             then (meshDeps0 @ [mp_mesh prim], addRef_Mesh (mp_mesh prim) s)
                             else (meshDeps0, s));
          (matDeps1, s2) = (if isValid (mp_material prim)
                            then (matDeps0 @ [mp_material prim], addRef_Material (mp_material prim) s1)
                            else (matDeps0, s1))
      in load_primitives f meshHandles materialHandles is
           (prims [i := prim], meshDeps1, matDeps1, s2))"

definition cache_emplace :: "string \<Rightarrow> Handle \<Rightarrow> (string \<rightharpoonup> Handle) \<Rightarrow> (string \<rightharpoonup> Handle)" where
  "cache_emplace p h c = (case c p of None \<Rightarrow> c(p \<mapsto> h) | Some _ \<Rightarrow> c)"

text \<open>\<open>loadModel\<close> from the point where the container has been parsed.\<close>

definition load_parsed ::
  "collaborators \<Rightarrow> string \<Rightarrow> SModelFileView \<Rightarrow> AssetManager \<Rightarrow> Handle \<times> AssetManager" where
  "load_parsed env cookedModelPath view s =
     (let (pr, log1) = call env PoolCreate (m_device s) in
      if \<not> pr then (invalid_handle, s \<lparr> m_device := log1 \<rparr>)
      else
        let (begin_ok, upload, log2) = BeginUploadContext env log1 in
        if \<not> begin_ok then (invalid_handle, s \<lparr> m_device := log2 @ [PoolDestroy] \<rparr>)
        else
          let f = fileBytes view;
              nt = unat (textureCount (header f));
              (tex_ok, upload1, textureHandles, s1) =
                load_textures env f [0 ..< nt] upload (replicate nt invalid_handle)
                  (s \<lparr> m_device := log2 \<rparr>);
              (end_ok, upload2, log3) = EndSubmitAndWait env upload1 (m_device s1);
              s2 = s1 \<lparr> m_device := log3 @ [PoolDestroy] \<rparr>
          in if \<not> tex_ok then (invalid_handle, s2)
             else if \<not> end_ok then (invalid_handle, s2)
             else
               let nm = unat (materialCount (header f));
                   (materialHandles, s3) =
                     load_materials f textureHandles [0 ..< nm] (replicate nm invalid_handle) s2;
                   nmesh = unat (meshCount (header f));
                   (meshHandles, s4) =
                     load_meshes env f cookedModelPath [0 ..< nmesh]
                       (replicate nmesh invalid_handle) s3;
                   np = unat (primitiveCount (header f));
                   (prims, meshDeps1, matDeps1, s5) =
                     load_primitives f meshHandles materialHandles [0 ..< np]
                       (replicate np new_ModelPrimitive, [], [], s4);
                   model = \<lparr> model_primitives = prims, model_debugName = [] \<rparr>;
                   (modelHandle, s6) = createModel_Internal (Some model) cookedModelPath 1 s5;
                   s7 = s6 \<lparr> m_models :=
                              modify_entry (handle_id modelHandle)
                                (\<lambda>e. e \<lparr> meshDeps := meshDeps1, materialDeps := matDeps1 \<rparr>)
                                (m_models s6) \<rparr>
               in (modelHandle,
                   s7 \<lparr> m_modelPathCache :=
                          cache_emplace cookedModelPath modelHandle (m_modelPathCache s7) \<rparr>))"

definition loadModel :: "collaborators \<Rightarrow> string \<Rightarrow> AssetManager \<Rightarrow> Handle \<times> AssetManager" where
  "loadModel env cookedModelPath s =
     (case m_modelPathCache s cookedModelPath of
        Some h \<Rightarrow> (h, addRef_Model h s)
      | None \<Rightarrow>
          (case LoadSModelFile (decls env) (read_file env) cookedModelPath of
             Inl err \<Rightarrow> (invalid_handle, s)
           | Inr view \<Rightarrow> load_parsed env cookedModelPath view s))"

subsection \<open>garbageCollect\<close>

text \<open>
  Each sweep walks the entries of one registry in iteration order. A sweep never changes
  the reference counts of the registry it walks, so the count it tests is the one of the
  entry as the sweep found it.
\<close>

fun gc_models :: "ModelEntry registry \<Rightarrow> AssetManager \<Rightarrow> AssetManager" where
  "gc_models [] s = s"
| "gc_models ((k, e) # rest) s =
     (if refCount e = 0
      then
        let s1 = fold release_Mesh (meshDeps e) s;
            s2 = fold release_Material (materialDeps e) s1
        in gc_models rest
             (s2 \<lparr> m_modelPathCache := (m_modelPathCache s2)(path e := None),
                  m_models := erase k (m_models s2) \<rparr>)
      else gc_models rest s)"

fun gc_materials :: "MaterialEntry registry \<Rightarrow> AssetManager \<Rightarrow> AssetManager" where
  "gc_materials [] s = s"
| "gc_materials ((k, e) # rest) s =
     (if refCount e = 0
      then
        let s1 = fold release_Texture (textureDeps e) s
        in gc_materials rest (s1 \<lparr> m_materials := erase k (m_materials s1) \<rparr>)
      else gc_materials rest s)"

fun gc_meshes :: "MeshEntry registry \<Rightarrow> AssetManager \<Rightarrow> AssetManager" where
  "gc_meshes [] s = s"
| "gc_meshes ((k, e) # rest) s =
     (if refCount e = 0
      then
        let log' = (case asset e of None \<Rightarrow> m_device s | Some a \<Rightarrow> m_device s @ [MeshDestroy])
        in gc_meshes rest
             (s \<lparr> m_device := log',
                 m_meshPathCache := (m_meshPathCache s)(path e := None),
                 m_meshes := erase k (m_meshes s) \<rparr>)
      else gc_meshes rest s)"

fun gc_textures :: "TextureEntry registry \<Rightarrow> AssetManager \<Rightarrow> AssetManager" where
  "gc_textures [] s = s"
| "gc_textures ((k, e) # rest) s =
     (if refCount e = 0
      then
        let log' = (case asset e of None \<Rightarrow> m_device s | Some a \<Rightarrow> m_device s @ [TextureDestroy])
        in gc_textures rest (s \<lparr> m_device := log', m_textures := erase k (m_textures s) \<rparr>)
      else gc_textures rest s)"

definition garbageCollect :: "AssetManager \<Rightarrow> AssetManager" where
  "garbageCollect s =
     (let s1 = gc_models (m_models s) s;
          s2 = gc_materials (m_materials s1) s1;
          s3 = gc_meshes (m_meshes s2) s2
      in gc_textures (m_textures s3) s3)"

section \<open>Reachable states\<close>

text \<open>
  The handles a caller has obtained so far, per resource kind: the results of \<open>loadMesh\<close>
  and \<open>loadModel\<close>, and the handles read from an asset that \<open>getModel\<close> or \<open>getMaterial\<close>
  returned for a handle obtained earlier.
\<close>

record issued =
  i_meshes :: "Handle set"
  i_textures :: "Handle set"
  i_materials :: "Handle set"
  i_models :: "Handle set"

definition texture_handles :: "MaterialAsset \<Rightarrow> Handle list" where
  "texture_handles a =
     [baseColorTexture a, normalTexture a, metallicRoughnessTexture a,
      occlusionTexture a, emissiveTexture a]"

text \<open>
  \<open>reaches s I\<close>: the manager state \<open>s\<close> is reached from a fresh manager by calls of the
  public operations, with arbitrary arguments and arbitrary behaviour of the
  collaborators, and \<open>I\<close> are the handles obtained on the way.
\<close>

inductive reaches :: "AssetManager \<Rightarrow> issued \<Rightarrow> bool" where
  fresh:
    "reaches new_AssetManager \<lparr> i_meshes = {}, i_textures = {}, i_materials = {}, i_models = {} \<rparr>"
| by_loadMesh:
    "reaches s I \<Longrightarrow> loadMesh env p s = (h, s')
     \<Longrightarrow> reaches s' (I \<lparr> i_meshes := insert h (i_meshes I) \<rparr>)"
| by_loadModel:
    "reaches s I \<Longrightarrow> loadModel env p s = (h, s')
     \<Longrightarrow> reaches s' (I \<lparr> i_models := insert h (i_models I) \<rparr>)"
| by_addRef_Mesh: "reaches s I \<Longrightarrow> reaches (addRef_Mesh h s) I"
| by_addRef_Texture: "reaches s I \<Longrightarrow> reaches (addRef_Texture h s) I"
| by_addRef_Material: "reaches s I \<Longrightarrow> reaches (addRef_Material h s) I"
| by_addRef_Model: "reaches s I \<Longrightarrow> reaches (addRef_Model h s) I"
| by_release_Mesh: "reaches s I \<Longrightarrow> reaches (release_Mesh h s) I"
| by_release_Texture: "reaches s I \<Longrightarrow> reaches (release_Texture h s) I"
| by_release_Material: "reaches s I \<Longrightarrow> reaches (release_Material h s) I"
| by_release_Model: "reaches s I \<Longrightarrow> reaches (release_Model h s) I"
| by_garbageCollect: "reaches s I \<Longrightarrow> reaches (garbageCollect s) I"
| read_model:
    "reaches s I \<Longrightarrow> h \<in> i_models I \<Longrightarrow> getModel h s = Some a \<Longrightarrow> p \<in> set (model_primitives a)
     \<Longrightarrow> reaches s (I \<lparr> i_meshes := insert (mp_mesh p) (i_meshes I),
                          i_materials := insert (mp_material p) (i_materials I) \<rparr>)"
| read_material:
    "reaches s I \<Longrightarrow> h \<in> i_materials I \<Longrightarrow> getMaterial h s = Some a
     \<Longrightarrow> reaches s (I \<lparr> i_textures := set (texture_handles a) \<union> i_textures I \<rparr>)"

text \<open>The invariant of the reachable states.\<close>

definition handle_ok :: "nat \<Rightarrow> Handle \<Rightarrow> bool" where
  "handle_ok n h =
     (h = invalid_handle \<or> (handle_generation h = 1 \<and> 0 < handle_id h \<and> handle_id h < n))"

definition registry_ok :: "nat \<Rightarrow> ('a, 'z) Entry_scheme registry \<Rightarrow> bool" where
  "registry_ok n r =
     (0 < n \<and> distinct (map fst r) \<and>
      (\<forall>(k, e) \<in> set r. 0 < k \<and> k < n \<and> generation e = 1 \<and> asset e \<noteq> None))"

definition cache_ok :: "(string \<rightharpoonup> Handle) \<Rightarrow> ('a, 'z) PathEntry_scheme registry \<Rightarrow> bool" where
  "cache_ok c r =
     (\<forall>p h. c p = Some h \<longrightarrow>
        handle_generation h = 1 \<and> (\<exists>e. map_of r (handle_id h) = Some e \<and> path e = p))"

definition material_handles_ok :: "nat \<Rightarrow> MaterialEntry registry \<Rightarrow> bool" where
  "material_handles_ok n r =
     (\<forall>(k, e) \<in> set r. \<forall>a. asset e = Some a \<longrightarrow> (\<forall>h \<in> set (texture_handles a). handle_ok n h))"

definition model_handles_ok :: "nat \<Rightarrow> nat \<Rightarrow> ModelEntry registry \<Rightarrow> bool" where
  "model_handles_ok nmesh nmat r =
     (\<forall>(k, e) \<in> set r. \<forall>a. asset e = Some a \<longrightarrow>
        (\<forall>p \<in> set (model_primitives a). handle_ok nmesh (mp_mesh p) \<and> handle_ok nmat (mp_material p)))"

definition manager_inv :: "AssetManager \<Rightarrow> bool" where
  "manager_inv s =
     (registry_ok (m_nextMeshID s) (m_meshes s) \<and>
      registry_ok (m_nextTextureID s) (m_textures s) \<and>
      registry_ok (m_nextMaterialID s) (m_materials s) \<and>
      registry_ok (m_nextModelID s) (m_models s) \<and>
      material_handles_ok (m_nextTextureID s) (m_materials s) \<and>
      model_handles_ok (m_nextMeshID s) (m_nextMaterialID s) (m_models s) \<and>
      cache_ok (m_meshPathCache s) (m_meshes s) \<and>
      cache_ok (m_modelPathCache s) (m_models s))"

definition issued_ok :: "AssetManager \<Rightarrow> issued \<Rightarrow> bool" where
  "issued_ok s I =
     ((\<forall>h \<in> i_meshes I. handle_ok (m_nextMeshID s) h) \<and>
      (\<forall>h \<in> i_textures I. handle_ok (m_nextTextureID s) h) \<and>
      (\<forall>h \<in> i_materials I. handle_ok (m_nextMaterialID s) h) \<and>
      (\<forall>h \<in> i_models I. handle_ok (m_nextModelID s) h))"

text \<open>Two registries that differ at most in reference counts.\<close>

definition rc_equiv :: "('a, 'z) Entry_scheme registry \<Rightarrow> ('a, 'z) Entry_scheme registry \<Rightarrow> bool" where
  "rc_equiv r r' =
     list_all2 (\<lambda>x y. fst y = fst x \<and> (\<exists>c. snd y = (snd x) \<lparr> refCount := c \<rparr>)) r r'"

text \<open>Whether \<open>h\<close> resolves to an entry whose reference count is \<open>2^32 - 1\<close>.\<close>

definition at_max :: "Handle \<Rightarrow> ('a, 'z) Entry_scheme registry \<Rightarrow> bool" where
  "at_max h r =
     (case map_of r (handle_id h) of
        None \<Rightarrow> False
      | Some e \<Rightarrow> generation e = handle_generation h \<and> refCount e = 0xFFFFFFFF)"

text \<open>The entries a sweep removes, and a registry without a list of keys.\<close>

definition dead :: "('a, 'z) Entry_scheme registry \<Rightarrow> ('a, 'z) Entry_scheme registry" where
  "dead r = filter (\<lambda>(k, e). refCount e = 0) r"

definition without :: "nat list \<Rightarrow> 'e registry \<Rightarrow> 'e registry" where
  "without ks r = filter (\<lambda>(k, e). k \<notin> set ks) r"

definition cache_without :: "string list \<Rightarrow> (string \<rightharpoonup> Handle) \<Rightarrow> (string \<rightharpoonup> Handle)" where
  "cache_without ps c = (\<lambda>p. if p \<in> set ps then None else c p)"

text \<open>The five texture index fields of a material record.\<close>

definition texture_indices :: "SModelMaterialRecord \<Rightarrow> u32 list" where
  "texture_indices m =
     [mat_baseColorTexture m, mat_normalTexture m, mat_metallicRoughnessTexture m,
      mat_occlusionTexture m, mat_emissiveTexture m]"

text \<open>
  Containers that differ in the sampler enums of their texture records:
  \<open>set_sampler_enums g f\<close> is \<open>f\<close> with the wrap, filter and mip filter fields of texture
  record \<open>i\<close> replaced by \<open>g i\<close>. Two values of such a field differ out of range when both
  lie above the largest value the format defines (2 for wrap and mip filter, 1 for the
  filters).
\<close>

definition set_sampler_enums ::
  "(nat \<Rightarrow> u32 \<times> u32 \<times> u32 \<times> u32 \<times> u32) \<Rightarrow> SModelFile \<Rightarrow> SModelFile" where
  "set_sampler_enums g f =
     f \<lparr> textures := (\<lambda>i. case g i of (wu, wv, mn, mg, mp) \<Rightarrow>
            (textures f i) \<lparr> tex_wrapU := wu, tex_wrapV := wv, tex_minFilter := mn,
                              tex_magFilter := mg, tex_mipFilter := mp \<rparr>) \<rparr>"

definition same_or_out_of_range :: "u32 \<Rightarrow> u32 \<Rightarrow> u32 \<Rightarrow> bool" where
  "same_or_out_of_range hi a b = (a = b \<or> (a > hi \<and> b > hi))"

definition enums_differ_out_of_range ::
  "SModelTextureRecord \<Rightarrow> u32 \<times> u32 \<times> u32 \<times> u32 \<times> u32 \<Rightarrow> bool" where
  "enums_differ_out_of_range t e =
     (case e of (wu, wv, mn, mg, mp) \<Rightarrow>
        same_or_out_of_range 2 (tex_wrapU t) wu \<and> same_or_out_of_range 2 (tex_wrapV t) wv \<and>
        same_or_out_of_range 1 (tex_minFilter t) mn \<and> same_or_out_of_range 1 (tex_magFilter t) mg \<and>
        same_or_out_of_range 2 (tex_mipFilter t) mp)"

text \<open>The reference count of the entry that a handle resolves to.\<close>

definition refCount_of :: "Handle \<Rightarrow> ('a, 'z) Entry_scheme registry \<Rightarrow> u32 option" where
  "refCount_of h r =
     (case map_of r (handle_id h) of
        None \<Rightarrow> None
      | Some e \<Rightarrow> if generation e = handle_generation h then Some (refCount e) else None)"

section \<open>Example containers\<close>

text \<open>
  Concrete inputs on which the definitions are evaluated: an instance of the format
  declarations, and a 1024-byte container with empty tables that the variants below extend.
\<close>

definition decls_example :: format_decls where
  "decls_example =
     \<lparr> sizeof_SModelHeader = 204, sizeof_SModelPrimitiveRecord = 20,
       sizeof_SModelNodeRecord = 84,
       isHeaderCompatible = (\<lambda>h. magic h = 0x444F4D53 \<and> versionMajor h = 3) \<rparr>"

definition header_skeleton :: SModelHeader where
  "header_skeleton =
     \<lparr> magic = 0x444F4D53, versionMajor = 3, versionMinor = 0, fileSizeBytes = 1024, flags = 0,
       meshCount = 0, primitiveCount = 0, materialCount = 0, textureCount = 0,
       meshesOffset = 204, primitivesOffset = 204, materialsOffset = 204, texturesOffset = 204,
       stringTableOffset = 204, blobOffset = 512, stringTableSize = 0, blobSize = 512,
       nodeCount = 0, nodesOffset = 0, nodePrimitiveIndexCount = 0, nodePrimitiveIndicesOffset = 0,
       nodeChildIndicesCount = 0, nodeChildIndicesOffset = 0,
       animClipsCount = 0, animClipsOffset = 0, animChannelsCount = 0, animChannelsOffset = 0,
       animSamplersCount = 0, animSamplersOffset = 0, animTimesCount = 0, animTimesOffset = 0,
       animValuesCount = 0, animValuesOffset = 0 \<rparr>"

definition file_skeleton :: SModelFile where
  "file_skeleton =
     \<lparr> uFileSize = 1024, header = header_skeleton,
       meshes = (\<lambda>_. \<lparr> mesh_nameStrOffset = 0, mesh_vertexStride = 0, mesh_vertexCount = 0,
                        mesh_indexCount = 0, mesh_layoutFlags = 0, mesh_indexType = 0,
                        mesh_vertexDataOffset = 0, mesh_vertexDataSize = 0,
                        mesh_indexDataOffset = 0, mesh_indexDataSize = 0,
                        mesh_aabbMin = [0, 0, 0], mesh_aabbMax = [0, 0, 0] \<rparr>),
       primitives = (\<lambda>_. \<lparr> prim_meshIndex = 0, prim_materialIndex = 0, prim_firstIndex = 0,
                            prim_indexCount = 0, prim_vertexOffset = 0 \<rparr>),
       materials = (\<lambda>_. \<lparr> mat_nameStrOffset = 0, mat_baseColorFactor = [0, 0, 0, 0],
                           mat_emissiveFactor = [0, 0, 0], mat_metallicFactor = 0,
                           mat_roughnessFactor = 0, mat_normalScale = 0, mat_occlusionStrength = 0,
                           mat_alphaCutoff = 0, mat_alphaMode = 0, mat_doubleSided = 0,
                           mat_baseColorTexture = 0xFFFFFFFF, mat_normalTexture = 0xFFFFFFFF,
                           mat_metallicRoughnessTexture = 0xFFFFFFFF,
                           mat_occlusionTexture = 0xFFFFFFFF, mat_emissiveTexture = 0xFFFFFFFF,
                           mat_baseColorTexCoord = 0, mat_normalTexCoord = 0,
                           mat_metallicRoughnessTexCoord = 0, mat_occlusionTexCoord = 0,
                           mat_emissiveTexCoord = 0 \<rparr>),
       textures = (\<lambda>_. \<lparr> tex_nameStrOffset = 0, tex_uriStrOffset = 0, tex_colorSpace = 0,
                          tex_encoding = 0, tex_wrapU = 0, tex_wrapV = 0, tex_minFilter = 0,
                          tex_magFilter = 0, tex_mipFilter = 0, tex_maxAnisotropy = 0,
                          tex_imageDataOffset = 0, tex_imageDataSize = 0 \<rparr>),
       nodes = (\<lambda>_. \<lparr> node_parentIndex = 0xFFFFFFFF, node_firstChildIndex = 0,
                       node_childCount = 0, node_firstPrimitiveIndex = 0,
                       node_primitiveCount = 0 \<rparr>),
       nodePrimitiveIndices = (\<lambda>_. 0),
       nodeChildIndices = (\<lambda>_. 0),
       animClips = (\<lambda>_. \<lparr> clip_nameOffset = 0, clip_durationSec = 0, clip_firstChannel = 0,
                           clip_channelCount = 0 \<rparr>),
       animChannels = (\<lambda>_. \<lparr> chan_targetNode = 0, chan_path = 0, chan_samplerIndex = 0 \<rparr>),
       animSamplers = (\<lambda>_. \<lparr> samp_firstTime = 0, samp_timeCount = 0, samp_firstValue = 0,
                              samp_valueCount = 0, samp_interpolation = 0, samp_valueType = 0 \<rparr>),
       animTimes = (\<lambda>_. 0),
       animValues = (\<lambda>_. 0),
       stringTable = (\<lambda>_. 0),
       blob = (\<lambda>_. 0) \<rparr>"


text \<open>
  A container whose only texture record declares the image slice
  \<open>offset = 2^64 - 1, size = 1\<close> against a blob of 512 bytes.
\<close>

definition wrap_file :: SModelFile where
  "wrap_file =
     file_skeleton
      \<lparr> header := header_skeleton \<lparr> textureCount := 1, texturesOffset := 204 \<rparr>,
        textures := (\<lambda>_. \<lparr> tex_nameStrOffset = 0, tex_uriStrOffset = 0, tex_colorSpace = 0,
                           tex_encoding = 0, tex_wrapU = 0, tex_wrapV = 0, tex_minFilter = 0,
                           tex_magFilter = 0, tex_mipFilter = 0, tex_maxAnisotropy = 0,
                           tex_imageDataOffset = 0xFFFFFFFFFFFFFFFF,
                           tex_imageDataSize = 1 \<rparr>) \<rparr>"

text \<open>
  A container with one texture, one material that uses it as base colour texture, one
  mesh and one primitive, and collaborators under which every call succeeds and every
  image decodes to 2 x 2 pixels.
\<close>

definition one_of_each_file :: SModelFile where
  "one_of_each_file =
     file_skeleton
      \<lparr> header := header_skeleton
          \<lparr> meshCount := 1, primitiveCount := 1, materialCount := 1, textureCount := 1,
            meshesOffset := 204, primitivesOffset := 284, materialsOffset := 304,
            texturesOffset := 408, stringTableOffset := 472 \<rparr>,
        meshes := (\<lambda>_. \<lparr> mesh_nameStrOffset = 0, mesh_vertexStride = 4, mesh_vertexCount = 1,
                         mesh_indexCount = 3, mesh_layoutFlags = 0, mesh_indexType = 0,
                         mesh_vertexDataOffset = 0, mesh_vertexDataSize = 4,
                         mesh_indexDataOffset = 4, mesh_indexDataSize = 6,
                         mesh_aabbMin = [0, 0, 0], mesh_aabbMax = [0, 0, 0] \<rparr>),
        primitives := (\<lambda>_. \<lparr> prim_meshIndex = 0, prim_materialIndex = 0, prim_firstIndex = 0,
                             prim_indexCount = 3, prim_vertexOffset = 0 \<rparr>),
        materials := (\<lambda>_. (materials file_skeleton 0) \<lparr> mat_baseColorTexture := 0 \<rparr>),
        textures := (\<lambda>_. (textures file_skeleton 0)
                            \<lparr> tex_imageDataOffset := 16, tex_imageDataSize := 8 \<rparr>) \<rparr>"

definition env_ok :: collaborators where
  "env_ok =
     \<lparr> read_file = (\<lambda>_. FileBytes one_of_each_file), decls = decls_example,
       LoadSMeshV0FromFile = (\<lambda>_. None),
       stbi_load_from_memory = (\<lambda>_ _ _. Some (2, 2)),
       gpu_ok = (\<lambda>_. True) \<rparr>"

text \<open>The same collaborators with a file that cannot be opened.\<close>

definition env_unreadable :: collaborators where
  "env_unreadable = env_ok \<lparr> read_file := (\<lambda>_. OpenFailed) \<rparr>"

text \<open>The same collaborators with a device on which every mesh upload fails.\<close>

definition env_mesh_upload_fails :: collaborators where
  "env_mesh_upload_fails =
     env_ok \<lparr> gpu_ok := (\<lambda>log. case last log of MeshUpload _ \<Rightarrow> False | _ \<Rightarrow> True) \<rparr>"

definition model_1 :: Handle where
  "model_1 = \<lparr> handle_id = 1, handle_generation = 1 \<rparr>"

text \<open>The manager after one load of the example container.\<close>

definition loaded_manager :: AssetManager where
  "loaded_manager = snd (loadModel env_ok ''model.smodel'' new_AssetManager)"

text \<open>The loaded manager with the reference count of its model at \<open>2^32 - 1\<close>.\<close>

definition saturated_manager :: AssetManager where
  "saturated_manager =
     loaded_manager \<lparr> m_models :=
       modify_entry 1 (\<lambda>e. e \<lparr> refCount := 0xFFFFFFFF \<rparr>) (m_models loaded_manager) \<rparr>"

text \<open>
  The loaded manager after \<open>2^32 - 3\<close> further \<open>addRef\<close> calls on its model: the count of the
  model is \<open>2^32 - 2\<close>.
\<close>

definition nearly_saturated_manager :: AssetManager where
  "nearly_saturated_manager = ((addRef_Model model_1) ^^ 4294967293) loaded_manager"


text \<open>
  The example container with every wrap, filter and mip filter field of its texture
  records set to 7, a value the format does not define, and collaborators that read it.
\<close>

definition out_of_range_file :: SModelFile where
  "out_of_range_file = set_sampler_enums (\<lambda>_. (7, 7, 7, 7, 7)) one_of_each_file"

definition env_out_of_range :: collaborators where
  "env_out_of_range = env_ok \<lparr> read_file := (\<lambda>_. FileBytes out_of_range_file) \<rparr>"
section \<open>Properties of the loader\<close>


lemma for_each_None_iff: "for_each xs body = None \<longleftrightarrow> (\<forall>i\<in>set xs. body i = None)"
  by (induction xs) (auto split: option.splits)


lemma first_failure_None_iff: "first_failure cs = None \<longleftrightarrow> (\<forall>c\<in>set cs. c = None)"
  by (induction cs) (auto split: option.splits)

lemmas check_defs =
  checks_before_samplers_def check_sections_def check_record_tables_def check_node_tables_def
  check_anim_tables_def check_anim_pointers_def check_records_def check_nodes_def
  check_animation_def check_anim_null_def build_view_def ptrAt_def tableRangeValid_def
  isRangeInsideFile_def failing_def is_nullptr_def
  sizeof_SModelMeshRecord_def sizeof_SModelMaterialRecord_def sizeof_SModelTextureRecord_def
  sizeof_SModelAnimationClipRecord_def sizeof_SModelAnimationChannelRecord_def
  sizeof_SModelAnimationSamplerRecord_def sizeof_float_def sizeof_uint32_t_def

lemmas example_defs = file_skeleton_def header_skeleton_def decls_example_def

subsection \<open>Offsets and sizes\<close>

text \<open>
  \<open>isRangeInsideFile\<close> compares both operands with the file size before it adds them. A
  file size comes from a \<open>std::streamsize\<close>, so it is below \<open>2^63\<close> and the sum of two
  values that passed the first two tests cannot wrap: the test is exact.
\<close>

lemma isRangeInsideFile_exact:
  assumes "unat fileSize < 2 ^ 63"
  shows "isRangeInsideFile begin sz fileSize \<longleftrightarrow> unat begin + unat sz \<le> unat fileSize"
proof (cases "begin \<le> fileSize \<and> sz \<le> fileSize")
  case True
  then have b: "unat begin \<le> unat fileSize" and s: "unat sz \<le> unat fileSize"
    by (simp_all add: word_le_nat_alt)
  have "unat begin + unat sz < 2 ^ LENGTH(64)"
    using b s assms by simp
  then have "unat (begin + sz) = unat begin + unat sz"
    by (rule unat_add_lem[THEN iffD1])
  then show ?thesis
    using True by (simp add: isRangeInsideFile_def word_le_nat_alt word_less_nat_alt not_less)
next
  case False
  then have "unat begin > unat fileSize \<or> unat sz > unat fileSize"
    by (auto simp: word_le_nat_alt not_le)
  then show ?thesis
    using False by (auto simp: isRangeInsideFile_def not_le)
qed

text \<open>
  C2. The claim: every table or record whose offset+size extent leaves the file (or, for a
  record's blob slice, the blob) is rejected, with no offset/size sum that wraps 64 bits
  accepted. The blob slice tests of the mesh and texture records add offset and size in
  64-bit arithmetic and compare the wrapped sum: the container \<open>wrap_file\<close>, whose texture
  record declares the slice \<open>offset = 2^64 - 1, size = 1\<close> in a blob of 512 bytes, is
  accepted and its view is returned.
\<close>

theorem C2_blob_slice_sum_wraps:
  "LoadSModelFile decls_example (\<lambda>_. FileBytes wrap_file) ''model.smodel''
     = Inr (build_view wrap_file)
   \<and> unat (blobSize (header wrap_file))
       < unat (tex_imageDataOffset (textures wrap_file 0))
         + unat (tex_imageDataSize (textures wrap_file 0))"
proof -
  have pre: "checks_before_samplers decls_example wrap_file = None"
    by (simp add: check_defs check_texture_def wrap_file_def example_defs Let_def)
  have "validate decls_example wrap_file = None"
    using pre by (simp add: validate_def wrap_file_def example_defs)
  then show ?thesis
    by (simp add: LoadSModelFile_def) (simp add: wrap_file_def example_defs)
qed

subsection \<open>Sampler times\<close>




section \<open>Registry lemmas\<close>

lemma map_of_modify_entry:
  "map_of (modify_entry k g r) k' = (if k' = k then map_option g (map_of r k) else map_of r k')"
  by (induction r) auto

lemma modify_entry_twice:
  "modify_entry k g2 (modify_entry k g1 r) = modify_entry k (g2 \<circ> g1) r"
  by (induction r) auto

lemma modify_entry_same:
  "(\<And>e. map_of r k = Some e \<Longrightarrow> g e = e) \<Longrightarrow> modify_entry k g r = r"
  by (induction r) auto

lemma keys_modify_entry [simp]: "map fst (modify_entry k g r) = map fst r"
  by (induction r) auto

lemma set_modify_entry:
  "(k', e') \<in> set (modify_entry k g r) \<Longrightarrow> \<exists>e. (k', e) \<in> set r \<and> (e' = e \<or> e' = g e)"
  by (induction r) (fastforce split: if_splits)+

lemma map_of_emplace:
  "map_of (emplace k e r) k' =
     (if k' = k then (case map_of r k of None \<Rightarrow> Some e | Some e0 \<Rightarrow> Some e0) else map_of r k')"
  by (auto simp: emplace_def map_of_append split: option.splits
       simp: map_add_def)

lemma emplace_fresh: "k \<notin> fst ` set r \<Longrightarrow> emplace k e r = r @ [(k, e)]"
  by (simp add: emplace_def map_of_eq_None_iff[THEN iffD2])

lemma map_of_erase:
  "map_of (erase k r) k' = (if k' = k then None else map_of r k')"
  by (induction r) (auto simp: erase_def)

lemma keys_erase: "map fst (erase k r) = filter (\<lambda>k'. k' \<noteq> k) (map fst r)"
  by (induction r) (auto simp: erase_def)

lemma set_erase: "set (erase k r) = {(k', e) \<in> set r. k' \<noteq> k}"
  by (auto simp: erase_def)

lemma keys_addRef_entry [simp]: "map fst (addRef_entry h r) = map fst r"
  by (simp add: addRef_entry_def split: option.splits)

lemma keys_release_entry [simp]: "map fst (release_entry h r) = map fst r"
  by (simp add: release_entry_def split: option.splits)

text \<open>What a reference count change does to a lookup.\<close>

lemma map_of_addRef_entry:
  "map_of (addRef_entry h r) k =
     (case map_of r k of
        None \<Rightarrow> None
      | Some e \<Rightarrow> if k = handle_id h \<and> generation e = handle_generation h
                  then Some (e \<lparr> refCount := refCount e + 1 \<rparr>) else Some e)"
  by (auto simp: addRef_entry_def map_of_modify_entry split: option.splits)

lemma map_of_release_entry:
  "map_of (release_entry h r) k =
     (case map_of r k of
        None \<Rightarrow> None
      | Some e \<Rightarrow> if k = handle_id h \<and> generation e = handle_generation h \<and> refCount e > 0
                  then Some (e \<lparr> refCount := refCount e - 1 \<rparr>) else Some e)"
  by (auto simp: release_entry_def map_of_modify_entry split: option.splits)

lemma get_asset_addRef_entry [simp]: "get_asset h' (addRef_entry h r) = get_asset h' r"
  by (auto simp: get_asset_def map_of_addRef_entry split: option.splits)

lemma get_asset_release_entry [simp]: "get_asset h' (release_entry h r) = get_asset h' r"
  by (auto simp: get_asset_def map_of_release_entry split: option.splits)


lemma release_addRef_entry:
  assumes "\<And>e. map_of r (handle_id h) = Some e \<Longrightarrow> generation e = handle_generation h
             \<Longrightarrow> refCount e \<noteq> 0xFFFFFFFF"
  shows "release_entry h (addRef_entry h r) = r"
proof (cases "map_of r (handle_id h)")
  case None
  then show ?thesis by (simp add: addRef_entry_def release_entry_def)
next
  case (Some e)
  show ?thesis
  proof (cases "generation e = handle_generation h")
    case False
    then show ?thesis using Some by (simp add: addRef_entry_def release_entry_def)
  next
    case True
    have "refCount e + 1 = 0 \<Longrightarrow> refCount e = - 1"
      by (simp add: eq_neg_iff_add_eq_0)
    moreover have "(- 1 :: u32) = 0xFFFFFFFF" by simp
    ultimately have nz: "refCount e + 1 \<noteq> 0"
      using assms[OF Some True] by auto
    show ?thesis
      using Some True nz
      by (simp add: addRef_entry_def release_entry_def map_of_modify_entry modify_entry_twice
            word_greater_zero_iff o_def modify_entry_same)
  qed
qed

section \<open>The example container\<close>

lemma one_of_each_valid: "validate decls_example one_of_each_file = None"
  by (simp add: validate_def check_defs check_texture_def check_mesh_def check_primitive_def
      check_material_def checkTex_def one_of_each_file_def example_defs Let_def)

lemma one_of_each_parse:
  "LoadSModelFile decls_example (\<lambda>_. FileBytes one_of_each_file) p
     = Inr (build_view one_of_each_file)"
  by (simp add: LoadSModelFile_def one_of_each_valid)

lemma calcMipLevels_2_2: "calcMipLevels 2 2 = 2"
  by (simp add: calcMipLevels_def floor_log2.simps)

lemmas load_eval_defs =
  load_parsed_def call_def BeginUploadContext_def EndSubmitAndWait_def Let_def
  uploadEncodedImage_Deferred_def uploadRGBA8_Deferred_def calcMipLevels_2_2 new_TextureAsset_def
  createTexture_Internal_def emplace_def sampler_of_def toVkWrap_def toVkFilter_def toVkMip_def
  createMaterial_Internal_def make_material_def grabTex_def valid_textures_def isValid_def
  invalid_handle_def getMaterial_def get_asset_def addRef_Texture_def addRef_entry_def
  getStringOrEmpty_def createMeshFromData_Internal_def make_mesh_data_def
  addRef_Mesh_def addRef_Material_def new_ModelPrimitive_def createModel_Internal_def
  cache_emplace_def

lemma fileBytes_build_view [simp]: "fileBytes (build_view f) = f"
  by (simp add: build_view_def Let_def)

text \<open>The registries and caches after the example load.\<close>

lemma loaded_manager_models:
  "fst (loadModel env_ok ''model.smodel'' new_AssetManager) = model_1"
  "m_models loaded_manager =
     [(1, \<lparr> asset = Some \<lparr> model_primitives =
                [\<lparr> mp_mesh = \<lparr> handle_id = 1, handle_generation = 1 \<rparr>,
                   mp_material = \<lparr> handle_id = 1, handle_generation = 1 \<rparr>,
                   mp_firstIndex = 0, mp_indexCount = 3, mp_vertexOffset = 0 \<rparr>],
              model_debugName = [] \<rparr>,
            generation = 1, refCount = 1, path = ''model.smodel'',
            meshDeps = [\<lparr> handle_id = 1, handle_generation = 1 \<rparr>],
            materialDeps = [\<lparr> handle_id = 1, handle_generation = 1 \<rparr>] \<rparr>)]"
  "m_modelPathCache loaded_manager = [''model.smodel'' \<mapsto> model_1]"
  "m_nextModelID loaded_manager = 2"
  "map fst (m_meshes loaded_manager) = [1]"
  "map fst (m_textures loaded_manager) = [1]"
  "map fst (m_materials loaded_manager) = [1]"
  "map (refCount \<circ> snd) (m_meshes loaded_manager) = [1]"
  "map (refCount \<circ> snd) (m_textures loaded_manager) = [1]"
  "map (refCount \<circ> snd) (m_materials loaded_manager) = [1]"
  "map (textureDeps \<circ> snd) (m_materials loaded_manager) = [[\<lparr> handle_id = 1, handle_generation = 1 \<rparr>]]"
  "map (generation \<circ> snd) (m_meshes loaded_manager) = [1]"
  "map (generation \<circ> snd) (m_textures loaded_manager) = [1]"
  "map (generation \<circ> snd) (m_materials loaded_manager) = [1]"
  "filter (\<lambda>c. c = SubmitAndWait) (m_device loaded_manager) = [SubmitAndWait]"
  unfolding loaded_manager_def model_1_def loadModel_def
  by (simp_all add: new_AssetManager_def env_ok_def one_of_each_parse,
      simp_all add: load_eval_defs one_of_each_file_def example_defs)

section \<open>Parse failure and reference count pairs\<close>

text \<open>
  C5. When \<open>loadModel\<close> parses the container (the path is not cached) and the parse fails,
  for an I/O or a format reason, it returns the invalid handle and the manager is exactly
  as before the call: the four registries, the two path caches, the four identifier
  counters and the device log (no device call was made).
\<close>

theorem C5_parse_failure_changes_nothing:
  assumes "m_modelPathCache s cookedModelPath = None"
    and "LoadSModelFile (decls env) (read_file env) cookedModelPath = Inl err"
  shows "loadModel env cookedModelPath s = (invalid_handle, s)"
  using assms by (simp add: loadModel_def)

theorem C5_parse_failure_changes_nothing_witness:
  "loadModel env_unreadable ''model.smodel'' new_AssetManager = (invalid_handle, new_AssetManager)"
proof -
  have a: "m_modelPathCache new_AssetManager ''model.smodel'' = None"
    by (simp add: new_AssetManager_def)
  have b: "LoadSModelFile (decls env_unreadable) (read_file env_unreadable) ''model.smodel''
             = Inl (Err (''Failed to open file: '' @ ''model.smodel''))"
    by (simp add: LoadSModelFile_def env_unreadable_def)
  show ?thesis
    using C5_parse_failure_changes_nothing[OF a b] .
qed

lemma not_at_max_iff:
  "\<not> at_max h r \<longleftrightarrow>
     (\<forall>e. map_of r (handle_id h) = Some e \<longrightarrow> generation e = handle_generation h
          \<longrightarrow> refCount e \<noteq> 0xFFFFFFFF)"
  by (auto simp: at_max_def split: option.splits)

lemma at_max_refCount: "at_max h r \<Longrightarrow> 0xFFFFFFFF \<in> set (map (refCount \<circ> snd) r)"
  by (auto simp: at_max_def split: option.splits dest!: map_of_SomeD intro!: image_eqI)

text \<open>
  C6, as the code has it. \<open>addRef(h)\<close> followed by \<open>release(h)\<close> leaves the whole manager,
  and so every reference count, unchanged, for each of the four handle kinds and
  whether or not \<open>h\<close> resolves, provided the entry that \<open>h\<close> resolves to does not hold the
  count \<open>2^32 - 1\<close>.
\<close>

theorem C6_addRef_release_below_max:
  "(\<not> at_max h (m_meshes s) \<longrightarrow> release_Mesh h (addRef_Mesh h s) = s) \<and>
   (\<not> at_max h (m_textures s) \<longrightarrow> release_Texture h (addRef_Texture h s) = s) \<and>
   (\<not> at_max h (m_materials s) \<longrightarrow> release_Material h (addRef_Material h s) = s) \<and>
   (\<not> at_max h (m_models s) \<longrightarrow> release_Model h (addRef_Model h s) = s)"
  by (simp add: not_at_max_iff release_addRef_entry
      release_Mesh_def addRef_Mesh_def release_Texture_def addRef_Texture_def
      release_Material_def addRef_Material_def release_Model_def addRef_Model_def)

theorem C6_addRef_release_below_max_witness:
  "\<not> at_max model_1 (m_meshes loaded_manager) \<and>
   release_Mesh model_1 (addRef_Mesh model_1 loaded_manager) = loaded_manager \<and>
   \<not> at_max model_1 (m_textures loaded_manager) \<and>
   release_Texture model_1 (addRef_Texture model_1 loaded_manager) = loaded_manager \<and>
   \<not> at_max model_1 (m_materials loaded_manager) \<and>
   release_Material model_1 (addRef_Material model_1 loaded_manager) = loaded_manager \<and>
   \<not> at_max model_1 (m_models loaded_manager) \<and>
   release_Model model_1 (addRef_Model model_1 loaded_manager) = loaded_manager"
proof -
  have "\<not> at_max model_1 (m_meshes loaded_manager)" "\<not> at_max model_1 (m_textures loaded_manager)"
       "\<not> at_max model_1 (m_materials loaded_manager)" "\<not> at_max model_1 (m_models loaded_manager)"
    using at_max_refCount[of model_1 "m_meshes loaded_manager"]
          at_max_refCount[of model_1 "m_textures loaded_manager"]
          at_max_refCount[of model_1 "m_materials loaded_manager"]
          at_max_refCount[of model_1 "m_models loaded_manager"]
    by (auto simp: loaded_manager_models)
  then show ?thesis
    using C6_addRef_release_below_max[of model_1 loaded_manager] by simp
qed

text \<open>
  The claim as stated fails at the count \<open>2^32 - 1\<close>: \<open>addRef\<close> wraps it to 0 and \<open>release\<close>
  leaves a zero count alone.
\<close>

theorem C6_counterexample:
  "map (refCount \<circ> snd) (m_models saturated_manager) = [0xFFFFFFFF] \<and>
   map (refCount \<circ> snd) (m_models (release_Model model_1 (addRef_Model model_1 saturated_manager))) = [0]"
  by (simp add: saturated_manager_def loaded_manager_models model_1_def
      release_Model_def addRef_Model_def release_entry_def addRef_entry_def)

section \<open>Registries that differ in reference counts only\<close>

lemma refCount_self_update: "\<exists>c. e = e \<lparr> refCount := c \<rparr>"
  by (rule exI[of _ "refCount e"]) simp

lemma rc_equiv_refl: "rc_equiv r r"
  unfolding rc_equiv_def
  by (rule list_all2_refl) (simp add: refCount_self_update)

lemma rc_equiv_trans:
  assumes "rc_equiv a b" "rc_equiv b c"
  shows "rc_equiv a c"
proof -
  define R :: "nat \<times> ('a, 'b) Entry_scheme \<Rightarrow> nat \<times> ('a, 'b) Entry_scheme \<Rightarrow> bool"
    where "R = (\<lambda>x y. fst y = fst x \<and> (\<exists>c. snd y = (snd x) \<lparr> refCount := c \<rparr>))"
  have step: "\<And>x y z. R x y \<Longrightarrow> R y z \<Longrightarrow> R x z"
    unfolding R_def by auto
  have ab: "list_all2 R a b" and bc: "list_all2 R b c"
    using assms unfolding rc_equiv_def R_def by simp_all
  have "list_all2 R a c"
    by (rule list_all2_trans[of R R R, OF step ab bc])
  then show ?thesis
    by (simp add: rc_equiv_def R_def)
qed

lemma rc_equiv_modify_entry:
  "(\<And>e. \<exists>c. g e = e \<lparr> refCount := c \<rparr>) \<Longrightarrow> rc_equiv r (modify_entry k g r)"
proof (induction r)
  case Nil
  then show ?case by (simp add: rc_equiv_def)
next
  case (Cons x r)
  obtain k' e where x: "x = (k', e)" by (cases x)
  have same: "\<exists>c. e = e \<lparr> refCount := c \<rparr>" by (rule refCount_self_update)
  show ?case
    using Cons same rc_equiv_refl[of r] by (auto simp: x rc_equiv_def)
qed

lemma rc_equiv_addRef_entry: "rc_equiv r (addRef_entry h r)"
  by (auto simp: addRef_entry_def rc_equiv_refl intro!: rc_equiv_modify_entry split: option.splits)

lemma rc_equiv_release_entry: "rc_equiv r (release_entry h r)"
  by (auto simp: release_entry_def rc_equiv_refl intro!: rc_equiv_modify_entry split: option.splits)

lemma rc_equiv_fold:
  "(\<And>h r. rc_equiv r (f h r)) \<Longrightarrow> rc_equiv r (fold f hs r)"
proof (induction hs arbitrary: r)
  case Nil
  then show ?case by (simp add: rc_equiv_refl)
next
  case (Cons h hs)
  show ?case
    using Cons.prems Cons.IH[OF Cons.prems, of "f h r"] by (auto intro: rc_equiv_trans)
qed

lemma rc_equiv_keys: "rc_equiv r r' \<Longrightarrow> map fst r' = map fst r"
  unfolding rc_equiv_def by (induction rule: list_all2_induct) auto

lemma rc_equiv_map_of:
  "rc_equiv r r' \<Longrightarrow>
     (case map_of r k of
        None \<Rightarrow> map_of r' k = None
      | Some e \<Rightarrow> \<exists>c. map_of r' k = Some (e \<lparr> refCount := c \<rparr>))"
  unfolding rc_equiv_def
  by (induction rule: list_all2_induct) (auto split: option.splits)

lemma rc_equiv_map_of_Some:
  "rc_equiv r r' \<Longrightarrow> map_of r k = Some e \<Longrightarrow> \<exists>c. map_of r' k = Some (e \<lparr> refCount := c \<rparr>)"
  using rc_equiv_map_of[of r r' k] by simp

lemma rc_equiv_map_of_None:
  "rc_equiv r r' \<Longrightarrow> map_of r k = None \<Longrightarrow> map_of r' k = None"
  using rc_equiv_map_of[of r r' k] by simp

lemma rc_equiv_set:
  "rc_equiv r r' \<Longrightarrow> (k, e') \<in> set r' \<Longrightarrow> \<exists>e c. (k, e) \<in> set r \<and> e' = e \<lparr> refCount := c \<rparr>"
  unfolding rc_equiv_def
  by (induction rule: list_all2_induct) (auto, metis prod.collapse)

lemma get_asset_rc_equiv: "rc_equiv r r' \<Longrightarrow> get_asset h r' = get_asset h r"
  using rc_equiv_map_of[of r r' "handle_id h"]
  by (auto simp: get_asset_def split: option.splits)

section \<open>The parts of the invariant\<close>

lemma handle_ok_mono: "handle_ok n h \<Longrightarrow> n \<le> n' \<Longrightarrow> handle_ok n' h"
  by (auto simp: handle_ok_def)

lemma handle_ok_invalid [simp]: "handle_ok n invalid_handle"
  by (simp add: handle_ok_def)

lemma handle_ok_new: "0 < n \<Longrightarrow> handle_ok (Suc n) \<lparr> handle_id = n, handle_generation = 1 \<rparr>"
  by (simp add: handle_ok_def)

lemma registry_ok_mono: "registry_ok n r \<Longrightarrow> n \<le> n' \<Longrightarrow> registry_ok n' r"
  by (fastforce simp: registry_ok_def)

lemma registry_ok_rc_equiv:
  assumes "registry_ok n r" "rc_equiv r r'"
  shows "registry_ok n r'"
proof -
  have "\<And>k e'. (k, e') \<in> set r' \<Longrightarrow> 0 < k \<and> k < n \<and> generation e' = 1 \<and> asset e' \<noteq> None"
  proof -
    fix k e' assume "(k, e') \<in> set r'"
    then obtain e c where "(k, e) \<in> set r" "e' = e \<lparr> refCount := c \<rparr>"
      using rc_equiv_set[OF assms(2)] by blast
    then show "0 < k \<and> k < n \<and> generation e' = 1 \<and> asset e' \<noteq> None"
      using assms(1) by (auto simp: registry_ok_def)
  qed
  then show ?thesis
    using assms by (auto simp: registry_ok_def rc_equiv_keys)
qed

lemma registry_ok_fresh: "registry_ok n r \<Longrightarrow> n \<notin> fst ` set r"
  by (fastforce simp: registry_ok_def)

lemma registry_ok_emplace:
  assumes "registry_ok n r" "generation e = 1" "asset e \<noteq> None"
  shows "registry_ok (Suc n) (emplace n e r)" and "emplace n e r = r @ [(n, e)]"
proof -
  show eq: "emplace n e r = r @ [(n, e)]"
    using registry_ok_fresh[OF assms(1)] by (rule emplace_fresh)
  show "registry_ok (Suc n) (emplace n e r)"
    using assms registry_ok_fresh[OF assms(1)]
    unfolding eq registry_ok_def by (auto simp: less_Suc_eq)
qed

lemma registry_ok_erase: "registry_ok n r \<Longrightarrow> registry_ok n (erase k r)"
  by (auto simp: registry_ok_def keys_erase set_erase distinct_filter)

lemma registry_ok_map_of:
  "registry_ok n r \<Longrightarrow> map_of r k = Some e
   \<Longrightarrow> 0 < k \<and> k < n \<and> generation e = 1 \<and> asset e \<noteq> None"
  by (auto simp: registry_ok_def dest!: map_of_SomeD)

lemma cache_ok_rc_equiv:
  assumes "cache_ok c r" "rc_equiv r r'"
  shows "cache_ok c r'"
  unfolding cache_ok_def
proof (intro allI impI)
  fix p h assume "c p = Some h"
  then obtain e where g: "handle_generation h = 1" and e: "map_of r (handle_id h) = Some e" "path e = p"
    using assms(1) by (auto simp: cache_ok_def)
  obtain cnt where "map_of r' (handle_id h) = Some (e \<lparr> refCount := cnt \<rparr>)"
    using rc_equiv_map_of_Some[OF assms(2) e(1)] by blast
  then show "handle_generation h = 1 \<and> (\<exists>e. map_of r' (handle_id h) = Some e \<and> path e = p)"
    using g e by simp
qed

lemma material_handles_ok_rc_equiv:
  assumes "material_handles_ok n r" "rc_equiv r r'"
  shows "material_handles_ok n r'"
  unfolding material_handles_ok_def
proof (clarify)
  fix k e' a h
  assume "(k, e') \<in> set r'" "asset e' = Some a" "h \<in> set (texture_handles a)"
  moreover then obtain e c where "(k, e) \<in> set r" "e' = e \<lparr> refCount := c \<rparr>"
    using rc_equiv_set[OF assms(2)] by blast
  ultimately show "handle_ok n h"
    using assms(1) by (fastforce simp: material_handles_ok_def)
qed

lemma model_handles_ok_rc_equiv:
  assumes "model_handles_ok n m r" "rc_equiv r r'"
  shows "model_handles_ok n m r'"
  unfolding model_handles_ok_def
proof (clarify)
  fix k e' a p
  assume "(k, e') \<in> set r'" "asset e' = Some a" "p \<in> set (model_primitives a)"
  moreover then obtain e c where "(k, e) \<in> set r" "e' = e \<lparr> refCount := c \<rparr>"
    using rc_equiv_set[OF assms(2)] by blast
  ultimately show "handle_ok n (mp_mesh p) \<and> handle_ok m (mp_material p)"
    using assms(1) by (fastforce simp: model_handles_ok_def)
qed

lemma material_handles_ok_mono:
  "material_handles_ok n r \<Longrightarrow> n \<le> n' \<Longrightarrow> material_handles_ok n' r"
  unfolding material_handles_ok_def by (blast intro: handle_ok_mono)

lemma model_handles_ok_mono:
  "model_handles_ok n m r \<Longrightarrow> n \<le> n' \<Longrightarrow> m \<le> m' \<Longrightarrow> model_handles_ok n' m' r"
  unfolding model_handles_ok_def by (blast intro: handle_ok_mono)

lemma material_handles_ok_erase:
  "material_handles_ok n r \<Longrightarrow> material_handles_ok n (erase k r)"
  by (auto simp: material_handles_ok_def set_erase)

lemma model_handles_ok_erase:
  "model_handles_ok n m r \<Longrightarrow> model_handles_ok n m (erase k r)"
  by (auto simp: model_handles_ok_def set_erase)

lemma cache_ok_append:
  assumes "cache_ok c r" "k \<notin> fst ` set r"
  shows "cache_ok c (r @ [(k, e)])"
  unfolding cache_ok_def
proof (intro allI impI)
  fix p h assume "c p = Some h"
  then obtain e0 where g: "handle_generation h = 1" and e: "map_of r (handle_id h) = Some e0" "path e0 = p"
    using assms(1) by (auto simp: cache_ok_def)
  then show "handle_generation h = 1 \<and> (\<exists>e'. map_of (r @ [(k, e)]) (handle_id h) = Some e' \<and> path e' = p)"
    by (auto simp: map_of_append)
qed

section \<open>The operations keep the invariant\<close>

lemma manager_inv_device [simp]: "manager_inv (s \<lparr> m_device := l \<rparr>) = manager_inv s"
  by (simp add: manager_inv_def)

lemma manager_inv_rc:
  assumes "manager_inv s"
    and "rc_equiv (m_meshes s) (m_meshes s')" "rc_equiv (m_textures s) (m_textures s')"
    and "rc_equiv (m_materials s) (m_materials s')" "rc_equiv (m_models s) (m_models s')"
    and "m_nextMeshID s' = m_nextMeshID s" "m_nextTextureID s' = m_nextTextureID s"
    and "m_nextMaterialID s' = m_nextMaterialID s" "m_nextModelID s' = m_nextModelID s"
    and "m_meshPathCache s' = m_meshPathCache s" "m_modelPathCache s' = m_modelPathCache s"
  shows "manager_inv s'"
  using assms unfolding manager_inv_def
  by (auto intro: registry_ok_rc_equiv cache_ok_rc_equiv material_handles_ok_rc_equiv
      model_handles_ok_rc_equiv)

lemma fold_addRef_Texture:
  "fold addRef_Texture hs s = s \<lparr> m_textures := fold addRef_entry hs (m_textures s) \<rparr>"
  by (induction hs arbitrary: s) (simp_all add: addRef_Texture_def)

lemma fold_release_Texture:
  "fold release_Texture hs s = s \<lparr> m_textures := fold release_entry hs (m_textures s) \<rparr>"
  by (induction hs arbitrary: s) (simp_all add: release_Texture_def)

lemma fold_release_Mesh:
  "fold release_Mesh hs s = s \<lparr> m_meshes := fold release_entry hs (m_meshes s) \<rparr>"
  by (induction hs arbitrary: s) (simp_all add: release_Mesh_def)

lemma fold_release_Material:
  "fold release_Material hs s = s \<lparr> m_materials := fold release_entry hs (m_materials s) \<rparr>"
  by (induction hs arbitrary: s) (simp_all add: release_Material_def)

lemma rc_equiv_fold_addRef: "rc_equiv r (fold addRef_entry hs r)"
  by (rule rc_equiv_fold) (rule rc_equiv_addRef_entry)

lemma rc_equiv_fold_release: "rc_equiv r (fold release_entry hs r)"
  by (rule rc_equiv_fold) (rule rc_equiv_release_entry)

lemma manager_inv_addRef_release:
  assumes "manager_inv s"
  shows "manager_inv (addRef_Mesh h s)" "manager_inv (addRef_Texture h s)"
    "manager_inv (addRef_Material h s)" "manager_inv (addRef_Model h s)"
    "manager_inv (release_Mesh h s)" "manager_inv (release_Texture h s)"
    "manager_inv (release_Material h s)" "manager_inv (release_Model h s)"
  by (rule manager_inv_rc[OF assms];
      simp add: addRef_Mesh_def addRef_Texture_def addRef_Material_def addRef_Model_def
        release_Mesh_def release_Texture_def release_Material_def release_Model_def
        rc_equiv_refl rc_equiv_addRef_entry rc_equiv_release_entry)+

subsection \<open>Textures\<close>

lemma createTexture_Internal_inv:
  assumes "manager_inv s" "createTexture_Internal (Some t) rc s = (h, s')"
  shows "manager_inv s'"
    and "h = \<lparr> handle_id = m_nextTextureID s, handle_generation = 1 \<rparr>"
    and "s' = s \<lparr> m_nextTextureID := Suc (m_nextTextureID s),
                  m_textures := m_textures s @
                    [(m_nextTextureID s, \<lparr> asset = Some t, generation = 1, refCount = rc \<rparr>)] \<rparr>"
    and "handle_ok (m_nextTextureID s') h"
proof -
  let ?n = "m_nextTextureID s"
  let ?e = "\<lparr> asset = Some t, generation = 1, refCount = rc \<rparr>"
  have ok: "registry_ok ?n (m_textures s)"
    using assms(1) by (simp add: manager_inv_def)
  have em: "emplace ?n ?e (m_textures s) = m_textures s @ [(?n, ?e)]"
    and ok': "registry_ok (Suc ?n) (emplace ?n ?e (m_textures s))"
    using registry_ok_emplace[OF ok, of ?e] by simp_all
  show h: "h = \<lparr> handle_id = ?n, handle_generation = 1 \<rparr>"
    using assms(2) by (auto simp: createTexture_Internal_def Let_def)
  show s': "s' = s \<lparr> m_nextTextureID := Suc ?n, m_textures := m_textures s @ [(?n, ?e)] \<rparr>"
    using assms(2) em by (auto simp: createTexture_Internal_def Let_def)
  have pos: "0 < ?n" using ok by (simp add: registry_ok_def)
  show "handle_ok (m_nextTextureID s') h"
    unfolding h s' using pos by (simp add: handle_ok_def)
  show "manager_inv s'"
    using assms(1) ok' unfolding s' em manager_inv_def
    by (auto intro: material_handles_ok_mono)
qed

lemma load_textures_inv:
  assumes "manager_inv s" "\<forall>h\<in>set hs. handle_ok (m_nextTextureID s) h"
    and "load_textures env f idxs up hs s = (ok, up', hs', s')"
  shows "manager_inv s' \<and> (\<forall>h\<in>set hs'. handle_ok (m_nextTextureID s') h)
       \<and> length hs' = length hs \<and> m_nextTextureID s \<le> m_nextTextureID s'
       \<and> m_meshes s' = m_meshes s \<and> m_materials s' = m_materials s \<and> m_models s' = m_models s
       \<and> m_meshPathCache s' = m_meshPathCache s \<and> m_modelPathCache s' = m_modelPathCache s
       \<and> m_nextMeshID s' = m_nextMeshID s \<and> m_nextMaterialID s' = m_nextMaterialID s
       \<and> m_nextModelID s' = m_nextModelID s"
  using assms
proof (induction idxs arbitrary: up hs s)
  case Nil
  then show ?case by simp
next
  case (Cons i idxs)
  let ?t = "textures f i"
  obtain ok1 tex up1 log1 where up:
    "uploadEncodedImage_Deferred env up (m_device s) new_TextureAsset (blob f)
       (tex_imageDataOffset ?t) (tex_imageDataSize ?t) (tex_colorSpace ?t = 1) (sampler_of ?t)
     = (ok1, tex, up1, log1)"
    by (metis prod_cases4)
  show ?case
  proof (cases ok1)
    case False
    then have "s' = s \<lparr> m_device := log1 \<rparr>" "hs' = hs"
      using Cons.prems(3) up by (simp_all add: Let_def)
    then show ?thesis using Cons.prems(1,2) by simp
  next
    case True
    obtain h s1 where cr: "createTexture_Internal (Some tex) 0 (s \<lparr> m_device := log1 \<rparr>) = (h, s1)"
      by (metis surj_pair)
    have inv0: "manager_inv (s \<lparr> m_device := log1 \<rparr>)"
      using Cons.prems(1) by simp
    note c = createTexture_Internal_inv[OF inv0 cr]
    have rest: "load_textures env f idxs up1 (hs [i := h]) s1 = (ok, up', hs', s')"
      using Cons.prems(3) up True cr by (simp add: Let_def)
    have n: "m_nextTextureID s1 = Suc (m_nextTextureID s)"
      by (simp add: c(3))
    have hs_ok: "\<forall>x\<in>set (hs [i := h]). handle_ok (m_nextTextureID s1) x"
    proof
      fix x assume "x \<in> set (hs [i := h])"
      then have "x = h \<or> x \<in> set hs"
        using set_update_subset_insert[of hs i h] by auto
      then show "handle_ok (m_nextTextureID s1) x"
        using c(4) Cons.prems(2) n by (auto intro: handle_ok_mono)
    qed
    have "manager_inv s' \<and> (\<forall>h\<in>set hs'. handle_ok (m_nextTextureID s') h)
       \<and> length hs' = length (hs [i := h]) \<and> m_nextTextureID s1 \<le> m_nextTextureID s'
       \<and> m_meshes s' = m_meshes s1 \<and> m_materials s' = m_materials s1 \<and> m_models s' = m_models s1
       \<and> m_meshPathCache s' = m_meshPathCache s1 \<and> m_modelPathCache s' = m_modelPathCache s1
       \<and> m_nextMeshID s' = m_nextMeshID s1 \<and> m_nextMaterialID s' = m_nextMaterialID s1
       \<and> m_nextModelID s' = m_nextModelID s1"
      by (rule Cons.IH[OF c(1) hs_ok rest])
    then show ?thesis
      using n by (simp add: c(3))
  qed
qed

subsection \<open>Materials\<close>

lemma grabTex_ok:
  assumes "sint idx < 0 \<or> unat idx < length ths" "\<forall>h\<in>set ths. handle_ok n h"
  shows "handle_ok n (grabTex ths idx)"
  using assms by (auto simp: grabTex_def)

lemma texture_handles_make_material:
  "texture_handles (make_material f ths i) = map (grabTex ths) (texture_indices (materials f i))"
  by (simp add: texture_handles_def make_material_def texture_indices_def Let_def)

lemma valid_textures_subset: "set (valid_textures a) \<subseteq> set (texture_handles a)"
  by (auto simp: valid_textures_def texture_handles_def)

lemma material_handles_ok_append:
  assumes "material_handles_ok n r" "\<forall>a. asset e = Some a \<longrightarrow> (\<forall>h\<in>set (texture_handles a). handle_ok n h)"
  shows "material_handles_ok n (r @ [(k, e)])"
  using assms by (auto simp: material_handles_ok_def)

lemma createMaterial_Internal_inv:
  assumes "manager_inv s" "\<forall>h\<in>set (texture_handles a). handle_ok (m_nextTextureID s) h"
    and "createMaterial_Internal (Some a) rc s = (h, s')"
  shows "manager_inv s'"
    and "h = \<lparr> handle_id = m_nextMaterialID s, handle_generation = 1 \<rparr>"
    and "s' = s \<lparr> m_nextMaterialID := Suc (m_nextMaterialID s),
                  m_materials := m_materials s @
                    [(m_nextMaterialID s, \<lparr> asset = Some a, generation = 1, refCount = rc,
                                            textureDeps = valid_textures a \<rparr>)] \<rparr>"
    and "handle_ok (m_nextMaterialID s') h"
proof -
  let ?n = "m_nextMaterialID s"
  let ?e = "\<lparr> asset = Some a, generation = 1, refCount = rc, textureDeps = valid_textures a \<rparr>"
  have ok: "registry_ok ?n (m_materials s)"
    using assms(1) by (simp add: manager_inv_def)
  have em: "emplace ?n ?e (m_materials s) = m_materials s @ [(?n, ?e)]"
    and ok': "registry_ok (Suc ?n) (emplace ?n ?e (m_materials s))"
    using registry_ok_emplace[OF ok, of ?e] by simp_all
  show h: "h = \<lparr> handle_id = ?n, handle_generation = 1 \<rparr>"
    using assms(3) by (auto simp: createMaterial_Internal_def Let_def)
  show s': "s' = s \<lparr> m_nextMaterialID := Suc ?n, m_materials := m_materials s @ [(?n, ?e)] \<rparr>"
    using assms(3) em by (auto simp: createMaterial_Internal_def Let_def)
  have pos: "0 < ?n" using ok by (simp add: registry_ok_def)
  show "handle_ok (m_nextMaterialID s') h"
    unfolding h s' using pos by (simp add: handle_ok_def)
  have mat: "material_handles_ok (m_nextTextureID s) (m_materials s @ [(?n, ?e)])"
    using assms(1,2) by (intro material_handles_ok_append) (simp_all add: manager_inv_def)
  show "manager_inv s'"
    using assms(1) ok' mat unfolding s' em manager_inv_def
    by (auto intro: model_handles_ok_mono)
qed

lemma load_materials_inv:
  assumes "manager_inv s" "\<forall>h\<in>set ths. handle_ok (m_nextTextureID s) h"
    and "\<forall>h\<in>set mhs. handle_ok (m_nextMaterialID s) h"
    and "\<forall>i\<in>set idxs. \<forall>idx\<in>set (texture_indices (materials f i)). sint idx < 0 \<or> unat idx < length ths"
    and "load_materials f ths idxs mhs s = (mhs', s')"
  shows "manager_inv s' \<and> (\<forall>h\<in>set mhs'. handle_ok (m_nextMaterialID s') h)
       \<and> length mhs' = length mhs \<and> m_nextMaterialID s \<le> m_nextMaterialID s'
       \<and> rc_equiv (m_textures s) (m_textures s') \<and> m_nextTextureID s' = m_nextTextureID s
       \<and> m_meshes s' = m_meshes s \<and> m_models s' = m_models s
       \<and> m_meshPathCache s' = m_meshPathCache s \<and> m_modelPathCache s' = m_modelPathCache s
       \<and> m_nextMeshID s' = m_nextMeshID s \<and> m_nextModelID s' = m_nextModelID s
       \<and> m_device s' = m_device s"
  using assms
proof (induction idxs arbitrary: mhs s)
  case Nil
  then show ?case by (simp add: rc_equiv_refl)
next
  case (Cons i idxs)
  let ?mat = "make_material f ths i"
  obtain mh s1 where cr: "createMaterial_Internal (Some ?mat) 0 s = (mh, s1)"
    by (metis surj_pair)
  have hs: "\<forall>h\<in>set (texture_handles ?mat). handle_ok (m_nextTextureID s) h"
    using Cons.prems(2,4) by (auto simp: texture_handles_make_material intro!: grabTex_ok)
  note c = createMaterial_Internal_inv[OF Cons.prems(1) hs cr]
  define s2 where "s2 = (case getMaterial mh s1 of None \<Rightarrow> s1
                         | Some createdMat \<Rightarrow> fold addRef_Texture (valid_textures createdMat) s1)"
  have s2: "\<exists>hl. s2 = s1 \<lparr> m_textures := fold addRef_entry hl (m_textures s1) \<rparr>"
  proof (cases "getMaterial mh s1")
    case None
    then have "s2 = s1 \<lparr> m_textures := fold addRef_entry [] (m_textures s1) \<rparr>"
      by (simp add: s2_def)
    then show ?thesis by blast
  next
    case (Some cm)
    then show ?thesis by (auto simp: s2_def fold_addRef_Texture)
  qed
  then obtain hl where s2_eq: "s2 = s1 \<lparr> m_textures := fold addRef_entry hl (m_textures s1) \<rparr>"
    by blast
  have inv2: "manager_inv s2"
    by (rule manager_inv_rc[OF c(1)]) (simp_all add: s2_eq rc_equiv_refl rc_equiv_fold_addRef)
  have rest: "load_materials f ths idxs (mhs [i := mh]) s2 = (mhs', s')"
    using Cons.prems(5) cr by (simp add: Let_def s2_def)
  have nt: "m_nextTextureID s2 = m_nextTextureID s" and nm: "m_nextMaterialID s2 = Suc (m_nextMaterialID s)"
    by (simp_all add: s2_eq c(3))
  have a2: "\<forall>h\<in>set ths. handle_ok (m_nextTextureID s2) h"
    using Cons.prems(2) nt by simp
  have a3: "\<forall>x\<in>set (mhs [i := mh]). handle_ok (m_nextMaterialID s2) x"
  proof
    fix x assume "x \<in> set (mhs [i := mh])"
    then have "x = mh \<or> x \<in> set mhs"
      using set_update_subset_insert[of mhs i mh] by auto
    then show "handle_ok (m_nextMaterialID s2) x"
      using c(4) Cons.prems(3) nm by (auto simp: c(3) intro: handle_ok_mono)
  qed
  have a4: "\<forall>i\<in>set idxs. \<forall>idx\<in>set (texture_indices (materials f i)). sint idx < 0 \<or> unat idx < length ths"
    using Cons.prems(4) by simp
  have "manager_inv s' \<and> (\<forall>h\<in>set mhs'. handle_ok (m_nextMaterialID s') h)
       \<and> length mhs' = length (mhs [i := mh]) \<and> m_nextMaterialID s2 \<le> m_nextMaterialID s'
       \<and> rc_equiv (m_textures s2) (m_textures s') \<and> m_nextTextureID s' = m_nextTextureID s2
       \<and> m_meshes s' = m_meshes s2 \<and> m_models s' = m_models s2
       \<and> m_meshPathCache s' = m_meshPathCache s2 \<and> m_modelPathCache s' = m_modelPathCache s2
       \<and> m_nextMeshID s' = m_nextMeshID s2 \<and> m_nextModelID s' = m_nextModelID s2
       \<and> m_device s' = m_device s2"
    by (rule Cons.IH[OF inv2 a2 a3 a4 rest])
  moreover have "rc_equiv (m_textures s) (m_textures s2)"
    by (simp add: s2_eq c(3) rc_equiv_fold_addRef)
  ultimately show ?case
    using nm nt by (auto simp: s2_eq c(3) intro: rc_equiv_trans)
qed

subsection \<open>Meshes\<close>

lemma createMeshFromData_Internal_inv:
  assumes "manager_inv s" "createMeshFromData_Internal env data pth rc s = (h, s')"
  shows "manager_inv s' \<and> handle_ok (m_nextMeshID s') h \<and> m_nextMeshID s \<le> m_nextMeshID s'
       \<and> m_textures s' = m_textures s \<and> m_materials s' = m_materials s \<and> m_models s' = m_models s
       \<and> m_meshPathCache s' = m_meshPathCache s \<and> m_modelPathCache s' = m_modelPathCache s
       \<and> m_nextTextureID s' = m_nextTextureID s \<and> m_nextMaterialID s' = m_nextMaterialID s
       \<and> m_nextModelID s' = m_nextModelID s
       \<and> (h = invalid_handle \<and> m_meshes s' = m_meshes s \<and> m_nextMeshID s' = m_nextMeshID s
          \<or> h = \<lparr> handle_id = m_nextMeshID s, handle_generation = 1 \<rparr>
            \<and> m_nextMeshID s' = Suc (m_nextMeshID s)
            \<and> m_meshes s' = m_meshes s @
                 [(m_nextMeshID s, \<lparr> asset = Some \<lparr> uploaded = data \<rparr>, generation = 1,
                                      refCount = rc, path = pth \<rparr>)])"
proof -
  let ?n = "m_nextMeshID s"
  let ?e = "\<lparr> asset = Some \<lparr> uploaded = data \<rparr>, generation = 1, refCount = rc, path = pth \<rparr>"
  have ok: "registry_ok ?n (m_meshes s)"
    using assms(1) by (simp add: manager_inv_def)
  have em: "emplace ?n ?e (m_meshes s) = m_meshes s @ [(?n, ?e)]"
    and ok': "registry_ok (Suc ?n) (emplace ?n ?e (m_meshes s))"
    using registry_ok_emplace[OF ok, of ?e] by simp_all
  have pos: "0 < ?n" using ok by (simp add: registry_ok_def)
  have fresh: "?n \<notin> fst ` set (m_meshes s)"
    by (rule registry_ok_fresh[OF ok])
  have cache: "cache_ok (m_meshPathCache s) (m_meshes s @ [(?n, ?e)])"
    using assms(1) fresh by (intro cache_ok_append) (simp_all add: manager_inv_def)
  consider (fail) l where "h = invalid_handle" "s' = s \<lparr> m_device := l \<rparr>"
    | (created) l where "h = \<lparr> handle_id = ?n, handle_generation = 1 \<rparr>"
        "s' = s \<lparr> m_nextMeshID := Suc ?n, m_meshes := m_meshes s @ [(?n, ?e)], m_device := l \<rparr>"
    using assms(2) em
    by (auto simp: createMeshFromData_Internal_def Let_def call_def split: if_splits)
  then show ?thesis
  proof cases
    case fail
    then show ?thesis using assms(1) by simp
  next
    case created
    have "manager_inv s'"
      using assms(1) ok' cache unfolding created(2) em manager_inv_def
      by (auto intro: model_handles_ok_mono)
    then show ?thesis
      using pos by (simp add: created handle_ok_def)
  qed
qed

lemma load_meshes_inv:
  assumes "manager_inv s" "\<forall>h\<in>set hs. handle_ok (m_nextMeshID s) h"
    and "load_meshes env f pth idxs hs s = (hs', s')"
  shows "manager_inv s' \<and> (\<forall>h\<in>set hs'. handle_ok (m_nextMeshID s') h)
       \<and> length hs' = length hs \<and> m_nextMeshID s \<le> m_nextMeshID s'
       \<and> m_textures s' = m_textures s \<and> m_materials s' = m_materials s \<and> m_models s' = m_models s
       \<and> m_meshPathCache s' = m_meshPathCache s \<and> m_modelPathCache s' = m_modelPathCache s
       \<and> m_nextTextureID s' = m_nextTextureID s \<and> m_nextMaterialID s' = m_nextMaterialID s
       \<and> m_nextModelID s' = m_nextModelID s"
  using assms
proof (induction idxs arbitrary: hs s)
  case Nil
  then show ?case by simp
next
  case (Cons i idxs)
  obtain h s1 where cr:
    "createMeshFromData_Internal env (make_mesh_data f i) (pth @ ''#mesh'' @ to_string i) 0 s = (h, s1)"
    by (metis surj_pair)
  note c = createMeshFromData_Internal_inv[OF Cons.prems(1) cr]
  have rest: "load_meshes env f pth idxs (hs [i := h]) s1 = (hs', s')"
    using Cons.prems(3) cr by (simp add: Let_def)
  have hs_ok: "\<forall>x\<in>set (hs [i := h]). handle_ok (m_nextMeshID s1) x"
  proof
    fix x assume "x \<in> set (hs [i := h])"
    then have "x = h \<or> x \<in> set hs"
      using set_update_subset_insert[of hs i h] by auto
    then show "handle_ok (m_nextMeshID s1) x"
      using c Cons.prems(2) by (auto intro: handle_ok_mono)
  qed
  have "manager_inv s' \<and> (\<forall>h\<in>set hs'. handle_ok (m_nextMeshID s') h)
       \<and> length hs' = length (hs [i := h]) \<and> m_nextMeshID s1 \<le> m_nextMeshID s'
       \<and> m_textures s' = m_textures s1 \<and> m_materials s' = m_materials s1 \<and> m_models s' = m_models s1
       \<and> m_meshPathCache s' = m_meshPathCache s1 \<and> m_modelPathCache s' = m_modelPathCache s1
       \<and> m_nextTextureID s' = m_nextTextureID s1 \<and> m_nextMaterialID s' = m_nextMaterialID s1
       \<and> m_nextModelID s' = m_nextModelID s1"
    using c by (intro Cons.IH[OF _ hs_ok rest]) simp
  then show ?case
    using c by auto
qed

subsection \<open>Primitives and the model entry\<close>

lemma load_primitives_inv:
  assumes "manager_inv s" "\<forall>h\<in>set mesh_hs. handle_ok (m_nextMeshID s) h"
    and "\<forall>h\<in>set mat_hs. handle_ok (m_nextMaterialID s) h"
    and "\<forall>i\<in>set idxs. unat (prim_meshIndex (primitives f i)) < length mesh_hs
                     \<and> unat (prim_materialIndex (primitives f i)) < length mat_hs"
    and "\<forall>p\<in>set prims. handle_ok (m_nextMeshID s) (mp_mesh p) \<and> handle_ok (m_nextMaterialID s) (mp_material p)"
    and "load_primitives f mesh_hs mat_hs idxs (prims, md, matd, s) = (prims', md', matd', s')"
  shows "manager_inv s'
       \<and> (\<forall>p\<in>set prims'. handle_ok (m_nextMeshID s') (mp_mesh p) \<and> handle_ok (m_nextMaterialID s') (mp_material p))
       \<and> length prims' = length prims
       \<and> rc_equiv (m_meshes s) (m_meshes s') \<and> rc_equiv (m_materials s) (m_materials s')
       \<and> m_textures s' = m_textures s \<and> m_models s' = m_models s
       \<and> m_meshPathCache s' = m_meshPathCache s \<and> m_modelPathCache s' = m_modelPathCache s
       \<and> m_nextMeshID s' = m_nextMeshID s \<and> m_nextTextureID s' = m_nextTextureID s
       \<and> m_nextMaterialID s' = m_nextMaterialID s \<and> m_nextModelID s' = m_nextModelID s
       \<and> m_device s' = m_device s"
  using assms
proof (induction idxs arbitrary: prims md matd s)
  case Nil
  then show ?case by (simp add: rc_equiv_refl)
next
  case (Cons i idxs)
  let ?p = "primitives f i"
  define prim where "prim = \<lparr> mp_mesh = mesh_hs ! unat (prim_meshIndex ?p),
                   mp_material = mat_hs ! unat (prim_materialIndex ?p),
                   mp_firstIndex = prim_firstIndex ?p,
                   mp_indexCount = prim_indexCount ?p,
                   mp_vertexOffset = prim_vertexOffset ?p \<rparr>"
  define s1 where "s1 = (if isValid (mp_mesh prim) then addRef_Mesh (mp_mesh prim) s else s)"
  define s2 where "s2 = (if isValid (mp_material prim) then addRef_Material (mp_material prim) s1 else s1)"
  define md1 where "md1 = (if isValid (mp_mesh prim) then md @ [mp_mesh prim] else md)"
  define matd1 where "matd1 = (if isValid (mp_material prim) then matd @ [mp_material prim] else matd)"
  have rest: "load_primitives f mesh_hs mat_hs idxs (prims [i := prim], md1, matd1, s2)
                = (prims', md', matd', s')"
    using Cons.prems(6)
    by (simp add: Let_def prim_def s1_def s2_def md1_def matd1_def split: if_splits)
  have s2_eq: "s2 = s \<lparr> m_meshes := m_meshes s2, m_materials := m_materials s2 \<rparr>"
    by (simp add: s2_def s1_def addRef_Mesh_def addRef_Material_def)
  have rc1: "rc_equiv (m_meshes s) (m_meshes s2)" and rc2: "rc_equiv (m_materials s) (m_materials s2)"
    by (simp_all add: s2_def s1_def addRef_Mesh_def addRef_Material_def rc_equiv_refl
        rc_equiv_addRef_entry)
  have fr: "m_textures s2 = m_textures s" "m_models s2 = m_models s"
    "m_meshPathCache s2 = m_meshPathCache s" "m_modelPathCache s2 = m_modelPathCache s"
    "m_nextMeshID s2 = m_nextMeshID s" "m_nextTextureID s2 = m_nextTextureID s"
    "m_nextMaterialID s2 = m_nextMaterialID s" "m_nextModelID s2 = m_nextModelID s"
    "m_device s2 = m_device s"
    by (simp_all add: s2_def s1_def addRef_Mesh_def addRef_Material_def)
  have inv2: "manager_inv s2"
    by (rule manager_inv_rc[OF Cons.prems(1) rc1 _ rc2]) (simp_all add: fr rc_equiv_refl)
  have prim_ok: "handle_ok (m_nextMeshID s) (mp_mesh prim) \<and> handle_ok (m_nextMaterialID s) (mp_material prim)"
    using Cons.prems(2,3,4) by (simp add: prim_def)
  have prims_ok: "\<forall>p\<in>set (prims [i := prim]).
      handle_ok (m_nextMeshID s2) (mp_mesh p) \<and> handle_ok (m_nextMaterialID s2) (mp_material p)"
  proof
    fix p assume "p \<in> set (prims [i := prim])"
    then have "p = prim \<or> p \<in> set prims"
      using set_update_subset_insert[of prims i prim] by auto
    then show "handle_ok (m_nextMeshID s2) (mp_mesh p) \<and> handle_ok (m_nextMaterialID s2) (mp_material p)"
      using prim_ok Cons.prems(5) by (auto simp: fr)
  qed
  have "manager_inv s'
       \<and> (\<forall>p\<in>set prims'. handle_ok (m_nextMeshID s') (mp_mesh p) \<and> handle_ok (m_nextMaterialID s') (mp_material p))
       \<and> length prims' = length (prims [i := prim])
       \<and> rc_equiv (m_meshes s2) (m_meshes s') \<and> rc_equiv (m_materials s2) (m_materials s')
       \<and> m_textures s' = m_textures s2 \<and> m_models s' = m_models s2
       \<and> m_meshPathCache s' = m_meshPathCache s2 \<and> m_modelPathCache s' = m_modelPathCache s2
       \<and> m_nextMeshID s' = m_nextMeshID s2 \<and> m_nextTextureID s' = m_nextTextureID s2
       \<and> m_nextMaterialID s' = m_nextMaterialID s2 \<and> m_nextModelID s' = m_nextModelID s2
       \<and> m_device s' = m_device s2"
    using Cons.prems(2,3,4)
    by (intro Cons.IH[OF inv2 _ _ _ prims_ok rest]) (simp_all add: fr)
  then show ?case
    using rc1 rc2 by (auto simp: fr intro: rc_equiv_trans)
qed

lemma modify_entry_append_fresh:
  "k \<notin> fst ` set r \<Longrightarrow> modify_entry k g (r @ [(k, e)]) = r @ [(k, g e)]"
  by (induction r) auto

lemma model_handles_ok_append:
  assumes "model_handles_ok n m r"
    and "\<forall>a. asset e = Some a \<longrightarrow>
           (\<forall>p\<in>set (model_primitives a). handle_ok n (mp_mesh p) \<and> handle_ok m (mp_material p))"
  shows "model_handles_ok n m (r @ [(k, e)])"
  using assms by (auto simp: model_handles_ok_def)

lemma cache_ok_emplace:
  assumes "cache_ok c r" "k \<notin> fst ` set r" "path e = p"
  shows "cache_ok (cache_emplace p \<lparr> handle_id = k, handle_generation = 1 \<rparr> c) (r @ [(k, e)])"
proof -
  have old: "cache_ok c (r @ [(k, e)])"
    by (rule cache_ok_append[OF assms(1,2)])
  show ?thesis
  proof (cases "c p")
    case (Some h)
    then show ?thesis using old by (simp add: cache_emplace_def)
  next
    case None
    have "map_of (r @ [(k, e)]) k = Some e"
      using assms(2) by (simp add: map_of_append map_add_def map_of_eq_None_iff[THEN iffD2])
    then show ?thesis
      using old None assms(3) by (auto simp: cache_emplace_def cache_ok_def)
  qed
qed

text \<open>Registering the model, attaching its dependency lists and caching the path.\<close>

lemma register_model:
  fixes md matd :: "Handle list"
  assumes "manager_inv s"
    and "\<forall>p\<in>set prims. handle_ok (m_nextMeshID s) (mp_mesh p) \<and> handle_ok (m_nextMaterialID s) (mp_material p)"
    and "createModel_Internal (Some \<lparr> model_primitives = prims, model_debugName = [] \<rparr>) pth 1 s = (h, s6)"
  defines "e \<equiv> \<lparr> asset = Some \<lparr> model_primitives = prims, model_debugName = [] \<rparr>, generation = 1,
                  refCount = 1, path = pth, meshDeps = md, materialDeps = matd \<rparr>"
  defines "s8 \<equiv> (s6 \<lparr> m_models := modify_entry (handle_id h)
                                   (\<lambda>e. e \<lparr> meshDeps := md, materialDeps := matd \<rparr>) (m_models s6) \<rparr>)
                 \<lparr> m_modelPathCache := cache_emplace pth h (m_modelPathCache s6) \<rparr>"
  shows "h = \<lparr> handle_id = m_nextModelID s, handle_generation = 1 \<rparr>"
    and "s8 = s \<lparr> m_nextModelID := Suc (m_nextModelID s),
                  m_models := m_models s @ [(m_nextModelID s, e)],
                  m_modelPathCache := cache_emplace pth h (m_modelPathCache s) \<rparr>"
    and "manager_inv s8"
proof -
  let ?n = "m_nextModelID s"
  let ?e0 = "\<lparr> asset = Some \<lparr> model_primitives = prims, model_debugName = [] \<rparr>, generation = 1,
               refCount = 1, path = pth, meshDeps = [], materialDeps = [] \<rparr>"
  have ok: "registry_ok ?n (m_models s)"
    using assms(1) by (simp add: manager_inv_def)
  have fresh: "?n \<notin> fst ` set (m_models s)"
    by (rule registry_ok_fresh[OF ok])
  have em: "emplace ?n ?e0 (m_models s) = m_models s @ [(?n, ?e0)]"
    by (rule emplace_fresh[OF fresh])
  show h: "h = \<lparr> handle_id = ?n, handle_generation = 1 \<rparr>"
    using assms(3) by (auto simp: createModel_Internal_def Let_def)
  have s6: "s6 = s \<lparr> m_nextModelID := Suc ?n, m_models := m_models s @ [(?n, ?e0)] \<rparr>"
    using assms(3) em by (auto simp: createModel_Internal_def Let_def)
  show s8: "s8 = s \<lparr> m_nextModelID := Suc ?n, m_models := m_models s @ [(?n, e)],
                     m_modelPathCache := cache_emplace pth h (m_modelPathCache s) \<rparr>"
    unfolding s8_def s6 h e_def by (simp add: modify_entry_append_fresh[OF fresh])
  have reg: "registry_ok (Suc ?n) (m_models s @ [(?n, e)])"
    using registry_ok_emplace[OF ok, of e] by (simp add: e_def)
  have hs: "model_handles_ok (m_nextMeshID s) (m_nextMaterialID s) (m_models s @ [(?n, e)])"
    using assms(1,2) by (intro model_handles_ok_append) (simp_all add: manager_inv_def e_def)
  have ca: "cache_ok (cache_emplace pth h (m_modelPathCache s)) (m_models s @ [(?n, e)])"
    unfolding h using assms(1) fresh
    by (intro cache_ok_emplace) (simp_all add: manager_inv_def e_def)
  show "manager_inv s8"
    using assms(1) reg hs ca unfolding s8 manager_inv_def by simp
qed

subsection \<open>What a validated container guarantees\<close>

lemma first_failure_Cons_None:
  "first_failure (c # cs) = None \<longleftrightarrow> c = None \<and> first_failure cs = None"
  by (cases c) auto

lemma validate_records:
  assumes "validate d f = None"
  shows "check_records f = None"
  using assms
  by (simp add: validate_def checks_before_samplers_def first_failure_None_iff
      del: first_failure.simps)

lemma validate_material:
  assumes "validate d f = None" "i < unat (materialCount (header f))"
    and "idx \<in> set (texture_indices (materials f i))"
  shows "sint idx < 0 \<or> unat idx < unat (textureCount (header f))"
proof -
  have "for_each [0..<unat (materialCount (header f))] (check_material f) = None"
    using validate_records[OF assms(1)]
    by (simp add: check_records_def Let_def first_failure_None_iff del: first_failure.simps)
  then have "check_material f i = None"
    using assms(2) by (simp add: for_each_None_iff)
  then have "\<exists>nm. checkTex f i idx nm = None"
    using assms(3)
    by (auto simp: check_material_def Let_def first_failure_None_iff texture_indices_def
        simp del: first_failure.simps)
  then show ?thesis
    by (auto simp: checkTex_def failing_def word_le_nat_alt not_le split: if_splits)
qed

lemma validate_primitive:
  assumes "validate d f = None" "i < unat (primitiveCount (header f))"
  shows "unat (prim_meshIndex (primitives f i)) < unat (meshCount (header f))
       \<and> unat (prim_materialIndex (primitives f i)) < unat (materialCount (header f))"
proof -
  have "for_each [0..<unat (primitiveCount (header f))] (check_primitive f) = None"
    using validate_records[OF assms(1)]
    by (simp add: check_records_def Let_def first_failure_None_iff del: first_failure.simps)
  then have "check_primitive f i = None"
    using assms(2) by (simp add: for_each_None_iff)
  then show ?thesis
    by (auto simp: check_primitive_def Let_def first_failure_None_iff failing_def
        word_le_nat_alt not_le simp del: first_failure.simps split: if_splits)
qed

lemma LoadSModelFile_Inr:
  assumes "LoadSModelFile d fs p = Inr view"
  shows "validate d (fileBytes view) = None \<and> fs p = FileBytes (fileBytes view)
       \<and> view = build_view (fileBytes view)"
  using assms
  by (auto simp: LoadSModelFile_def split: read_result.splits option.splits)

section \<open>loadModel, stage by stage\<close>

text \<open>
  Either one of the stages before the materials failed, and the invalid handle is
  returned from a state that differs from the initial one in the device log and the
  textures already registered, or every stage ran.
\<close>

lemma load_parsed_cases:
  assumes "load_parsed env pth view s = (h, s')"
  obtains
    (early) l where "h = invalid_handle" "s' = s \<lparr> m_device := l \<rparr>"
  | (textures) up log2 ok up1 ths s1 l where
      "h = invalid_handle"
      "load_textures env (fileBytes view) [0 ..< unat (textureCount (header (fileBytes view)))] up
         (replicate (unat (textureCount (header (fileBytes view)))) invalid_handle)
         (s \<lparr> m_device := log2 \<rparr>) = (ok, up1, ths, s1)"
      "s' = s1 \<lparr> m_device := l \<rparr>"
  | (loaded) log1 up log2 up1 ths s1 up2 log3 mhs s3 mesh_hs s4 prims md matd s5 s6 where
      "call env PoolCreate (m_device s) = (True, log1)"
      "BeginUploadContext env log1 = (True, up, log2)"
      "load_textures env (fileBytes view) [0 ..< unat (textureCount (header (fileBytes view)))] up
         (replicate (unat (textureCount (header (fileBytes view)))) invalid_handle)
         (s \<lparr> m_device := log2 \<rparr>) = (True, up1, ths, s1)"
      "EndSubmitAndWait env up1 (m_device s1) = (True, up2, log3)"
      "load_materials (fileBytes view) ths [0 ..< unat (materialCount (header (fileBytes view)))]
         (replicate (unat (materialCount (header (fileBytes view)))) invalid_handle)
         (s1 \<lparr> m_device := log3 @ [PoolDestroy] \<rparr>) = (mhs, s3)"
      "load_meshes env (fileBytes view) pth [0 ..< unat (meshCount (header (fileBytes view)))]
         (replicate (unat (meshCount (header (fileBytes view)))) invalid_handle) s3 = (mesh_hs, s4)"
      "load_primitives (fileBytes view) mesh_hs mhs
         [0 ..< unat (primitiveCount (header (fileBytes view)))]
         (replicate (unat (primitiveCount (header (fileBytes view)))) new_ModelPrimitive, [], [], s4)
         = (prims, md, matd, s5)"
      "createModel_Internal (Some \<lparr> model_primitives = prims, model_debugName = [] \<rparr>) pth 1 s5
         = (h, s6)"
      "s' = (s6 \<lparr> m_models := modify_entry (handle_id h)
                                (\<lambda>e. e \<lparr> meshDeps := md, materialDeps := matd \<rparr>) (m_models s6) \<rparr>)
              \<lparr> m_modelPathCache := cache_emplace pth h (m_modelPathCache s6) \<rparr>"
proof -
  let ?f = "fileBytes view"
  obtain pr log1 where c1: "call env PoolCreate (m_device s) = (pr, log1)"
    by (metis surj_pair)
  show ?thesis
  proof (cases pr)
    case False
    then show ?thesis
      using assms c1 by (intro early[of log1]) (simp_all add: load_parsed_def)
  next
    case pr: True
    obtain bo up log2 where c2: "BeginUploadContext env log1 = (bo, up, log2)"
      by (metis prod_cases3)
    show ?thesis
    proof (cases bo)
      case False
      then show ?thesis
        using assms c1 c2 pr
        by (intro early[of "log2 @ [PoolDestroy]"]) (simp_all add: load_parsed_def)
    next
      case bo: True
      obtain ok up1 ths s1 where c3:
        "load_textures env ?f [0 ..< unat (textureCount (header ?f))] up
           (replicate (unat (textureCount (header ?f))) invalid_handle)
           (s \<lparr> m_device := log2 \<rparr>) = (ok, up1, ths, s1)"
        by (metis prod_cases4)
      obtain eo up2 log3 where c4: "EndSubmitAndWait env up1 (m_device s1) = (eo, up2, log3)"
        by (metis prod_cases3)
      show ?thesis
      proof (cases "ok \<and> eo")
        case False
        then have "h = invalid_handle" "s' = s1 \<lparr> m_device := log3 @ [PoolDestroy] \<rparr>"
          using assms c1 c2 c3 c4 pr bo by (auto simp: load_parsed_def Let_def split: if_splits)
        then show ?thesis
          using c3 by (intro textures[of up log2 ok up1 ths s1]) simp_all
      next
        case True
        obtain mhs s3 where c5:
          "load_materials ?f ths [0 ..< unat (materialCount (header ?f))]
             (replicate (unat (materialCount (header ?f))) invalid_handle)
             (s1 \<lparr> m_device := log3 @ [PoolDestroy] \<rparr>) = (mhs, s3)"
          by (metis surj_pair)
        obtain mesh_hs s4 where c6:
          "load_meshes env ?f pth [0 ..< unat (meshCount (header ?f))]
             (replicate (unat (meshCount (header ?f))) invalid_handle) s3 = (mesh_hs, s4)"
          by (metis surj_pair)
        obtain prims md matd s5 where c7:
          "load_primitives ?f mesh_hs mhs [0 ..< unat (primitiveCount (header ?f))]
             (replicate (unat (primitiveCount (header ?f))) new_ModelPrimitive, [], [], s4)
             = (prims, md, matd, s5)"
          by (metis prod_cases4)
        obtain h6 s6 where c8:
          "createModel_Internal (Some \<lparr> model_primitives = prims, model_debugName = [] \<rparr>) pth 1 s5
             = (h6, s6)"
          by (metis surj_pair)
        have res: "h = h6"
          "s' = (s6 \<lparr> m_models := modify_entry (handle_id h6)
                                (\<lambda>e. e \<lparr> meshDeps := md, materialDeps := matd \<rparr>) (m_models s6) \<rparr>)
              \<lparr> m_modelPathCache := cache_emplace pth h6 (m_modelPathCache s6) \<rparr>"
          using assms c1 c2 c3 c4 c5 c6 c7 c8 pr bo True
          by (auto simp: load_parsed_def Let_def)
        show ?thesis
          using c1 c2 c3 c4 c5 c6 c7 c8 pr bo True res
          by (intro loaded[of log1 up log2 up1 ths s1 up2 log3 mhs s3 mesh_hs s4 prims md matd s5 s6])
             simp_all
      qed
    qed
  qed
qed

lemma cache_okD:
  "cache_ok c r \<Longrightarrow> c p = Some h
   \<Longrightarrow> handle_generation h = 1 \<and> (\<exists>e. map_of r (handle_id h) = Some e \<and> path e = p)"
  by (simp add: cache_ok_def)

lemma replicate_invalid_ok: "\<forall>h\<in>set (replicate n invalid_handle). handle_ok k h"
  by simp

lemma load_parsed_inv:
  assumes "manager_inv s" "validate d (fileBytes view) = None"
    and "load_parsed env pth view s = (h, s')"
  shows "manager_inv s' \<and> handle_ok (m_nextModelID s') h
       \<and> m_nextMeshID s \<le> m_nextMeshID s' \<and> m_nextTextureID s \<le> m_nextTextureID s'
       \<and> m_nextMaterialID s \<le> m_nextMaterialID s' \<and> m_nextModelID s \<le> m_nextModelID s'
       \<and> (h = invalid_handle \<and> m_models s' = m_models s
            \<and> m_modelPathCache s' = m_modelPathCache s
          \<or> (\<exists>e. h = \<lparr> handle_id = m_nextModelID s, handle_generation = 1 \<rparr>
                \<and> m_models s' = m_models s @ [(m_nextModelID s, e)]
                \<and> generation e = 1 \<and> refCount e = 1 \<and> path e = pth
                \<and> m_modelPathCache s' = cache_emplace pth h (m_modelPathCache s)))"
  using assms(3)
proof (cases rule: load_parsed_cases)
  case (early l)
  then show ?thesis using assms(1) by simp
next
  case (textures up log2 ok up1 ths s1 l)
  have "manager_inv (s \<lparr> m_device := log2 \<rparr>)"
    using assms(1) by simp
  from load_textures_inv[OF this _ textures(2)] show ?thesis
    using textures(1,3) by simp
next
  case (loaded log1 up log2 up1 ths s1 up2 log3 mhs s3 mesh_hs s4 prims md matd s5 s6)
  let ?f = "fileBytes view"
  have inv0: "manager_inv (s \<lparr> m_device := log2 \<rparr>)"
    using assms(1) by simp
  have t: "manager_inv s1 \<and> (\<forall>h\<in>set ths. handle_ok (m_nextTextureID s1) h)
       \<and> length ths = unat (textureCount (header ?f)) \<and> m_nextTextureID s \<le> m_nextTextureID s1
       \<and> m_nextMeshID s1 = m_nextMeshID s \<and> m_nextMaterialID s1 = m_nextMaterialID s
       \<and> m_nextModelID s1 = m_nextModelID s
       \<and> m_models s1 = m_models s \<and> m_modelPathCache s1 = m_modelPathCache s"
    using load_textures_inv[OF inv0 _ loaded(3)] by simp
  have inv1: "manager_inv (s1 \<lparr> m_device := log3 @ [PoolDestroy] \<rparr>)"
    using t by simp
  have valid_m: "\<forall>i\<in>set [0 ..< unat (materialCount (header ?f))].
      \<forall>idx\<in>set (texture_indices (materials ?f i)). sint idx < 0 \<or> unat idx < length ths"
    using validate_material[OF assms(2)] t by auto
  have m: "manager_inv s3 \<and> (\<forall>h\<in>set mhs. handle_ok (m_nextMaterialID s3) h)
       \<and> length mhs = unat (materialCount (header ?f))
       \<and> m_nextMaterialID s1 \<le> m_nextMaterialID s3 \<and> m_nextTextureID s3 = m_nextTextureID s1
       \<and> m_nextMeshID s3 = m_nextMeshID s1 \<and> m_nextModelID s3 = m_nextModelID s1
       \<and> m_models s3 = m_models s1 \<and> m_modelPathCache s3 = m_modelPathCache s1"
    using load_materials_inv[OF inv1 _ _ valid_m loaded(5)] t by simp
  have me: "manager_inv s4 \<and> (\<forall>h\<in>set mesh_hs. handle_ok (m_nextMeshID s4) h)
       \<and> length mesh_hs = unat (meshCount (header ?f)) \<and> m_nextMeshID s3 \<le> m_nextMeshID s4
       \<and> m_nextTextureID s4 = m_nextTextureID s3 \<and> m_nextMaterialID s4 = m_nextMaterialID s3
       \<and> m_nextModelID s4 = m_nextModelID s3
       \<and> m_models s4 = m_models s3 \<and> m_modelPathCache s4 = m_modelPathCache s3"
    using m load_meshes_inv[OF _ _ loaded(6)] by simp
  have valid_p: "\<forall>i\<in>set [0 ..< unat (primitiveCount (header ?f))].
      unat (prim_meshIndex (primitives ?f i)) < length mesh_hs
      \<and> unat (prim_materialIndex (primitives ?f i)) < length mhs"
    using validate_primitive[OF assms(2)] m me by auto
  have prims0: "\<forall>p\<in>set (replicate (unat (primitiveCount (header ?f))) new_ModelPrimitive).
      handle_ok (m_nextMeshID s4) (mp_mesh p) \<and> handle_ok (m_nextMaterialID s4) (mp_material p)"
    by (simp add: new_ModelPrimitive_def)
  have mhs4: "\<forall>h\<in>set mhs. handle_ok (m_nextMaterialID s4) h"
    using m me by simp
  have p: "manager_inv s5
       \<and> (\<forall>p\<in>set prims. handle_ok (m_nextMeshID s5) (mp_mesh p) \<and> handle_ok (m_nextMaterialID s5) (mp_material p))
       \<and> m_nextMeshID s5 = m_nextMeshID s4 \<and> m_nextTextureID s5 = m_nextTextureID s4
       \<and> m_nextMaterialID s5 = m_nextMaterialID s4 \<and> m_nextModelID s5 = m_nextModelID s4
       \<and> m_models s5 = m_models s4 \<and> m_modelPathCache s5 = m_modelPathCache s4"
    using me load_primitives_inv[OF _ _ mhs4 valid_p prims0 loaded(7)] by auto
  have prims_ok: "\<forall>p\<in>set prims. handle_ok (m_nextMeshID s5) (mp_mesh p)
                    \<and> handle_ok (m_nextMaterialID s5) (mp_material p)"
    using p by blast
  have inv5: "manager_inv s5" using p by simp
  note r = register_model[OF inv5 prims_ok loaded(8)]
  have pos: "0 < m_nextModelID s5"
    using inv5 by (simp add: manager_inv_def registry_ok_def)
  have s'_eq: "s' = s5 \<lparr> m_nextModelID := Suc (m_nextModelID s5),
                  m_models := m_models s5 @ [(m_nextModelID s5,
                     \<lparr> asset = Some \<lparr> model_primitives = prims, model_debugName = [] \<rparr>, generation = 1,
                       refCount = 1, path = pth, meshDeps = md, materialDeps = matd \<rparr>)],
                  m_modelPathCache := cache_emplace pth h (m_modelPathCache s5) \<rparr>"
    using r(2)[where md = md and matd = matd] loaded(9) by simp
  have "manager_inv s'"
    using r(3)[where md = md and matd = matd] loaded(9) by simp
  moreover have "handle_ok (m_nextModelID s') h"
    using pos by (simp add: s'_eq r(1) handle_ok_def)
  moreover have "m_models s5 = m_models s" "m_modelPathCache s5 = m_modelPathCache s"
    "m_nextModelID s5 = m_nextModelID s"
    using t m me p by simp_all
  ultimately show ?thesis
    using t m me p by (simp add: s'_eq r(1))
qed

text \<open>Every public operation keeps the invariant and never lowers a counter.\<close>

lemma loadModel_inv:
  assumes "manager_inv s" "loadModel env p s = (h, s')"
  shows "manager_inv s' \<and> handle_ok (m_nextModelID s') h
       \<and> m_nextMeshID s \<le> m_nextMeshID s' \<and> m_nextTextureID s \<le> m_nextTextureID s'
       \<and> m_nextMaterialID s \<le> m_nextMaterialID s' \<and> m_nextModelID s \<le> m_nextModelID s'"
proof (cases "m_modelPathCache s p")
  case (Some c)
  then have eq: "h = c" "s' = addRef_Model c s"
    using assms(2) by (auto simp: loadModel_def)
  have "cache_ok (m_modelPathCache s) (m_models s)"
    using assms(1) by (simp add: manager_inv_def)
  from cache_okD[OF this Some]
  obtain e where "handle_generation c = 1" "map_of (m_models s) (handle_id c) = Some e"
    by blast
  moreover have "registry_ok (m_nextModelID s) (m_models s)"
    using assms(1) by (simp add: manager_inv_def)
  ultimately have "handle_ok (m_nextModelID s) c"
    using registry_ok_map_of by (fastforce simp: handle_ok_def)
  then show ?thesis
    using manager_inv_addRef_release(4)[OF assms(1), of c] by (simp add: eq addRef_Model_def)
next
  case None
  show ?thesis
  proof (cases "LoadSModelFile (decls env) (read_file env) p")
    case (Inl err)
    then show ?thesis
      using assms None by (simp add: loadModel_def)
  next
    case (Inr view)
    then have "load_parsed env p view s = (h, s')"
      using assms(2) None by (simp add: loadModel_def)
    then show ?thesis
      using load_parsed_inv[OF assms(1)] LoadSModelFile_Inr[OF Inr] by blast
  qed
qed

lemma cache_ok_update:
  assumes "cache_ok c r" "map_of r k = Some e" "path e = p"
  shows "cache_ok (c(p \<mapsto> \<lparr> handle_id = k, handle_generation = 1 \<rparr>)) r"
  using assms by (auto simp: cache_ok_def)

lemma loadMesh_inv:
  assumes "manager_inv s" "loadMesh env p s = (h, s')"
  shows "manager_inv s' \<and> handle_ok (m_nextMeshID s') h
       \<and> m_nextMeshID s \<le> m_nextMeshID s' \<and> m_nextTextureID s = m_nextTextureID s'
       \<and> m_nextMaterialID s = m_nextMaterialID s' \<and> m_nextModelID s = m_nextModelID s'"
proof (cases "m_meshPathCache s p")
  case (Some c)
  then have eq: "h = c" "s' = addRef_Mesh c s"
    using assms(2) by (auto simp: loadMesh_def)
  have "cache_ok (m_meshPathCache s) (m_meshes s)"
    using assms(1) by (simp add: manager_inv_def)
  from cache_okD[OF this Some]
  obtain e where "handle_generation c = 1" "map_of (m_meshes s) (handle_id c) = Some e"
    by blast
  moreover have "registry_ok (m_nextMeshID s) (m_meshes s)"
    using assms(1) by (simp add: manager_inv_def)
  ultimately have "handle_ok (m_nextMeshID s) c"
    using registry_ok_map_of by (fastforce simp: handle_ok_def)
  then show ?thesis
    using manager_inv_addRef_release(1)[OF assms(1), of c] by (simp add: eq addRef_Mesh_def)
next
  case None
  show ?thesis
  proof (cases "LoadSMeshV0FromFile env p")
    case None': None
    then show ?thesis
      using assms None by (simp add: loadMesh_def)
  next
    case (Some data)
    obtain h1 s1 where cr: "createMeshFromData_Internal env data p 1 s = (h1, s1)"
      by (metis surj_pair)
    note c = createMeshFromData_Internal_inv[OF assms(1) cr]
    show ?thesis
    proof (cases "isValid h1")
      case False
      then have "h = h1" "s' = s1"
        using assms(2) None Some cr by (auto simp: loadMesh_def)
      then show ?thesis using c by simp
    next
      case True
      then have eq: "h = h1" "s' = s1 \<lparr> m_meshPathCache := (m_meshPathCache s1)(p \<mapsto> h1) \<rparr>"
        using assms(2) None Some cr by (auto simp: loadMesh_def)
      from True have "h1 \<noteq> invalid_handle"
        by (auto simp: isValid_def invalid_handle_def)
      then have h1: "h1 = \<lparr> handle_id = m_nextMeshID s, handle_generation = 1 \<rparr>"
        and ms: "m_meshes s1 = m_meshes s @
                 [(m_nextMeshID s, \<lparr> asset = Some \<lparr> uploaded = data \<rparr>, generation = 1,
                                      refCount = 1, path = p \<rparr>)]"
        using c by auto
      have fresh: "m_nextMeshID s \<notin> fst ` set (m_meshes s)"
        using assms(1) by (intro registry_ok_fresh) (simp add: manager_inv_def)
      have look: "map_of (m_meshes s1) (m_nextMeshID s)
                    = Some \<lparr> asset = Some \<lparr> uploaded = data \<rparr>, generation = 1,
                             refCount = 1, path = p \<rparr>"
        using fresh by (simp add: ms map_of_append map_add_def map_of_eq_None_iff[THEN iffD2])
      have inv1: "manager_inv s1"
        using c by blast
      then have "cache_ok (m_meshPathCache s1) (m_meshes s1)"
        by (simp add: manager_inv_def)
      then have "cache_ok ((m_meshPathCache s1)(p \<mapsto> h1)) (m_meshes s1)"
        unfolding h1 by (rule cache_ok_update[OF _ look]) simp
      then have "manager_inv s'"
        using inv1 unfolding eq manager_inv_def by simp
      then show ?thesis
        using c by (simp add: eq)
    qed
  qed
qed

section \<open>garbageCollect in closed form\<close>

lemma without_Nil [simp]: "without [] r = r"
  by (simp add: without_def)

lemma without_erase: "without ks (erase k r) = without (k # ks) r"
  by (auto simp: without_def erase_def intro: filter_cong)

lemma cache_without_Nil [simp]: "cache_without [] c = c"
  by (simp add: cache_without_def)

lemma cache_without_upd: "cache_without ps (c(p := None)) = cache_without (p # ps) c"
  by (auto simp: cache_without_def)

lemma dead_Cons:
  "dead ((k, e) # r) = (if refCount e = 0 then (k, e) # dead r else dead r)"
  by (simp add: dead_def)

lemma dead_Nil [simp]: "dead [] = []"
  by (simp add: dead_def)

text \<open>The model sweep.\<close>

lemma gc_models_fields:
  "m_models (gc_models ms s) = without (map fst (dead ms)) (m_models s)"
  "m_meshes (gc_models ms s)
     = fold release_entry (concat (map (meshDeps \<circ> snd) (dead ms))) (m_meshes s)"
  "m_materials (gc_models ms s)
     = fold release_entry (concat (map (materialDeps \<circ> snd) (dead ms))) (m_materials s)"
  "m_modelPathCache (gc_models ms s)
     = cache_without (map (path \<circ> snd) (dead ms)) (m_modelPathCache s)"
  "m_textures (gc_models ms s) = m_textures s"
  "m_meshPathCache (gc_models ms s) = m_meshPathCache s"
  "m_nextMeshID (gc_models ms s) = m_nextMeshID s"
  "m_nextTextureID (gc_models ms s) = m_nextTextureID s"
  "m_nextMaterialID (gc_models ms s) = m_nextMaterialID s"
  "m_nextModelID (gc_models ms s) = m_nextModelID s"
  "m_device (gc_models ms s) = m_device s"
  by (induction ms arbitrary: s)
     (auto simp: dead_Cons Let_def fold_release_Mesh fold_release_Material without_erase
        cache_without_upd)

text \<open>The material sweep.\<close>

lemma gc_materials_fields:
  "m_materials (gc_materials ms s) = without (map fst (dead ms)) (m_materials s)"
  "m_textures (gc_materials ms s)
     = fold release_entry (concat (map (textureDeps \<circ> snd) (dead ms))) (m_textures s)"
  "m_meshes (gc_materials ms s) = m_meshes s"
  "m_models (gc_materials ms s) = m_models s"
  "m_meshPathCache (gc_materials ms s) = m_meshPathCache s"
  "m_modelPathCache (gc_materials ms s) = m_modelPathCache s"
  "m_nextMeshID (gc_materials ms s) = m_nextMeshID s"
  "m_nextTextureID (gc_materials ms s) = m_nextTextureID s"
  "m_nextMaterialID (gc_materials ms s) = m_nextMaterialID s"
  "m_nextModelID (gc_materials ms s) = m_nextModelID s"
  "m_device (gc_materials ms s) = m_device s"
  by (induction ms arbitrary: s)
     (auto simp: dead_Cons Let_def fold_release_Texture without_erase)

text \<open>The mesh sweep and the texture sweep.\<close>

lemma gc_meshes_fields:
  "m_meshes (gc_meshes ms s) = without (map fst (dead ms)) (m_meshes s)"
  "m_meshPathCache (gc_meshes ms s)
     = cache_without (map (path \<circ> snd) (dead ms)) (m_meshPathCache s)"
  "m_textures (gc_meshes ms s) = m_textures s"
  "m_materials (gc_meshes ms s) = m_materials s"
  "m_models (gc_meshes ms s) = m_models s"
  "m_modelPathCache (gc_meshes ms s) = m_modelPathCache s"
  "m_nextMeshID (gc_meshes ms s) = m_nextMeshID s"
  "m_nextTextureID (gc_meshes ms s) = m_nextTextureID s"
  "m_nextMaterialID (gc_meshes ms s) = m_nextMaterialID s"
  "m_nextModelID (gc_meshes ms s) = m_nextModelID s"
  by (induction ms arbitrary: s)
     (auto simp: dead_Cons Let_def without_erase cache_without_upd)

lemma gc_textures_fields:
  "m_textures (gc_textures ms s) = without (map fst (dead ms)) (m_textures s)"
  "m_meshes (gc_textures ms s) = m_meshes s"
  "m_materials (gc_textures ms s) = m_materials s"
  "m_models (gc_textures ms s) = m_models s"
  "m_meshPathCache (gc_textures ms s) = m_meshPathCache s"
  "m_modelPathCache (gc_textures ms s) = m_modelPathCache s"
  "m_nextMeshID (gc_textures ms s) = m_nextMeshID s"
  "m_nextTextureID (gc_textures ms s) = m_nextTextureID s"
  "m_nextMaterialID (gc_textures ms s) = m_nextMaterialID s"
  "m_nextModelID (gc_textures ms s) = m_nextModelID s"
  by (induction ms arbitrary: s)
     (auto simp: dead_Cons Let_def without_erase)

subsection \<open>The sweeps keep the invariant\<close>

lemma map_of_without:
  "map_of (without ks r) k = (if k \<in> set ks then None else map_of r k)"
  by (induction r) (auto simp: without_def)

lemma set_without: "set (without ks r) \<subseteq> set r"
  by (auto simp: without_def)

lemma keys_without: "map fst (without ks r) = filter (\<lambda>k. k \<notin> set ks) (map fst r)"
  by (induction r) (auto simp: without_def)

lemma registry_ok_without: "registry_ok n r \<Longrightarrow> registry_ok n (without ks r)"
  using set_without[of ks r] by (auto simp: registry_ok_def keys_without)

lemma material_handles_ok_without:
  "material_handles_ok n r \<Longrightarrow> material_handles_ok n (without ks r)"
  using set_without[of ks r] by (fastforce simp: material_handles_ok_def)

lemma model_handles_ok_without:
  "model_handles_ok n m r \<Longrightarrow> model_handles_ok n m (without ks r)"
  using set_without[of ks r] by (fastforce simp: model_handles_ok_def)

lemma set_dead: "set (dead r) \<subseteq> set r"
  by (auto simp: dead_def)

lemma cache_ok_sweep:
  assumes "cache_ok c r" "distinct (map fst r)"
  shows "cache_ok (cache_without (map (path \<circ> snd) (dead r)) c) (without (map fst (dead r)) r)"
  unfolding cache_ok_def
proof (intro allI impI)
  fix p h
  assume a: "cache_without (map (path \<circ> snd) (dead r)) c p = Some h"
  then have notdead: "p \<notin> set (map (path \<circ> snd) (dead r))" and cp: "c p = Some h"
    by (auto simp: cache_without_def split: if_splits)
  obtain e where g: "handle_generation h = 1" and e: "map_of r (handle_id h) = Some e" "path e = p"
    using cache_okD[OF assms(1) cp] by blast
  have "handle_id h \<notin> set (map fst (dead r))"
  proof
    assume "handle_id h \<in> set (map fst (dead r))"
    then obtain e' where d: "(handle_id h, e') \<in> set (dead r)" by auto
    then have "(handle_id h, e') \<in> set r" using set_dead by blast
    then have "map_of r (handle_id h) = Some e'"
      using assms(2) by simp
    then have "e' = e" using e by simp
    then have "p \<in> set (map (path \<circ> snd) (dead r))"
      using d e(2) by force
    then show False using notdead by simp
  qed
  then show "handle_generation h = 1 \<and>
       (\<exists>e. map_of (without (map fst (dead r)) r) (handle_id h) = Some e \<and> path e = p)"
    using g e by (simp add: map_of_without)
qed

lemma gc_models_inv:
  assumes "manager_inv s"
  shows "manager_inv (gc_models (m_models s) s)"
  using assms unfolding manager_inv_def gc_models_fields
  by (auto intro: registry_ok_without model_handles_ok_without cache_ok_sweep
      registry_ok_rc_equiv material_handles_ok_rc_equiv cache_ok_rc_equiv rc_equiv_fold_release
      simp: registry_ok_def[of _ "m_models s"])

lemma gc_materials_inv:
  assumes "manager_inv s"
  shows "manager_inv (gc_materials (m_materials s) s)"
  using assms unfolding manager_inv_def gc_materials_fields
  by (auto intro: registry_ok_without material_handles_ok_without
      registry_ok_rc_equiv rc_equiv_fold_release)

lemma gc_meshes_inv:
  assumes "manager_inv s"
  shows "manager_inv (gc_meshes (m_meshes s) s)"
  using assms unfolding manager_inv_def gc_meshes_fields
  by (auto intro: registry_ok_without cache_ok_sweep simp: registry_ok_def[of _ "m_meshes s"])

lemma gc_textures_inv:
  assumes "manager_inv s"
  shows "manager_inv (gc_textures (m_textures s) s)"
  using assms unfolding manager_inv_def gc_textures_fields
  by (auto intro: registry_ok_without)

lemma garbageCollect_inv:
  assumes "manager_inv s"
  shows "manager_inv (garbageCollect s)"
  unfolding garbageCollect_def Let_def
  by (intro gc_textures_inv gc_meshes_inv gc_materials_inv gc_models_inv assms)

lemma garbageCollect_counters:
  "m_nextMeshID (garbageCollect s) = m_nextMeshID s"
  "m_nextTextureID (garbageCollect s) = m_nextTextureID s"
  "m_nextMaterialID (garbageCollect s) = m_nextMaterialID s"
  "m_nextModelID (garbageCollect s) = m_nextModelID s"
  by (simp_all add: garbageCollect_def Let_def gc_textures_fields gc_meshes_fields
      gc_materials_fields gc_models_fields)

section \<open>Reachable states satisfy the invariant\<close>

lemma manager_inv_new: "manager_inv new_AssetManager"
  by (simp add: manager_inv_def new_AssetManager_def registry_ok_def material_handles_ok_def
      model_handles_ok_def cache_ok_def)

lemma issued_ok_mono:
  assumes "issued_ok s I"
    and "m_nextMeshID s \<le> m_nextMeshID s'" "m_nextTextureID s \<le> m_nextTextureID s'"
    and "m_nextMaterialID s \<le> m_nextMaterialID s'" "m_nextModelID s \<le> m_nextModelID s'"
  shows "issued_ok s' I"
  using assms unfolding issued_ok_def by (blast intro: handle_ok_mono)

lemma get_asset_SomeD:
  "get_asset h r = Some a \<Longrightarrow> \<exists>e. (handle_id h, e) \<in> set r \<and> asset e = Some a"
  by (auto simp: get_asset_def split: option.splits if_splits dest: map_of_SomeD)



lemma reaches_inv: "reaches s I \<Longrightarrow> manager_inv s \<and> issued_ok s I"
proof (induction rule: reaches.induct)
  case fresh
  then show ?case by (simp add: manager_inv_new issued_ok_def)
next
  case (by_loadMesh s I env p h s')
  from loadMesh_inv[OF _ by_loadMesh(2)] by_loadMesh(3)
  have a: "manager_inv s'" "handle_ok (m_nextMeshID s') h"
    "m_nextMeshID s \<le> m_nextMeshID s'" "m_nextTextureID s \<le> m_nextTextureID s'"
    "m_nextMaterialID s \<le> m_nextMaterialID s'" "m_nextModelID s \<le> m_nextModelID s'"
    by simp_all
  have iss: "issued_ok s I"
    using by_loadMesh(3) by simp
  have "issued_ok s' I"
    by (rule issued_ok_mono[OF iss a(3) a(4) a(5) a(6)])
  then show ?case
    using a by (simp add: issued_ok_def)
next
  case (by_loadModel s I env p h s')
  from loadModel_inv[OF _ by_loadModel(2)] by_loadModel(3)
  have a: "manager_inv s'" "handle_ok (m_nextModelID s') h"
    "m_nextMeshID s \<le> m_nextMeshID s'" "m_nextTextureID s \<le> m_nextTextureID s'"
    "m_nextMaterialID s \<le> m_nextMaterialID s'" "m_nextModelID s \<le> m_nextModelID s'"
    by simp_all
  have iss: "issued_ok s I"
    using by_loadModel(3) by simp
  have "issued_ok s' I"
    by (rule issued_ok_mono[OF iss a(3) a(4) a(5) a(6)])
  then show ?case
    using a by (simp add: issued_ok_def)
next
  case (by_addRef_Mesh s I h)
  then have "manager_inv (addRef_Mesh h s)"
    by (simp add: manager_inv_addRef_release)
  moreover have "issued_ok (addRef_Mesh h s) I"
    using by_addRef_Mesh by (simp add: issued_ok_def addRef_Mesh_def)
  ultimately show ?case by simp
next
  case (by_addRef_Texture s I h)
  then have "manager_inv (addRef_Texture h s)"
    by (simp add: manager_inv_addRef_release)
  moreover have "issued_ok (addRef_Texture h s) I"
    using by_addRef_Texture by (simp add: issued_ok_def addRef_Texture_def)
  ultimately show ?case by simp
next
  case (by_addRef_Material s I h)
  then have "manager_inv (addRef_Material h s)"
    by (simp add: manager_inv_addRef_release)
  moreover have "issued_ok (addRef_Material h s) I"
    using by_addRef_Material by (simp add: issued_ok_def addRef_Material_def)
  ultimately show ?case by simp
next
  case (by_addRef_Model s I h)
  then have "manager_inv (addRef_Model h s)"
    by (simp add: manager_inv_addRef_release)
  moreover have "issued_ok (addRef_Model h s) I"
    using by_addRef_Model by (simp add: issued_ok_def addRef_Model_def)
  ultimately show ?case by simp
next
  case (by_release_Mesh s I h)
  then have "manager_inv (release_Mesh h s)"
    by (simp add: manager_inv_addRef_release)
  moreover have "issued_ok (release_Mesh h s) I"
    using by_release_Mesh by (simp add: issued_ok_def release_Mesh_def)
  ultimately show ?case by simp
next
  case (by_release_Texture s I h)
  then have "manager_inv (release_Texture h s)"
    by (simp add: manager_inv_addRef_release)
  moreover have "issued_ok (release_Texture h s) I"
    using by_release_Texture by (simp add: issued_ok_def release_Texture_def)
  ultimately show ?case by simp
next
  case (by_release_Material s I h)
  then have "manager_inv (release_Material h s)"
    by (simp add: manager_inv_addRef_release)
  moreover have "issued_ok (release_Material h s) I"
    using by_release_Material by (simp add: issued_ok_def release_Material_def)
  ultimately show ?case by simp
next
  case (by_release_Model s I h)
  then have "manager_inv (release_Model h s)"
    by (simp add: manager_inv_addRef_release)
  moreover have "issued_ok (release_Model h s) I"
    using by_release_Model by (simp add: issued_ok_def release_Model_def)
  ultimately show ?case by simp
next
  case (by_garbageCollect s I)
  then show ?case
    by (simp add: garbageCollect_inv issued_ok_def garbageCollect_counters)
next
  case (read_model s I h a p)
  then obtain e where "(handle_id h, e) \<in> set (m_models s)" "asset e = Some a"
    using get_asset_SomeD[of h "m_models s" a] by (auto simp: getModel_def)
  moreover have "model_handles_ok (m_nextMeshID s) (m_nextMaterialID s) (m_models s)"
    using read_model by (simp add: manager_inv_def)
  ultimately have "handle_ok (m_nextMeshID s) (mp_mesh p) \<and> handle_ok (m_nextMaterialID s) (mp_material p)"
    using read_model(4) by (fastforce simp: model_handles_ok_def)
  then show ?case
    using read_model by (simp add: issued_ok_def)
next
  case (read_material s I h a)
  then obtain e where "(handle_id h, e) \<in> set (m_materials s)" "asset e = Some a"
    using get_asset_SomeD[of h "m_materials s" a] by (auto simp: getMaterial_def)
  moreover have "material_handles_ok (m_nextTextureID s) (m_materials s)"
    using read_material by (simp add: manager_inv_def)
  ultimately have "\<forall>x\<in>set (texture_handles a). handle_ok (m_nextTextureID s) x"
    by (fastforce simp: material_handles_ok_def)
  then show ?case
    using read_material by (auto simp: issued_ok_def)
qed



lemma loadModel_example:
  "loadModel env_ok ''model.smodel'' new_AssetManager = (model_1, loaded_manager)"
  using loaded_manager_models(1) by (simp add: loaded_manager_def prod_eq_iff)

lemma reaches_loaded:
  "reaches loaded_manager
     \<lparr> i_meshes = {}, i_textures = {}, i_materials = {}, i_models = {model_1} \<rparr>"
  using reaches.by_loadModel[OF reaches.fresh loadModel_example] by simp


section \<open>Loading the same path twice\<close>

lemma refCount_of_entry:
  assumes "map_of r (handle_id h) = Some e" "generation e = handle_generation h"
  shows "refCount_of h r = Some (refCount e)"
    and "refCount_of h (addRef_entry h r) = Some (refCount e + 1)"
  using assms by (simp_all add: refCount_of_def map_of_addRef_entry)

text \<open>A load that returns a valid handle leaves the path cached with that handle.\<close>

lemma loadModel_valid_cached:
  assumes "manager_inv s" "loadModel env p s = (h, s')" "isValid h"
  shows "m_modelPathCache s' p = Some h
       \<and> (\<exists>e. map_of (m_models s') (handle_id h) = Some e \<and> generation e = handle_generation h)"
proof (cases "m_modelPathCache s p")
  case (Some c)
  then have eq: "h = c" "s' = addRef_Model c s"
    using assms(2) by (auto simp: loadModel_def)
  have "cache_ok (m_modelPathCache s) (m_models s)"
    using assms(1) by (simp add: manager_inv_def)
  from cache_okD[OF this Some]
  obtain e where e: "handle_generation c = 1" "map_of (m_models s) (handle_id c) = Some e"
    by blast
  have "registry_ok (m_nextModelID s) (m_models s)"
    using assms(1) by (simp add: manager_inv_def)
  from registry_ok_map_of[OF this e(2)] have g: "generation e = 1"
    by simp
  show ?thesis
    using Some e g by (simp add: eq addRef_Model_def map_of_addRef_entry)
next
  case None
  show ?thesis
  proof (cases "LoadSModelFile (decls env) (read_file env) p")
    case (Inl err)
    then have "h = invalid_handle"
      using assms(2) None by (simp add: loadModel_def)
    then show ?thesis
      using assms(3) by (simp add: isValid_def invalid_handle_def)
  next
    case (Inr view)
    then have lp: "load_parsed env p view s = (h, s')"
      using assms(2) None by (simp add: loadModel_def)
    have valid: "h \<noteq> invalid_handle"
      using assms(3) by (auto simp: isValid_def invalid_handle_def)
    from load_parsed_inv[OF assms(1) LoadSModelFile_Inr[OF Inr, THEN conjunct1] lp] valid
    obtain e where e: "h = \<lparr> handle_id = m_nextModelID s, handle_generation = 1 \<rparr>"
      "m_models s' = m_models s @ [(m_nextModelID s, e)]" "generation e = 1"
      "m_modelPathCache s' = cache_emplace p h (m_modelPathCache s)"
      by blast
    have "registry_ok (m_nextModelID s) (m_models s)"
      using assms(1) by (simp add: manager_inv_def)
    then have fresh: "m_nextModelID s \<notin> fst ` set (m_models s)"
      by (rule registry_ok_fresh)
    have look: "map_of (m_models s') (m_nextModelID s) = Some e"
      using fresh by (simp add: e(2) map_of_append map_add_def map_of_eq_None_iff[THEN iffD2])
    show ?thesis
      using None look e(3) by (simp add: e(4) cache_emplace_def) (simp add: e(1))
  qed
qed

lemma unat_Suc_below_max: "c \<noteq> (0xFFFFFFFF :: u32) \<Longrightarrow> unat (c + 1) = unat c + 1"
proof -
  assume a: "c \<noteq> 0xFFFFFFFF"
  have "1 + c = 0 \<Longrightarrow> c = - 1"
    by (simp add: eq_neg_iff_add_eq_0 add.commute)
  moreover have "c = - 1 \<Longrightarrow> c = 0xFFFFFFFF" by simp
  ultimately have "1 + c \<noteq> 0" using a by blast
  from unatSuc[OF this] show ?thesis
    by (simp add: add.commute)
qed

text \<open>Repeated \<open>addRef\<close> calls on a model that resolves add to its count, modulo \<open>2^32\<close>.\<close>

lemma funpow_addRef_Model:
  assumes "map_of (m_models s) (handle_id h) = Some e" "generation e = handle_generation h"
  shows "(addRef_Model h ^^ n) s =
         s \<lparr> m_models := modify_entry (handle_id h)
                            (\<lambda>e. e \<lparr> refCount := refCount e + of_nat n \<rparr>) (m_models s) \<rparr>"
proof (induction n)
  case 0
  have "modify_entry (handle_id h) (\<lambda>e. e \<lparr> refCount := refCount e \<rparr>) (m_models s) = m_models s"
    by (rule modify_entry_same) simp
  then show ?case by simp
next
  case (Suc n)
  have fn: "(\<lambda>e. e \<lparr> refCount := refCount e + 1 \<rparr>) \<circ> (\<lambda>e. e \<lparr> refCount := refCount e + of_nat n \<rparr>)
         = (\<lambda>e :: ModelEntry. e \<lparr> refCount := refCount e + of_nat (Suc n) \<rparr>)"
    by (rule ext) (simp add: add.commute add.left_commute)
  have "(addRef_Model h ^^ Suc n) s
      = addRef_Model h (s \<lparr> m_models := modify_entry (handle_id h)
                            (\<lambda>e. e \<lparr> refCount := refCount e + of_nat n \<rparr>) (m_models s) \<rparr>)"
    by (simp add: Suc)
  also have "\<dots> = s \<lparr> m_models := modify_entry (handle_id h)
                            (\<lambda>e. e \<lparr> refCount := refCount e + of_nat (Suc n) \<rparr>) (m_models s) \<rparr>"
    using assms
    by (simp add: addRef_Model_def addRef_entry_def map_of_modify_entry modify_entry_twice fn
        del: of_nat_Suc)
  finally show ?case .
qed

lemma reaches_funpow_addRef_Model: "reaches s I \<Longrightarrow> reaches ((addRef_Model h ^^ n) s) I"
  by (induction n) (simp_all add: reaches.by_addRef_Model)

lemma nearly_saturated_models:
  "m_models nearly_saturated_manager =
     modify_entry 1 (\<lambda>e. e \<lparr> refCount := 0xFFFFFFFE \<rparr>) (m_models loaded_manager)"
  "m_modelPathCache nearly_saturated_manager = [''model.smodel'' \<mapsto> model_1]"
proof -
  have look: "map_of (m_models loaded_manager) (handle_id model_1)
      = Some (snd (hd (m_models loaded_manager)))"
    "generation (snd (hd (m_models loaded_manager))) = handle_generation model_1"
    by (simp_all add: loaded_manager_models(2) model_1_def)
  note eq = funpow_addRef_Model[OF look, of 4294967293]
  show "m_models nearly_saturated_manager =
     modify_entry 1 (\<lambda>e. e \<lparr> refCount := 0xFFFFFFFE \<rparr>) (m_models loaded_manager)"
    unfolding nearly_saturated_manager_def eq
    by (simp add: loaded_manager_models(2) model_1_def)
  show "m_modelPathCache nearly_saturated_manager = [''model.smodel'' \<mapsto> model_1]"
    unfolding nearly_saturated_manager_def eq
    by (simp add: loaded_manager_models(3))
qed

text \<open>
  C9, as the code has it. In a state reached from a fresh manager, if \<open>loadModel\<close> returns
  a valid handle for a path, then the next \<open>loadModel\<close> call for that path (whatever the
  collaborators do meanwhile) returns the same handle, identifier and generation, and
  adds one to the reference count of the model entry, provided the count after the
  first call is below \<open>2^32 - 1\<close>.
\<close>

theorem C9_second_load_hits_cache:
  assumes "reaches s I"
    and "loadModel env p s = (h1, s1)" and "isValid h1"
    and "loadModel env' p s1 = (h2, s2)"
    and "refCount_of h1 (m_models s1) \<noteq> Some 0xFFFFFFFF"
  shows "handle_id h2 = handle_id h1 \<and> handle_generation h2 = handle_generation h1
       \<and> (\<exists>c. refCount_of h1 (m_models s1) = Some c
              \<and> refCount_of h2 (m_models s2) = Some (c + 1) \<and> unat (c + 1) = unat c + 1)"
proof -
  have inv: "manager_inv s"
    using reaches_inv[OF assms(1)] by simp
  from loadModel_valid_cached[OF inv assms(2,3)]
  obtain e where c: "m_modelPathCache s1 p = Some h1"
    and e: "map_of (m_models s1) (handle_id h1) = Some e" "generation e = handle_generation h1"
    by blast
  have eq: "h2 = h1" "s2 = addRef_Model h1 s1"
    using assms(4) c by (auto simp: loadModel_def)
  note rc = refCount_of_entry[OF e]
  have "refCount e \<noteq> 0xFFFFFFFF"
    using assms(5) rc(1) by simp
  then have "unat (refCount e + 1) = unat (refCount e) + 1"
    by (rule unat_Suc_below_max)
  then show ?thesis
    using rc by (simp add: eq addRef_Model_def)
qed

theorem C9_second_load_hits_cache_witness:
  "reaches new_AssetManager \<lparr> i_meshes = {}, i_textures = {}, i_materials = {}, i_models = {} \<rparr>
   \<and> loadModel env_ok ''model.smodel'' new_AssetManager = (model_1, loaded_manager)
   \<and> isValid model_1
   \<and> fst (loadModel env_ok ''model.smodel'' loaded_manager) = model_1
   \<and> refCount_of model_1 (m_models loaded_manager) = Some 1
   \<and> refCount_of model_1 (m_models (snd (loadModel env_ok ''model.smodel'' loaded_manager)))
       = Some 2"
proof -
  have v: "isValid model_1"
    by (simp add: isValid_def model_1_def)
  have rc1: "refCount_of model_1 (m_models loaded_manager) = Some 1"
    by (simp add: refCount_of_def loaded_manager_models(2) model_1_def)
  then have below: "refCount_of model_1 (m_models loaded_manager) \<noteq> Some 0xFFFFFFFF"
    by simp
  obtain h2 s2 where second: "loadModel env_ok ''model.smodel'' loaded_manager = (h2, s2)"
    by (metis surj_pair)
  from C9_second_load_hits_cache[OF reaches.fresh loadModel_example v second below]
  have "h2 = model_1" "refCount_of h2 (m_models s2) = Some 2"
    using rc1 by simp_all
  then show ?thesis
    using reaches.fresh loadModel_example v rc1 second by simp
qed

text \<open>
  The claim as stated fails when the count after the first call is \<open>2^32 - 1\<close>: the
  second call wraps it to 0. The state is reached by one load and \<open>2^32 - 3\<close> \<open>addRef\<close>
  calls.
\<close>

theorem C9_counterexample:
  "reaches nearly_saturated_manager
     \<lparr> i_meshes = {}, i_textures = {}, i_materials = {}, i_models = {model_1} \<rparr>
   \<and> fst (loadModel env_ok ''model.smodel'' nearly_saturated_manager) = model_1
   \<and> isValid model_1
   \<and> refCount_of model_1
        (m_models (snd (loadModel env_ok ''model.smodel'' nearly_saturated_manager)))
       = Some 0xFFFFFFFF
   \<and> fst (loadModel env_ok ''model.smodel''
            (snd (loadModel env_ok ''model.smodel'' nearly_saturated_manager))) = model_1
   \<and> refCount_of model_1
        (m_models (snd (loadModel env_ok ''model.smodel''
            (snd (loadModel env_ok ''model.smodel'' nearly_saturated_manager)))))
       = Some 0"
proof -
  have r: "reaches nearly_saturated_manager
     \<lparr> i_meshes = {}, i_textures = {}, i_materials = {}, i_models = {model_1} \<rparr>"
    unfolding nearly_saturated_manager_def
    by (rule reaches_funpow_addRef_Model[OF reaches_loaded])
  have first: "loadModel env_ok ''model.smodel'' nearly_saturated_manager
      = (model_1, addRef_Model model_1 nearly_saturated_manager)"
    by (simp add: loadModel_def nearly_saturated_models(2))
  have second: "loadModel env_ok ''model.smodel'' (addRef_Model model_1 nearly_saturated_manager)
      = (model_1, addRef_Model model_1 (addRef_Model model_1 nearly_saturated_manager))"
    by (simp add: loadModel_def addRef_Model_def nearly_saturated_models(2))
  have rc1: "refCount_of model_1 (m_models (addRef_Model model_1 nearly_saturated_manager))
      = Some 0xFFFFFFFF"
    by (simp add: addRef_Model_def nearly_saturated_models(1) loaded_manager_models(2)
        model_1_def refCount_of_def addRef_entry_def)
  have rc2: "refCount_of model_1
      (m_models (addRef_Model model_1 (addRef_Model model_1 nearly_saturated_manager))) = Some 0"
    by (simp add: addRef_Model_def nearly_saturated_models(1) loaded_manager_models(2)
        model_1_def refCount_of_def addRef_entry_def)
  show ?thesis
    using r rc1 rc2 by (simp add: first second isValid_def) (simp add: model_1_def)
qed
section \<open>The device log of a load\<close>

text \<open>A texture upload records device calls and never submits.\<close>

lemma if_append: "(if c then xs else ys) @ zs = (if c then xs @ zs else ys @ zs)"
  by simp

lemma uploadRGBA8_Deferred_submits:
  "count_list (snd (snd (snd (uploadRGBA8_Deferred env ctx log tex pixels w h srgb smp))))
     SubmitAndWait = count_list log SubmitAndWait"
  by (simp add: uploadRGBA8_Deferred_def call_def Let_def case_prod_beta
        if_distrib[of snd] if_distrib[of fst] if_distrib[of "\<lambda>l. count_list l SubmitAndWait"]
        if_append
      split del: if_split cong: if_cong)

lemma uploadEncodedImage_Deferred_submits:
  "count_list (snd (snd (snd (uploadEncodedImage_Deferred env ctx log tex mem off sz srgb smp))))
     SubmitAndWait = count_list log SubmitAndWait"
  by (simp add: uploadEncodedImage_Deferred_def uploadRGBA8_Deferred_submits split: option.splits)

lemma load_textures_submits:
  "load_textures env f idxs up hs s = (ok, up', hs', s')
   \<Longrightarrow> count_list (m_device s') SubmitAndWait = count_list (m_device s) SubmitAndWait"
proof (induction idxs arbitrary: up hs s)
  case Nil
  then show ?case by simp
next
  case (Cons i idxs)
  let ?t = "textures f i"
  obtain ok1 tex up1 log1 where up:
    "uploadEncodedImage_Deferred env up (m_device s) new_TextureAsset (blob f)
       (tex_imageDataOffset ?t) (tex_imageDataSize ?t) (tex_colorSpace ?t = 1) (sampler_of ?t)
     = (ok1, tex, up1, log1)"
    by (metis prod_cases4)
  have log1: "count_list log1 SubmitAndWait = count_list (m_device s) SubmitAndWait"
    using uploadEncodedImage_Deferred_submits[of env up "m_device s" new_TextureAsset "blob f"
        "tex_imageDataOffset ?t" "tex_imageDataSize ?t" "tex_colorSpace ?t = 1" "sampler_of ?t"]
    by (simp add: up)
  show ?case
  proof (cases ok1)
    case False
    then show ?thesis
      using Cons.prems up log1 by auto
  next
    case True
    obtain h s1 where cr: "createTexture_Internal (Some tex) 0 (s \<lparr> m_device := log1 \<rparr>) = (h, s1)"
      by (metis surj_pair)
    have d1: "m_device s1 = log1"
      using cr by (auto simp: createTexture_Internal_def Let_def)
    have "load_textures env f idxs up1 (hs [i := h]) s1 = (ok, up', hs', s')"
      using Cons.prems up True cr by (simp add: Let_def)
    from Cons.IH[OF this] show ?thesis
      by (simp add: d1 log1)
  qed
qed

lemma load_materials_device:
  "load_materials f ths idxs mhs s = (mhs', s') \<Longrightarrow> m_device s' = m_device s"
proof (induction idxs arbitrary: mhs s)
  case Nil
  then show ?case by simp
next
  case (Cons i idxs)
  obtain mh s1 where cr: "createMaterial_Internal (Some (make_material f ths i)) 0 s = (mh, s1)"
    by (metis surj_pair)
  define s2 where "s2 = (case getMaterial mh s1 of None \<Rightarrow> s1
                         | Some createdMat \<Rightarrow> fold addRef_Texture (valid_textures createdMat) s1)"
  have d1: "m_device s1 = m_device s"
    using cr by (auto simp: createMaterial_Internal_def Let_def)
  have d2: "m_device s2 = m_device s1"
    by (simp add: s2_def fold_addRef_Texture split: option.splits)
  have "load_materials f ths idxs (mhs [i := mh]) s2 = (mhs', s')"
    using Cons.prems cr by (simp add: Let_def s2_def)
  from Cons.IH[OF this] show ?case
    by (simp add: d1 d2)
qed

lemma createMeshFromData_Internal_submits:
  "createMeshFromData_Internal env data pth rc s = (h, s')
   \<Longrightarrow> count_list (m_device s') SubmitAndWait = count_list (m_device s) SubmitAndWait"
  by (auto simp: createMeshFromData_Internal_def call_def Let_def split: if_splits)

lemma load_meshes_submits:
  "load_meshes env f pth idxs hs s = (hs', s')
   \<Longrightarrow> count_list (m_device s') SubmitAndWait = count_list (m_device s) SubmitAndWait"
proof (induction idxs arbitrary: hs s)
  case Nil
  then show ?case by simp
next
  case (Cons i idxs)
  obtain h s1 where cr:
    "createMeshFromData_Internal env (make_mesh_data f i) (pth @ ''#mesh'' @ to_string i) 0 s = (h, s1)"
    by (metis surj_pair)
  have d1: "count_list (m_device s1) SubmitAndWait = count_list (m_device s) SubmitAndWait"
    by (rule createMeshFromData_Internal_submits[OF cr])
  have "load_meshes env f pth idxs (hs [i := h]) s1 = (hs', s')"
    using Cons.prems cr by (simp add: Let_def)
  from Cons.IH[OF this] show ?case
    by (simp add: d1)
qed

lemma load_primitives_device:
  "load_primitives f mesh_hs mat_hs idxs (prims, md, matd, s) = (prims', md', matd', s')
   \<Longrightarrow> m_device s' = m_device s"
proof (induction idxs arbitrary: prims md matd s)
  case Nil
  then show ?case by simp
next
  case (Cons i idxs)
  then show ?case
    by (auto simp: Let_def addRef_Mesh_def addRef_Material_def split: if_splits prod.splits
        dest!: Cons.IH)
qed

text \<open>
  C4, as the code has it. A \<open>loadModel\<close> call that finds the path not cached and returns a
  valid handle makes exactly one submit-and-wait call on the device, whatever the number
  of texture records of the container; and a texture upload, taken alone, makes none.
\<close>

theorem C4_one_submit_per_uncached_load:
  assumes "m_modelPathCache s p = None"
    and "loadModel env p s = (h, s')" and "isValid h"
  shows "count_list (m_device s') SubmitAndWait = count_list (m_device s) SubmitAndWait + 1
       \<and> count_list
            (snd (snd (snd (uploadEncodedImage_Deferred env ctx log tex mem off sz srgb smp))))
            SubmitAndWait = count_list log SubmitAndWait"
proof -
  have valid: "h \<noteq> invalid_handle"
    using assms(3) by (auto simp: isValid_def invalid_handle_def)
  then obtain view where lp: "load_parsed env p view s = (h, s')"
    using assms(1,2) by (auto simp: loadModel_def split: sum.splits)
  from lp have "count_list (m_device s') SubmitAndWait = count_list (m_device s) SubmitAndWait + 1"
  proof (cases rule: load_parsed_cases)
    case (early l)
    then show ?thesis using valid by simp
  next
    case (textures up log2 ok up1 ths s1 l)
    then show ?thesis using valid by simp
  next
    case (loaded log1 up log2 up1 ths s1 up2 log3 mhs s3 mesh_hs s4 prims md matd s5 s6)
    have l1: "log1 = m_device s @ [PoolCreate]"
      using loaded(1) by (auto simp: call_def)
    have l2: "log2 = log1 @ [UploadBegin]"
      using loaded(2) by (auto simp: BeginUploadContext_def call_def)
    have d1: "count_list (m_device s1) SubmitAndWait = count_list log2 SubmitAndWait"
      using load_textures_submits[OF loaded(3)] by simp
    have l3: "log3 = m_device s1 @ [SubmitAndWait]"
      using loaded(4) by (auto simp: EndSubmitAndWait_def call_def)
    have d3: "m_device s3 = log3 @ [PoolDestroy]"
      using load_materials_device[OF loaded(5)] by simp
    have d4: "count_list (m_device s4) SubmitAndWait = count_list (m_device s3) SubmitAndWait"
      by (rule load_meshes_submits[OF loaded(6)])
    have d5: "m_device s5 = m_device s4"
      by (rule load_primitives_device[OF loaded(7)])
    have d6: "m_device s6 = m_device s5"
      using loaded(8) by (auto simp: createModel_Internal_def Let_def)
    have "m_device s' = m_device s6"
      by (simp add: loaded(9))
    then show ?thesis
      by (simp add: d6 d5 d4 d3 l3 d1 l2 l1)
  qed
  then show ?thesis
    by (simp add: uploadEncodedImage_Deferred_submits)
qed

theorem C4_one_submit_per_uncached_load_witness:
  "m_modelPathCache new_AssetManager ''model.smodel'' = None
   \<and> loadModel env_ok ''model.smodel'' new_AssetManager = (model_1, loaded_manager)
   \<and> isValid model_1
   \<and> count_list (m_device new_AssetManager) SubmitAndWait = 0
   \<and> count_list (m_device loaded_manager) SubmitAndWait = 1"
proof -
  have a: "m_modelPathCache new_AssetManager ''model.smodel'' = None"
    by (simp add: new_AssetManager_def)
  have v: "isValid model_1"
    by (simp add: isValid_def model_1_def)
  have z: "count_list (m_device new_AssetManager) SubmitAndWait = 0"
    by (simp add: new_AssetManager_def)
  from C4_one_submit_per_uncached_load[OF a loadModel_example v]
  have "count_list (m_device loaded_manager) SubmitAndWait = 1"
    using z by simp
  then show ?thesis
    using a loadModel_example v z by simp
qed

text \<open>
  The claim as stated fails for a successful call that finds the path cached: the handle
  is valid and the device log is the one before the call, with no submit-and-wait.
\<close>

theorem C4_counterexample:
  "m_modelPathCache loaded_manager ''model.smodel'' = Some model_1
   \<and> fst (loadModel env_ok ''model.smodel'' loaded_manager) = model_1
   \<and> isValid model_1
   \<and> m_device (snd (loadModel env_ok ''model.smodel'' loaded_manager)) = m_device loaded_manager"
  by (simp add: loadModel_def loaded_manager_models(3) addRef_Model_def isValid_def)
     (simp add: model_1_def)

section \<open>A mesh upload that fails\<close>

text \<open>
  C1 at a device on which the mesh upload fails. \<open>createMeshFromData_Internal\<close> returns the
  invalid handle, and \<open>loadModel\<close> goes on: it returns a valid model handle, caches the
  path, and registers a model whose primitive carries the invalid mesh handle, while
  the mesh registry is empty.
\<close>

theorem C1_mesh_upload_failure_not_detected:
  "fst (createMeshFromData_Internal env_mesh_upload_fails
          (make_mesh_data one_of_each_file 0) ''model.smodel#mesh0'' 0 new_AssetManager)
     = invalid_handle
   \<and> fst (loadModel env_mesh_upload_fails ''model.smodel'' new_AssetManager) = model_1
   \<and> isValid model_1
   \<and> m_modelPathCache (snd (loadModel env_mesh_upload_fails ''model.smodel'' new_AssetManager))
        ''model.smodel'' = Some model_1
   \<and> m_meshes (snd (loadModel env_mesh_upload_fails ''model.smodel'' new_AssetManager)) = []
   \<and> map_option (map mp_mesh \<circ> model_primitives)
        (getModel model_1 (snd (loadModel env_mesh_upload_fails ''model.smodel'' new_AssetManager)))
       = Some [invalid_handle]"
  unfolding model_1_def loadModel_def
  by (simp_all add: new_AssetManager_def env_mesh_upload_fails_def env_ok_def one_of_each_parse,
      simp_all add: load_eval_defs one_of_each_file_def example_defs getModel_def)
section \<open>Sampler enums of texture records\<close>

lemma set_sampler_enums_fields [simp]:
  "header (set_sampler_enums g f) = header f"
  "uFileSize (set_sampler_enums g f) = uFileSize f"
  "meshes (set_sampler_enums g f) = meshes f"
  "primitives (set_sampler_enums g f) = primitives f"
  "materials (set_sampler_enums g f) = materials f"
  "nodes (set_sampler_enums g f) = nodes f"
  "nodePrimitiveIndices (set_sampler_enums g f) = nodePrimitiveIndices f"
  "nodeChildIndices (set_sampler_enums g f) = nodeChildIndices f"
  "animClips (set_sampler_enums g f) = animClips f"
  "animChannels (set_sampler_enums g f) = animChannels f"
  "animSamplers (set_sampler_enums g f) = animSamplers f"
  "animTimes (set_sampler_enums g f) = animTimes f"
  "animValues (set_sampler_enums g f) = animValues f"
  "stringTable (set_sampler_enums g f) = stringTable f"
  "blob (set_sampler_enums g f) = blob f"
  by (simp_all add: set_sampler_enums_def)

lemma set_sampler_enums_textures [simp]:
  "tex_imageDataOffset (textures (set_sampler_enums g f) i) = tex_imageDataOffset (textures f i)"
  "tex_imageDataSize (textures (set_sampler_enums g f) i) = tex_imageDataSize (textures f i)"
  "tex_colorSpace (textures (set_sampler_enums g f) i) = tex_colorSpace (textures f i)"
  "tex_maxAnisotropy (textures (set_sampler_enums g f) i) = tex_maxAnisotropy (textures f i)"
  by (simp_all add: set_sampler_enums_def case_prod_beta)

text \<open>No check of the loader reads the wrap, filter or mip filter field of a texture record.\<close>

lemma check_records_set_sampler_enums:
  "check_records (set_sampler_enums g f) = check_records f"
proof -
  have "check_mesh (set_sampler_enums g f) = check_mesh f"
    by (rule ext) (simp add: Let_def check_mesh_def del: first_failure.simps)
  moreover have "check_texture (set_sampler_enums g f) = check_texture f"
    by (rule ext) (simp add: Let_def check_texture_def del: first_failure.simps)
  moreover have "check_primitive (set_sampler_enums g f) = check_primitive f"
    by (rule ext) (simp add: Let_def check_primitive_def del: first_failure.simps)
  moreover have "check_material (set_sampler_enums g f) = check_material f"
    by (rule ext) (simp add: Let_def check_material_def checkTex_def del: first_failure.simps)
  ultimately show ?thesis
    by (simp add: Let_def check_records_def del: first_failure.simps)
qed

lemma build_view_set_sampler_enums:
  "build_view (set_sampler_enums g f) = (build_view f) \<lparr> fileBytes := set_sampler_enums g f \<rparr>"
  by (simp add: build_view_def Let_def)

lemma check_nodes_set_sampler_enums:
  "check_nodes (build_view (set_sampler_enums g f)) = check_nodes (build_view f)"
proof -
  have c: "check_node_child (set_sampler_enums g f) = check_node_child f"
    by (intro ext) (simp add: Let_def check_node_child_def del: first_failure.simps)
  have p: "check_node_primitives (set_sampler_enums g f) = check_node_primitives f"
    by (intro ext) (simp add: Let_def check_node_primitives_def del: first_failure.simps)
  have "check_node (build_view (set_sampler_enums g f)) = check_node (build_view f)"
    by (intro ext)
       (simp add: Let_def check_node_def check_node_children_def build_view_set_sampler_enums c p
          del: first_failure.simps cong: if_cong)
  then show ?thesis
    by (simp add: Let_def check_nodes_def del: first_failure.simps)
qed

lemma check_animation_set_sampler_enums:
  "check_animation (build_view (set_sampler_enums g f)) = check_animation (build_view f)"
proof -
  have "check_clip (set_sampler_enums g f) = check_clip f"
    by (intro ext) (simp add: Let_def check_clip_def del: first_failure.simps)
  moreover have "check_channel (set_sampler_enums g f) = check_channel f"
    by (intro ext) (simp add: Let_def check_channel_def del: first_failure.simps)
  moreover have "check_anim_null (build_view (set_sampler_enums g f)) = check_anim_null (build_view f)"
    by (simp add: Let_def check_anim_null_def build_view_set_sampler_enums del: first_failure.simps)
  ultimately show ?thesis
    by (simp add: Let_def check_animation_def del: first_failure.simps)
qed

lemma validate_set_sampler_enums: "validate d (set_sampler_enums g f) = validate d f"
proof -
  have "check_sampler (set_sampler_enums g f) = check_sampler f"
    by (intro ext) (simp add: Let_def check_sampler_def check_sampler_record_def check_sampler_times_def del: first_failure.simps)
  moreover have "checks_before_samplers d (set_sampler_enums g f) = checks_before_samplers d f"
    unfolding checks_before_samplers_def check_records_set_sampler_enums
      check_nodes_set_sampler_enums check_animation_set_sampler_enums
    by (simp add: Let_def check_sections_def check_record_tables_def check_node_tables_def
        check_anim_tables_def check_anim_pointers_def del: first_failure.simps)
  ultimately show ?thesis
    by (simp add: validate_def Let_def del: first_failure.simps)
qed

text \<open>Values above the largest defined one are all mapped alike.\<close>

lemma sampler_of_set_sampler_enums:
  assumes "enums_differ_out_of_range (textures f i) (g i)"
  shows "sampler_of (textures (set_sampler_enums g f) i) = sampler_of (textures f i)"
proof -
  obtain wu wv mn mg mp where gi: "g i = (wu, wv, mn, mg, mp)"
    by (metis prod_cases5)
  have w: "\<And>a b :: u32. same_or_out_of_range 2 a b \<Longrightarrow> toVkWrap b = toVkWrap a"
    by (auto simp: same_or_out_of_range_def toVkWrap_def)
  have fl: "\<And>a b :: u32. same_or_out_of_range 1 a b \<Longrightarrow> toVkFilter b = toVkFilter a"
    by (auto simp: same_or_out_of_range_def toVkFilter_def)
  have m: "\<And>a b :: u32. same_or_out_of_range 2 a b \<Longrightarrow> toVkMip b = toVkMip a"
    by (auto simp: same_or_out_of_range_def toVkMip_def)
  show ?thesis
    using assms w fl m
    by (simp add: sampler_of_def set_sampler_enums_def gi enums_differ_out_of_range_def)
qed

lemma load_textures_set_sampler_enums:
  assumes "\<forall>i. enums_differ_out_of_range (textures f i) (g i)"
  shows "load_textures env (set_sampler_enums g f) idxs up hs s = load_textures env f idxs up hs s"
proof (induction idxs arbitrary: up hs s)
  case Nil
  show ?case by simp
next
  case (Cons i idxs)
  show ?case
    using assms by (simp add: Cons.IH sampler_of_set_sampler_enums Let_def case_prod_beta)
qed

lemma load_materials_set_sampler_enums:
  "load_materials (set_sampler_enums g f) ths idxs mhs s = load_materials f ths idxs mhs s"
proof (induction idxs arbitrary: mhs s)
  case Nil
  show ?case by simp
next
  case (Cons i idxs)
  have "getStringOrEmpty (set_sampler_enums g f) = getStringOrEmpty f"
    by (intro ext) (simp add: getStringOrEmpty_def Let_def cong: if_cong)
  then have "make_material (set_sampler_enums g f) ths i = make_material f ths i"
    by (simp add: make_material_def Let_def)
  then show ?case
    by (simp add: Cons.IH Let_def case_prod_beta)
qed

lemma load_meshes_set_sampler_enums:
  "load_meshes env (set_sampler_enums g f) pth idxs hs s = load_meshes env f pth idxs hs s"
proof (induction idxs arbitrary: hs s)
  case Nil
  show ?case by simp
next
  case (Cons i idxs)
  have "make_mesh_data (set_sampler_enums g f) i = make_mesh_data f i"
    by (simp add: make_mesh_data_def Let_def cong: if_cong)
  then show ?case
    by (simp add: Cons.IH Let_def case_prod_beta)
qed

lemma load_primitives_set_sampler_enums:
  "load_primitives (set_sampler_enums g f) mesh_hs mat_hs idxs acc
     = load_primitives f mesh_hs mat_hs idxs acc"
proof (induction idxs arbitrary: acc)
  case Nil
  show ?case by simp
next
  case (Cons i idxs)
  obtain prims md matd s where acc: "acc = (prims, md, matd, s)"
    by (metis prod_cases4)
  show ?case
    by (simp add: acc Cons.IH Let_def case_prod_beta)
qed

lemma load_parsed_set_sampler_enums:
  assumes "\<forall>i. enums_differ_out_of_range (textures f i) (g i)"
  shows "load_parsed env p (build_view (set_sampler_enums g f)) s = load_parsed env p (build_view f) s"
  by (simp only: load_parsed_def Let_def fileBytes_build_view set_sampler_enums_fields
      load_textures_set_sampler_enums[OF assms] load_materials_set_sampler_enums
      load_meshes_set_sampler_enums load_primitives_set_sampler_enums)

end
